theory Spec2Isabelle
  imports Main
begin

text \<open>
  A model of the message synchronization core of the chat client: the serialization of
  \<^verbatim>\<open>ChatMessage\<close>, the connection handling of \<^verbatim>\<open>WebSocketManager\<close> and the conversation
  store of \<^verbatim>\<open>ChatManager\<close>.  Every method is a function from the state of its object to
  the state after the call; what a method raises, or how its promise settles, is a value of
  a sum type.  The clock, \<^verbatim>\<open>JSON.parse\<close>, the socket, local storage and the listeners
  are inputs of the functions that use them.
\<close>

section \<open>Run-time values\<close>

text \<open>
  The wire format is JSON and the decoders take \<^verbatim>\<open>any\<close>, so the values that cross
  the socket are dynamically typed.  \<open>jsval\<close> is a JSON value extended with
  \<^verbatim>\<open>undefined\<close> (the result of reading a property that is absent).  Numbers are
  integers: identifiers, counters and millisecond timestamps are the only numbers the
  modelled code computes with.  An object is the list of its properties.
\<close>

datatype jsval =
    JUndefined
  | JNull
  | JBool bool
  | JNum int
  | JStr string
  | JArr "jsval list"
  | JObj "(string \<times> jsval) list"

text \<open>ToBoolean: what \<^verbatim>\<open>a || b\<close> and \<^verbatim>\<open>if (a)\<close> test.\<close>

fun truthy :: "jsval \<Rightarrow> bool" where
  "truthy JUndefined = False"
| "truthy JNull = False"
| "truthy (JBool b) = b"
| "truthy (JNum n) = (n \<noteq> 0)"
| "truthy (JStr s) = (s \<noteq> [])"
| "truthy (JArr xs) = True"
| "truthy (JObj kvs) = True"

text \<open>\<^verbatim>\<open>a || b\<close>.\<close>

definition js_or :: "jsval \<Rightarrow> jsval \<Rightarrow> jsval" where
  "js_or a b = (if truthy a then a else b)"

datatype error =
    SyntaxError
  | TypeError
  | ListenerError
  | SendError
  | StorageError

text \<open>
  \<^verbatim>\<open>v.k\<close> for the property names this code reads (none of them is a built-in property
  of a string, an array, a number or a boolean): reading a property of \<^verbatim>\<open>null\<close> or
  \<^verbatim>\<open>undefined\<close> raises a TypeError, an absent property reads as \<^verbatim>\<open>undefined\<close>.
\<close>

fun getProp :: "jsval \<Rightarrow> string \<Rightarrow> error + jsval" where
  "getProp JUndefined k = Inl TypeError"
| "getProp JNull k = Inl TypeError"
| "getProp (JObj kvs) k = Inr (case map_of kvs k of None \<Rightarrow> JUndefined | Some v \<Rightarrow> v)"
| "getProp v k = Inr JUndefined"

text \<open>The same read once the receiver is known not to be \<^verbatim>\<open>null\<close> or \<^verbatim>\<open>undefined\<close>.\<close>

definition readProp :: "jsval \<Rightarrow> string \<Rightarrow> jsval" where
  "readProp v k = (case getProp v k of Inl e \<Rightarrow> JUndefined | Inr x \<Rightarrow> x)"

section \<open>ChatMessage\<close>

text \<open>
  The class as declared: \<^verbatim>\<open>id, senderId, receiverId: number; message, messageType:
  string; isRead: boolean; createdAt: Date; senderName?, senderAvatar?: string\<close>.
  A \<^verbatim>\<open>Date\<close> is its millisecond value (\<^verbatim>\<open>getTime()\<close>), a valid date; an optional
  field is an \<open>option\<close>, \<open>None\<close> for \<^verbatim>\<open>undefined\<close>.  The field \<^verbatim>\<open>id\<close> is
  \<open>mid\<close> here, \<open>id\<close> being the identity function of HOL.
\<close>

record ChatMessage =
  mid :: int
  senderId :: int
  receiverId :: int
  message :: string
  messageType :: string
  isRead :: bool
  createdAt :: int
  senderName :: "string option"
  senderAvatar :: "string option"

text \<open>
  What \<^verbatim>\<open>fromJson\<close> builds.  It assigns whatever value the JSON holds, the declared
  field types are not checked at run time, so the fields of the object it returns are
  run-time values.  \<open>o_createdAt\<close> is the argument the \<^verbatim>\<open>Date\<close> is constructed from
  (for a number, its millisecond value).
\<close>

record ChatMessageObj =
  o_id :: jsval
  o_senderId :: jsval
  o_receiverId :: jsval
  o_message :: jsval
  o_messageType :: jsval
  o_isRead :: jsval
  o_createdAt :: jsval
  o_senderName :: jsval
  o_senderAvatar :: jsval

definition optStr :: "string option \<Rightarrow> jsval" where
  "optStr x = (case x of None \<Rightarrow> JUndefined | Some s \<Rightarrow> JStr s)"

text \<open>A well-typed message seen as a run-time object, field by field.\<close>

definition toObj :: "ChatMessage \<Rightarrow> ChatMessageObj" where
  "toObj m = \<lparr> o_id = JNum (mid m), o_senderId = JNum (senderId m),
     o_receiverId = JNum (receiverId m), o_message = JStr (message m),
     o_messageType = JStr (messageType m), o_isRead = JBool (isRead m),
     o_createdAt = JNum (createdAt m), o_senderName = optStr (senderName m),
     o_senderAvatar = optStr (senderAvatar m) \<rparr>"

text \<open>\<^verbatim>\<open>ChatMessage.toJson\<close>.\<close>

definition toJson :: "ChatMessage \<Rightarrow> jsval" where
  "toJson m = JObj
     [(''id'', JNum (mid m)),
      (''senderId'', JNum (senderId m)),
      (''receiverId'', JNum (receiverId m)),
      (''message'', JStr (message m)),
      (''messageType'', JStr (messageType m)),
      (''isRead'', JBool (isRead m)),
      (''createdAt'', JNum (createdAt m)),
      (''senderName'', optStr (senderName m)),
      (''senderAvatar'', optStr (senderAvatar m))]"

text \<open>
  \<^verbatim>\<open>ChatMessage.fromJson\<close>; \<open>now\<close> is what \<^verbatim>\<open>Date.now()\<close> returns.  The first
  property read, \<^verbatim>\<open>json.id\<close>, raises when \<open>json\<close> is \<^verbatim>\<open>null\<close> or \<^verbatim>\<open>undefined\<close>.
\<close>

definition fromJson :: "int \<Rightarrow> jsval \<Rightarrow> error + ChatMessageObj" where
  "fromJson now json =
     (case getProp json ''id'' of
        Inl e \<Rightarrow> Inl e
      | Inr i \<Rightarrow> Inr
          \<lparr> o_id = js_or i (JNum 0),
            o_senderId = js_or (readProp json ''senderId'') (JNum 0),
            o_receiverId = js_or (readProp json ''receiverId'') (JNum 0),
            o_message = js_or (readProp json ''message'') (JStr ''''),
            o_messageType = js_or (readProp json ''messageType'') (JStr ''text''),
            o_isRead = js_or (readProp json ''isRead'') (JBool False),
            o_createdAt = js_or (readProp json ''createdAt'') (JNum now),
            o_senderName = js_or (readProp json ''senderName'') (JStr ''''),
            o_senderAvatar = js_or (readProp json ''senderAvatar'') (JStr '''') \<rparr>)"

section \<open>WebSocketManager\<close>

datatype WebSocketStatus = DISCONNECTED | CONNECTING | CONNECTED | ERROR

text \<open>\<^verbatim>\<open>WebSocketMessageType\<close> and \<^verbatim>\<open>WebSocketEventType\<close>.\<close>

definition REGISTER :: string where "REGISTER = ''register''"
definition SEND_PRIVATE_MESSAGE :: string where "SEND_PRIVATE_MESSAGE = ''send_private_message''"
definition MARK_AS_READ :: string where "MARK_AS_READ = ''mark_as_read''"
definition GET_ONLINE_STATUS :: string where "GET_ONLINE_STATUS = ''get_online_status''"

definition RECEIVE_PRIVATE_MESSAGE :: string where
  "RECEIVE_PRIVATE_MESSAGE = ''receive_private_message''"
definition MESSAGE_SENT :: string where "MESSAGE_SENT = ''message_sent''"
definition MESSAGE_READ :: string where "MESSAGE_READ = ''message_read''"
definition ONLINE_STATUS :: string where "ONLINE_STATUS = ''online_status''"
definition OFFLINE_MESSAGES :: string where "OFFLINE_MESSAGES = ''offline_messages''"

text \<open>
  The callbacks of \<^verbatim>\<open>WebSocketConnectionListener\<close> and \<^verbatim>\<open>WebSocketMessageListener\<close>,
  with their arguments.  A listener is an object outside this class; the model numbers the
  registered listeners and records every call made to one.
\<close>

datatype conn_call = OnConnected | OnDisconnected | OnError string

datatype msg_call =
    OnMessageReceived ChatMessageObj
  | OnMessageSent jsval jsval
  | OnMessageRead jsval
  | OnOnlineStatusReceived jsval
  | OnOfflineMessagesReceived "ChatMessageObj list"

text \<open>The lines written to the console.\<close>

datatype log_line =
    LogAlreadyConnecting
  | LogConnectFailed
  | LogOpened
  | LogClosed
  | LogSocketError
  | LogNotConnected
  | LogSendOk string jsval
  | LogSendFailed
  | LogReceived jsval
  | LogUnknownEvent jsval
  | LogHandleFailed error
  | LogReconnectLimit
  | LogReconnectIn nat nat

text \<open>
  The fields of the class, followed by the part of the platform it acts on: the number of
  sockets created, the frames handed to \<^verbatim>\<open>webSocket.send\<close> that it accepted, the delays
  passed to \<^verbatim>\<open>setTimeout\<close> in call order (the handle of a timer is its position,
  counted from 1), the handles passed to \<^verbatim>\<open>clearTimeout\<close>, the calls made to listeners
  and the console.
\<close>

record WebSocketManager =
  webSocket :: "nat option"
  url :: string
  status :: WebSocketStatus
  connectionListeners :: "nat list"
  messageListeners :: "nat list"
  reconnectTimer :: "nat option"
  reconnectAttempts :: nat
  maxReconnectAttempts :: nat
  reconnectDelay :: nat
  sockets :: nat
  transport :: "(string \<times> jsval) list"
  timers :: "nat list"
  cleared :: "nat list"
  connCalls :: "(nat \<times> conn_call) list"
  msgCalls :: "(nat \<times> msg_call) list"
  console :: "log_line list"

text \<open>The instance as its field initialisers leave it.\<close>

definition newWebSocketManager :: WebSocketManager where
  "newWebSocketManager =
     \<lparr> webSocket = None, url = '''', status = DISCONNECTED, connectionListeners = [],
       messageListeners = [], reconnectTimer = None, reconnectAttempts = 0,
       maxReconnectAttempts = 5, reconnectDelay = 3000, sockets = 0, transport = [],
       timers = [], cleared = [], connCalls = [], msgCalls = [], console = [] \<rparr>"

definition addConnectionListener :: "nat \<Rightarrow> WebSocketManager \<Rightarrow> WebSocketManager" where
  "addConnectionListener l w = w\<lparr>connectionListeners := connectionListeners w @ [l]\<rparr>"

definition addMessageListener :: "nat \<Rightarrow> WebSocketManager \<Rightarrow> WebSocketManager" where
  "addMessageListener l w = w\<lparr>messageListeners := messageListeners w @ [l]\<rparr>"

text \<open>The text \<^verbatim>\<open>notifyConnectionListeners\<close> falls back to (``unknown error''), in UTF-8.\<close>

definition unknownError :: string where
  "unknownError = [CHR 0xE6, CHR 0x9C, CHR 0xAA, CHR 0xE7, CHR 0x9F, CHR 0xA5,
                   CHR 0xE9, CHR 0x94, CHR 0x99, CHR 0xE8, CHR 0xAF, CHR 0xAF]"

text \<open>\<^verbatim>\<open>error || '...'\<close> on an optional string.\<close>

definition strOr :: "string option \<Rightarrow> string \<Rightarrow> string" where
  "strOr x d = (case x of None \<Rightarrow> d | Some s \<Rightarrow> if s = [] then d else s)"

text \<open>
  \<^verbatim>\<open>notifyConnectionListeners(event, error?)\<close>: every connection listener, in
  registration order, gets the callback the event string selects.  The callbacks are
  taken to return normally.
\<close>

definition notifyConnectionListeners ::
    "string \<Rightarrow> string option \<Rightarrow> WebSocketManager \<Rightarrow> WebSocketManager" where
  "notifyConnectionListeners event err w =
     (if event = ''connected'' then
        w\<lparr>connCalls := connCalls w @ map (\<lambda>l. (l, OnConnected)) (connectionListeners w)\<rparr>
      else if event = ''disconnected'' then
        w\<lparr>connCalls := connCalls w @ map (\<lambda>l. (l, OnDisconnected)) (connectionListeners w)\<rparr>
      else if event = ''error'' then
        w\<lparr>connCalls := connCalls w @
           map (\<lambda>l. (l, OnError (strOr err unknownError))) (connectionListeners w)\<rparr>
      else w)"

text \<open>\<^verbatim>\<open>scheduleReconnect\<close>.  \<^verbatim>\<open>if (this.reconnectTimer)\<close> holds for a nonzero handle.\<close>

definition scheduleReconnect :: "WebSocketManager \<Rightarrow> WebSocketManager" where
  "scheduleReconnect w =
     (if reconnectAttempts w \<ge> maxReconnectAttempts w then
        w\<lparr>console := console w @ [LogReconnectLimit]\<rparr>
      else
        let w1 = (case reconnectTimer w of
                    None \<Rightarrow> w
                  | Some h \<Rightarrow> if h \<noteq> 0 then w\<lparr>cleared := cleared w @ [h]\<rparr> else w);
            w2 = w1\<lparr>reconnectAttempts := reconnectAttempts w1 + 1\<rparr>;
            delay = reconnectDelay w2 * reconnectAttempts w2;
            w3 = w2\<lparr>console := console w2 @ [LogReconnectIn delay (reconnectAttempts w2)]\<rparr>
        in w3\<lparr>timers := timers w3 @ [delay],
               reconnectTimer := Some (length (timers w3) + 1)\<rparr>)"

text \<open>
  The three handlers \<^verbatim>\<open>connect\<close> registers on the socket.  \<open>err\<close> is
  \<^verbatim>\<open>error.message\<close>.
\<close>

definition onOpen :: "WebSocketManager \<Rightarrow> WebSocketManager" where
  "onOpen w =
     notifyConnectionListeners ''connected'' None
       (w\<lparr>console := console w @ [LogOpened], status := CONNECTED, reconnectAttempts := 0\<rparr>)"

definition onClose :: "WebSocketManager \<Rightarrow> WebSocketManager" where
  "onClose w =
     scheduleReconnect
       (notifyConnectionListeners ''disconnected'' None
          (w\<lparr>console := console w @ [LogClosed], status := DISCONNECTED\<rparr>))"

definition onError :: "string option \<Rightarrow> WebSocketManager \<Rightarrow> WebSocketManager" where
  "onError err w =
     scheduleReconnect
       (notifyConnectionListeners ''error'' err
          (w\<lparr>console := console w @ [LogSocketError], status := ERROR\<rparr>))"

text \<open>
  \<^verbatim>\<open>connect(url)\<close>.  What the platform does inside the \<^verbatim>\<open>try\<close> is an input:
  the socket is created and the connection started, or \<^verbatim>\<open>createWebSocket\<close> raises, or
  \<^verbatim>\<open>webSocket.connect\<close> rejects (both with the error's message).
\<close>

datatype connect_outcome =
    Started
  | CreateFailed "string option"
  | ConnectFailed "string option"

definition connectCatch :: "string option \<Rightarrow> WebSocketManager \<Rightarrow> WebSocketManager" where
  "connectCatch err w =
     scheduleReconnect
       (notifyConnectionListeners ''error'' err
          (w\<lparr>console := console w @ [LogConnectFailed], status := ERROR\<rparr>))"

definition connect :: "string \<Rightarrow> connect_outcome \<Rightarrow> WebSocketManager \<Rightarrow> WebSocketManager" where
  "connect u outcome w =
     (if status w = CONNECTING \<or> status w = CONNECTED then
        w\<lparr>console := console w @ [LogAlreadyConnecting]\<rparr>
      else
        let w1 = w\<lparr>url := u, status := CONNECTING\<rparr> in
        (case outcome of
           CreateFailed err \<Rightarrow> connectCatch err w1
         | Started \<Rightarrow>
             w1\<lparr>webSocket := Some (sockets w1 + 1), sockets := sockets w1 + 1\<rparr>
         | ConnectFailed err \<Rightarrow>
             connectCatch err
               (w1\<lparr>webSocket := Some (sockets w1 + 1), sockets := sockets w1 + 1\<rparr>)))"

text \<open>The callback \<^verbatim>\<open>scheduleReconnect\<close> hands to \<^verbatim>\<open>setTimeout\<close>.\<close>

definition timerFired :: "connect_outcome \<Rightarrow> WebSocketManager \<Rightarrow> WebSocketManager" where
  "timerFired outcome w = connect (url w) outcome w"

text \<open>
  \<^verbatim>\<open>emit(event, data)\<close>.  The result is how the returned promise settles: \<open>Inr ()\<close>
  when it resolves, \<open>Inl e\<close> when it rejects.  \<open>sendOk\<close> tells whether
  \<^verbatim>\<open>webSocket.send\<close> accepts the frame.  The frame is the object that is serialized.
\<close>

definition emit ::
    "bool \<Rightarrow> string \<Rightarrow> jsval \<Rightarrow> WebSocketManager \<Rightarrow> (error + unit) \<times> WebSocketManager" where
  "emit sendOk event data w =
     (if status w \<noteq> CONNECTED \<or> webSocket w = None then
        (Inr (), w\<lparr>console := console w @ [LogNotConnected]\<rparr>)
      else if sendOk then
        (Inr (), w\<lparr>transport := transport w @ [(event, data)],
                    console := console w @ [LogSendOk event data]\<rparr>)
      else
        (Inl SendError, w\<lparr>console := console w @ [LogSendFailed]\<rparr>))"

text \<open>\<^verbatim>\<open>SendMessageRequest.toJson\<close> and \<^verbatim>\<open>MarkAsReadRequest.toJson\<close>.\<close>

definition sendMessageRequestJson :: "int \<Rightarrow> int \<Rightarrow> string \<Rightarrow> string \<Rightarrow> jsval" where
  "sendMessageRequestJson sender receiver body kind =
     JObj [(''senderId'', JNum sender), (''receiverId'', JNum receiver),
           (''message'', JStr body), (''messageType'', JStr kind)]"

definition markAsReadRequestJson :: "int \<Rightarrow> int \<Rightarrow> jsval" where
  "markAsReadRequestJson user sender =
     JObj [(''userId'', JNum user), (''senderId'', JNum sender)]"

definition register :: "bool \<Rightarrow> int \<Rightarrow> WebSocketManager \<Rightarrow> (error + unit) \<times> WebSocketManager" where
  "register sendOk userId w = emit sendOk REGISTER (JNum userId) w"

definition sendPrivateMessage ::
    "bool \<Rightarrow> jsval \<Rightarrow> WebSocketManager \<Rightarrow> (error + unit) \<times> WebSocketManager" where
  "sendPrivateMessage sendOk request w = emit sendOk SEND_PRIVATE_MESSAGE request w"

definition wsMarkAsRead ::
    "bool \<Rightarrow> jsval \<Rightarrow> WebSocketManager \<Rightarrow> (error + unit) \<times> WebSocketManager" where
  "wsMarkAsRead sendOk request w = emit sendOk MARK_AS_READ request w"

subsection \<open>Inbound frames\<close>

text \<open>
  \<^verbatim>\<open>this.messageListeners.forEach(listener => listener.cb(args))\<close>.  The arguments
  are evaluated inside the loop body, so a failing property read raises only when there
  is a listener.  \<open>throws l c\<close> tells whether listener \<open>l\<close> raises on call \<open>c\<close>;
  an exception ends the loop.
\<close>

fun forEachListener ::
    "(nat \<Rightarrow> msg_call \<Rightarrow> bool) \<Rightarrow> (error + msg_call) \<Rightarrow> nat list \<Rightarrow> WebSocketManager
       \<Rightarrow> (error + unit) \<times> WebSocketManager" where
  "forEachListener throws arg [] w = (Inr (), w)"
| "forEachListener throws arg (l # ls) w =
     (case arg of
        Inl e \<Rightarrow> (Inl e, w)
      | Inr c \<Rightarrow>
          let w' = w\<lparr>msgCalls := msgCalls w @ [(l, c)]\<rparr> in
          if throws l c then (Inl ListenerError, w')
          else forEachListener throws arg ls w')"

definition handlePrivateMessage ::
    "(nat \<Rightarrow> msg_call \<Rightarrow> bool) \<Rightarrow> int \<Rightarrow> jsval \<Rightarrow> WebSocketManager
       \<Rightarrow> (error + unit) \<times> WebSocketManager" where
  "handlePrivateMessage throws now data w =
     (case fromJson now data of
        Inl e \<Rightarrow> (Inl e, w)
      | Inr m \<Rightarrow> forEachListener throws (Inr (OnMessageReceived m)) (messageListeners w) w)"

definition handleMessageSent ::
    "(nat \<Rightarrow> msg_call \<Rightarrow> bool) \<Rightarrow> jsval \<Rightarrow> WebSocketManager
       \<Rightarrow> (error + unit) \<times> WebSocketManager" where
  "handleMessageSent throws data w =
     forEachListener throws
       (case getProp data ''success'' of
          Inl e \<Rightarrow> Inl e
        | Inr ok \<Rightarrow> Inr (OnMessageSent ok (readProp data ''messageId'')))
       (messageListeners w) w"

definition handleMessageRead ::
    "(nat \<Rightarrow> msg_call \<Rightarrow> bool) \<Rightarrow> jsval \<Rightarrow> WebSocketManager
       \<Rightarrow> (error + unit) \<times> WebSocketManager" where
  "handleMessageRead throws data w =
     forEachListener throws
       (case getProp data ''readerId'' of
          Inl e \<Rightarrow> Inl e
        | Inr r \<Rightarrow> Inr (OnMessageRead r))
       (messageListeners w) w"

definition handleOnlineStatus ::
    "(nat \<Rightarrow> msg_call \<Rightarrow> bool) \<Rightarrow> jsval \<Rightarrow> WebSocketManager
       \<Rightarrow> (error + unit) \<times> WebSocketManager" where
  "handleOnlineStatus throws data w =
     forEachListener throws (Inr (OnOnlineStatusReceived data)) (messageListeners w) w"

text \<open>\<^verbatim>\<open>xs.map(msg => ChatMessage.fromJson(msg))\<close>: the first failing element ends it.
  The clock is read once for the batch.\<close>

fun mapFromJson :: "int \<Rightarrow> jsval list \<Rightarrow> error + ChatMessageObj list" where
  "mapFromJson now [] = Inr []"
| "mapFromJson now (x # xs) =
     (case fromJson now x of
        Inl e \<Rightarrow> Inl e
      | Inr m \<Rightarrow> (case mapFromJson now xs of Inl e \<Rightarrow> Inl e | Inr ms \<Rightarrow> Inr (m # ms)))"

text \<open>
  \<^verbatim>\<open>handleOfflineMessages\<close>.  \<^verbatim>\<open>data.messages.map\<close> is a function only when
  \<^verbatim>\<open>data.messages\<close> is an array; on anything else the call raises a TypeError.  The
  filter \<^verbatim>\<open>msg !== null\<close> keeps every element, \<^verbatim>\<open>fromJson\<close> returning an object.
\<close>

definition handleOfflineMessages ::
    "(nat \<Rightarrow> msg_call \<Rightarrow> bool) \<Rightarrow> int \<Rightarrow> jsval \<Rightarrow> WebSocketManager
       \<Rightarrow> (error + unit) \<times> WebSocketManager" where
  "handleOfflineMessages throws now data w =
     (case getProp data ''messages'' of
        Inl e \<Rightarrow> (Inl e, w)
      | Inr (JArr xs) \<Rightarrow>
          (case mapFromJson now xs of
             Inl e \<Rightarrow> (Inl e, w)
           | Inr ms \<Rightarrow>
               forEachListener throws (Inr (OnOfflineMessagesReceived ms)) (messageListeners w) w)
      | Inr other \<Rightarrow> (Inl TypeError, w))"

text \<open>
  The body of the \<^verbatim>\<open>try\<close> in \<^verbatim>\<open>handleMessage\<close>.  \<open>parse\<close> is \<^verbatim>\<open>JSON.parse\<close>,
  \<open>None\<close> where it raises a SyntaxError.
\<close>

definition handleMessageTry ::
    "(string \<Rightarrow> jsval option) \<Rightarrow> (nat \<Rightarrow> msg_call \<Rightarrow> bool) \<Rightarrow> int \<Rightarrow> string \<Rightarrow> WebSocketManager
       \<Rightarrow> (error + unit) \<times> WebSocketManager" where
  "handleMessageTry parse throws now raw w =
     (case parse raw of
        None \<Rightarrow> (Inl SyntaxError, w)
      | Some msg \<Rightarrow>
          let w1 = w\<lparr>console := console w @ [LogReceived msg]\<rparr> in
          (case getProp msg ''event'' of
             Inl e \<Rightarrow> (Inl e, w1)
           | Inr ev \<Rightarrow>
               if ev = JStr RECEIVE_PRIVATE_MESSAGE then
                 handlePrivateMessage throws now (readProp msg ''data'') w1
               else if ev = JStr MESSAGE_SENT then
                 handleMessageSent throws (readProp msg ''data'') w1
               else if ev = JStr MESSAGE_READ then
                 handleMessageRead throws (readProp msg ''data'') w1
               else if ev = JStr ONLINE_STATUS then
                 handleOnlineStatus throws (readProp msg ''data'') w1
               else if ev = JStr OFFLINE_MESSAGES then
                 handleOfflineMessages throws now (readProp msg ''data'') w1
               else (Inr (), w1\<lparr>console := console w1 @ [LogUnknownEvent ev]\<rparr>)))"

text \<open>\<^verbatim>\<open>handleMessage\<close>: the \<^verbatim>\<open>catch\<close> logs whatever the body raised.\<close>

definition handleMessage ::
    "(string \<Rightarrow> jsval option) \<Rightarrow> (nat \<Rightarrow> msg_call \<Rightarrow> bool) \<Rightarrow> int \<Rightarrow> string \<Rightarrow> WebSocketManager
       \<Rightarrow> WebSocketManager" where
  "handleMessage parse throws now raw w =
     (case handleMessageTry parse throws now raw w of
        (Inl e, w') \<Rightarrow> w'\<lparr>console := console w' @ [LogHandleFailed e]\<rparr>
      | (Inr u, w') \<Rightarrow> w')"

subsection \<open>Runs of socket events\<close>

text \<open>
  What the platform can deliver to the manager between two calls of the application: the
  socket opens, closes or reports an error, or the reconnect timer fires.
\<close>

datatype ws_input =
    EvOpen
  | EvClose
  | EvError "string option"
  | EvTimer connect_outcome

fun step :: "ws_input \<Rightarrow> WebSocketManager \<Rightarrow> WebSocketManager" where
  "step EvOpen w = onOpen w"
| "step EvClose w = onClose w"
| "step (EvError err) w = onError err w"
| "step (EvTimer outcome) w = timerFired outcome w"

fun run :: "ws_input list \<Rightarrow> WebSocketManager \<Rightarrow> WebSocketManager" where
  "run [] w = w"
| "run (e # es) w = run es (step e w)"

text \<open>
  A connection failure is an input that reaches \<^verbatim>\<open>scheduleReconnect\<close>: a close, an
  error, or a timer whose connection attempt raises (it raises only when the attempt is
  made, that is when the manager is neither connecting nor connected).
\<close>

fun isFailure :: "ws_input \<Rightarrow> WebSocketManager \<Rightarrow> bool" where
  "isFailure EvOpen w = False"
| "isFailure EvClose w = True"
| "isFailure (EvError err) w = True"
| "isFailure (EvTimer outcome) w =
     (outcome \<noteq> Started \<and> status w \<noteq> CONNECTING \<and> status w \<noteq> CONNECTED)"

fun failures :: "ws_input list \<Rightarrow> WebSocketManager \<Rightarrow> nat" where
  "failures [] w = 0"
| "failures (e # es) w = (if isFailure e w then 1 else 0) + failures es (step e w)"

definition noOpen :: "ws_input list \<Rightarrow> bool" where
  "noOpen es = (EvOpen \<notin> set es)"

text \<open>
  The timers that are still to fire as far as \<^verbatim>\<open>clearTimeout\<close> goes: the handles
  \<^verbatim>\<open>setTimeout\<close> returned (1, 2, ... in call order) that were never passed to
  \<^verbatim>\<open>clearTimeout\<close>; and the delay a handle was set with.
\<close>

definition uncancelled :: "WebSocketManager \<Rightarrow> nat list" where
  "uncancelled w = filter (\<lambda>h. h \<notin> set (cleared w)) [1..<Suc (length (timers w))]"

definition delayOf :: "WebSocketManager \<Rightarrow> nat \<Rightarrow> nat" where
  "delayOf w h = timers w ! (h - 1)"

text \<open>
  The bookkeeping of the timer handles is in order: only handles that were issued have
  been cleared, \<^verbatim>\<open>reconnectTimer\<close> holds an issued handle or \<^verbatim>\<open>null\<close>, and every timer
  that was not cleared is the one \<^verbatim>\<open>reconnectTimer\<close> holds.
\<close>

definition tracked :: "WebSocketManager \<Rightarrow> bool" where
  "tracked w =
     (list_all (\<lambda>h. h \<le> length (timers w)) (cleared w)
      \<and> (case reconnectTimer w of None \<Rightarrow> True | Some h \<Rightarrow> 1 \<le> h \<and> h \<le> length (timers w))
      \<and> list_all (\<lambda>h. reconnectTimer w = Some h) (uncancelled w))"

text \<open>
  A sample frame, as text: \<^verbatim>\<open>{"event":"receive_private_message","data":{}}\<close>
  (\<open>CHR 0x22\<close> is the double quote), and what \<^verbatim>\<open>JSON.parse\<close> makes of it.
\<close>

definition emptyDataFrame :: string where
  "emptyDataFrame =
     ''{'' @ [CHR 0x22] @ ''event'' @ [CHR 0x22] @ '':'' @ [CHR 0x22] @ ''receive_private_message''
       @ [CHR 0x22] @ '','' @ [CHR 0x22] @ ''data'' @ [CHR 0x22] @ '':{}}''"

definition emptyDataFrameJson :: jsval where
  "emptyDataFrameJson = JObj [(''event'', JStr ''receive_private_message''), (''data'', JObj [])]"

section \<open>ChatManager\<close>

text \<open>
  \<^verbatim>\<open>ChatConversation\<close>, with the fields of its declaration: \<^verbatim>\<open>id, otherUserId,
  otherUserName, otherUserAvatar, lastMessage, lastMessageTime, unreadCount, createdAt\<close>.
  As for a message, the declared field types are not checked at run time, so a field holds
  whatever value was assigned to it.  \<^verbatim>\<open>unreadCount\<close> is a number in every conversation
  the constructor builds (its default is 0) and \<^verbatim>\<open>++\<close> keeps it one; it is an integer
  here.  The field \<^verbatim>\<open>id\<close> is \<open>cid\<close> and \<^verbatim>\<open>createdAt\<close> is \<open>convCreatedAt\<close>.
\<close>

record ChatConversation =
  cid :: jsval
  otherUserId :: jsval
  otherUserName :: jsval
  otherUserAvatar :: jsval
  lastMessage :: jsval
  lastMessageTime :: jsval
  unreadCount :: int
  convCreatedAt :: jsval

text \<open>The callbacks of \<^verbatim>\<open>ChatListener\<close> that the modelled methods make.\<close>

datatype chat_call =
    ChatMessageReceived ChatMessageObj
  | ChatMessageSent jsval jsval
  | ChatMessageRead jsval
  | ChatConnected
  | ChatDisconnected
  | ChatError string

text \<open>
  The fields of the class, followed by the calls made to the registered listeners.
  \<^verbatim>\<open>messageCache\<close> is a \<^verbatim>\<open>Map\<close>; its keys and the messages in it are run-time
  values.  A \<^verbatim>\<open>Map\<close> key and the operands of \<^verbatim>\<open>===\<close> are compared by value when they
  are numbers, strings, booleans, \<^verbatim>\<open>null\<close> or \<^verbatim>\<open>undefined\<close>, as the equality of HOL
  does; the theorems below are about keys and peer ids that are numbers.  Two entries of a
  list that are the same object are two equal entries here: every update the class makes
  of a stored message depends on the value of the message alone, so both get it.
\<close>

record ChatManager =
  webSocketManager :: WebSocketManager
  listeners :: "nat list"
  currentUserId :: int
  messageCache :: "jsval \<rightharpoonup> ChatMessageObj list"
  conversationCache :: "ChatConversation list"
  chatCalls :: "(nat \<times> chat_call) list"

definition newChatManager :: ChatManager where
  "newChatManager =
     \<lparr> webSocketManager = newWebSocketManager, listeners = [], currentUserId = -1,
       messageCache = Map.empty, conversationCache = [], chatCalls = [] \<rparr>"

text \<open>\<^verbatim>\<open>this.messageCache.get(userId) || []\<close>.\<close>

definition cached :: "ChatManager \<Rightarrow> jsval \<Rightarrow> ChatMessageObj list" where
  "cached s userId = (case messageCache s userId of None \<Rightarrow> [] | Some ms \<Rightarrow> ms)"

text \<open>\<^verbatim>\<open>addMessageToCache\<close>.\<close>

definition addMessageToCache :: "jsval \<Rightarrow> ChatMessageObj \<Rightarrow> ChatManager \<Rightarrow> ChatManager" where
  "addMessageToCache userId m s =
     s\<lparr>messageCache := (messageCache s)(userId \<mapsto> cached s userId @ [m])\<rparr>"

text \<open>The two literals of the class, in UTF-8: the fallback peer name (``unknown user'')
  and the sender name of a local message (``me'').\<close>

definition unknownUser :: string where
  "unknownUser = [CHR 0xE6, CHR 0x9C, CHR 0xAA, CHR 0xE7, CHR 0x9F, CHR 0xA5,
                  CHR 0xE7, CHR 0x94, CHR 0xA8, CHR 0xE6, CHR 0x88, CHR 0xB7]"

definition localSenderName :: string where
  "localSenderName = [CHR 0xE6, CHR 0x88, CHR 0x91]"

text \<open>
  The constructor of \<^verbatim>\<open>ChatConversation\<close> called with two arguments, as
  \<^verbatim>\<open>updateConversationWithMessage\<close> calls it.  The declared parameters are
  \<^verbatim>\<open>(id, otherUserId, otherUserName, otherUserAvatar?, lastMessage?, lastMessageTime?,
  unreadCount = 0, createdAt = new Date())\<close>: the first argument becomes the \<^verbatim>\<open>id\<close>, the
  second the \<^verbatim>\<open>otherUserId\<close>, every parameter after them is \<^verbatim>\<open>undefined\<close> and the last
  two take their defaults.  \<open>now\<close> is the value of \<^verbatim>\<open>new Date()\<close>.
\<close>

definition newChatConversation :: "int \<Rightarrow> jsval \<Rightarrow> jsval \<Rightarrow> ChatConversation" where
  "newChatConversation now a1 a2 =
     \<lparr> cid = a1, otherUserId = a2, otherUserName = JUndefined, otherUserAvatar = JUndefined,
       lastMessage = JUndefined, lastMessageTime = JUndefined, unreadCount = 0,
       convCreatedAt = JNum now \<rparr>"

text \<open>
  The constructor of \<^verbatim>\<open>ChatMessage\<close> called with three arguments, as \<^verbatim>\<open>sendMessage\<close>
  calls it.  The declared parameters are \<^verbatim>\<open>(id, senderId, receiverId, message,
  messageType = 'text', isRead = false, createdAt = new Date(), senderName?,
  senderAvatar?)\<close>: the three arguments become \<^verbatim>\<open>id\<close>, \<^verbatim>\<open>senderId\<close> and
  \<^verbatim>\<open>receiverId\<close>, and \<^verbatim>\<open>message\<close> is \<^verbatim>\<open>undefined\<close>.
\<close>

definition newChatMessage :: "int \<Rightarrow> jsval \<Rightarrow> jsval \<Rightarrow> jsval \<Rightarrow> ChatMessageObj" where
  "newChatMessage now a1 a2 a3 =
     \<lparr> o_id = a1, o_senderId = a2, o_receiverId = a3, o_message = JUndefined,
       o_messageType = JStr ''text'', o_isRead = JBool False, o_createdAt = JNum now,
       o_senderName = JUndefined, o_senderAvatar = JUndefined \<rparr>"

text \<open>
  \<^verbatim>\<open>xs.splice(xs.indexOf(x), 1)\<close> for the \<open>x\<close> that \<^verbatim>\<open>xs.find(P)\<close> returned: the
  first element satisfying \<open>P\<close> is removed.  And the in-place update of that element.
\<close>

fun removeFirst :: "('a \<Rightarrow> bool) \<Rightarrow> 'a list \<Rightarrow> 'a list" where
  "removeFirst P [] = []"
| "removeFirst P (x # xs) = (if P x then xs else x # removeFirst P xs)"

fun updateFirst :: "('a \<Rightarrow> bool) \<Rightarrow> ('a \<Rightarrow> 'a) \<Rightarrow> 'a list \<Rightarrow> 'a list" where
  "updateFirst P f [] = []"
| "updateFirst P f (x # xs) = (if P x then f x # xs else x # updateFirst P f xs)"

text \<open>
  The two steps of \<^verbatim>\<open>updateConversationWithMessage\<close> around the search: the other
  participant of a message (\<^verbatim>\<open>senderId === currentUserId ? receiverId : senderId\<close>), and
  what the method does to the conversation it found or created: the last message and its
  time are set, and \<^verbatim>\<open>unreadCount++\<close> when the message is not from the current user.
\<close>

definition otherOf :: "ChatManager \<Rightarrow> ChatMessageObj \<Rightarrow> jsval" where
  "otherOf s m = (if o_senderId m = JNum (currentUserId s) then o_receiverId m else o_senderId m)"

definition touched :: "ChatManager \<Rightarrow> ChatMessageObj \<Rightarrow> ChatConversation \<Rightarrow> ChatConversation" where
  "touched s m c =
     (if o_senderId m \<noteq> JNum (currentUserId s)
      then c\<lparr>lastMessage := o_message m, lastMessageTime := o_createdAt m,
             unreadCount := unreadCount c + 1\<rparr>
      else c\<lparr>lastMessage := o_message m, lastMessageTime := o_createdAt m\<rparr>)"

text \<open>
  \<^verbatim>\<open>updateConversationWithMessage\<close>.  The conversation is looked up by
  \<^verbatim>\<open>c.otherUserId === otherUserId\<close>; when none is found one is constructed from
  \<^verbatim>\<open>(otherUserId, message.senderName || '...')\<close> and put in front, otherwise the one found
  is moved to the front.
\<close>

definition updateConversationWithMessage ::
    "int \<Rightarrow> ChatMessageObj \<Rightarrow> ChatManager \<Rightarrow> ChatManager" where
  "updateConversationWithMessage now m s =
     (case find (\<lambda>c. otherUserId c = otherOf s m) (conversationCache s) of
        None \<Rightarrow>
          s\<lparr>conversationCache :=
              touched s m
                (newChatConversation now (otherOf s m) (js_or (o_senderName m) (JStr unknownUser)))
              # conversationCache s\<rparr>
      | Some c \<Rightarrow>
          s\<lparr>conversationCache :=
              touched s m c
              # removeFirst (\<lambda>c. otherUserId c = otherOf s m) (conversationCache s)\<rparr>)"

text \<open>\<^verbatim>\<open>updateConversationUnreadCount\<close>.\<close>

definition updateConversationUnreadCount :: "jsval \<Rightarrow> int \<Rightarrow> ChatManager \<Rightarrow> ChatManager" where
  "updateConversationUnreadCount userId count s =
     s\<lparr>conversationCache :=
         updateFirst (\<lambda>c. otherUserId c = userId) (\<lambda>c. c\<lparr>unreadCount := count\<rparr>)
           (conversationCache s)\<rparr>"

text \<open>The \<^verbatim>\<open>notify...\<close> methods: every listener, in registration order.  The
  callbacks are taken to return normally.\<close>

definition notify :: "chat_call \<Rightarrow> ChatManager \<Rightarrow> ChatManager" where
  "notify c s = s\<lparr>chatCalls := chatCalls s @ map (\<lambda>l. (l, c)) (listeners s)\<rparr>"

text \<open>
  \<^verbatim>\<open>handleNewMessage\<close>.  The write to local storage is started and not awaited, so its
  outcome does not reach this method.
\<close>

definition handleNewMessage :: "int \<Rightarrow> ChatMessageObj \<Rightarrow> ChatManager \<Rightarrow> ChatManager" where
  "handleNewMessage now m s =
     notify (ChatMessageReceived m)
       (updateConversationWithMessage now m (addMessageToCache (o_senderId m) m s))"

text \<open>\<^verbatim>\<open>handleOfflineMessages\<close> of \<^verbatim>\<open>ChatManager\<close>: \<^verbatim>\<open>handleNewMessage\<close> on each
  message of the batch, in order.\<close>

fun chatHandleOfflineMessages ::
    "int \<Rightarrow> ChatMessageObj list \<Rightarrow> ChatManager \<Rightarrow> ChatManager" where
  "chatHandleOfflineMessages now [] s = s"
| "chatHandleOfflineMessages now (m # ms) s =
     chatHandleOfflineMessages now ms (handleNewMessage now m s)"

text \<open>
  What \<^verbatim>\<open>handleMessageRead\<close> and \<^verbatim>\<open>markAsRead\<close> do to one message of the list they
  walk: \<^verbatim>\<open>if (msg.senderId === readerId) msg.isRead = true\<close>, and
  \<^verbatim>\<open>if (msg.senderId === senderId && !msg.isRead) msg.isRead = true\<close>.
\<close>

definition markRead :: "jsval \<Rightarrow> ChatMessageObj \<Rightarrow> ChatMessageObj" where
  "markRead p msg = (if o_senderId msg = p then msg\<lparr>o_isRead := JBool True\<rparr> else msg)"

definition markUnread :: "jsval \<Rightarrow> ChatMessageObj \<Rightarrow> ChatMessageObj" where
  "markUnread p msg =
     (if o_senderId msg = p \<and> \<not> truthy (o_isRead msg) then msg\<lparr>o_isRead := JBool True\<rparr>
      else msg)"

text \<open>\<^verbatim>\<open>handleMessageRead\<close> of \<^verbatim>\<open>ChatManager\<close>.\<close>

definition chatHandleMessageRead :: "jsval \<Rightarrow> ChatManager \<Rightarrow> ChatManager" where
  "chatHandleMessageRead readerId s =
     notify (ChatMessageRead readerId)
       (case messageCache s readerId of
          None \<Rightarrow> s
        | Some ms \<Rightarrow> s\<lparr>messageCache := (messageCache s)(readerId \<mapsto> map (markRead readerId) ms)\<rparr>)"

text \<open>The \<^verbatim>\<open>onMessageSent\<close> callback \<^verbatim>\<open>setupWebSocketListeners\<close> registers.\<close>

definition chatOnMessageSent :: "jsval \<Rightarrow> jsval \<Rightarrow> ChatManager \<Rightarrow> ChatManager" where
  "chatOnMessageSent success messageId s = notify (ChatMessageSent success messageId) s"

text \<open>
  \<^verbatim>\<open>markAsRead(senderId)\<close> is an \<^verbatim>\<open>async\<close> method with two \<^verbatim>\<open>await\<close>s.  Up to the
  first one it runs at once: the request is built, the messages of the list of
  \<open>sender\<close> are marked and the unread count of the conversation is reset; it then waits
  for local storage, holding the request.
\<close>

definition markAsReadBegin :: "int \<Rightarrow> ChatManager \<Rightarrow> jsval \<times> ChatManager" where
  "markAsReadBegin sender s =
     (let request = markAsReadRequestJson (currentUserId s) sender;
          s1 = (case messageCache s (JNum sender) of
                  None \<Rightarrow> s
                | Some ms \<Rightarrow>
                    s\<lparr>messageCache := (messageCache s)
                        (JNum sender \<mapsto> map (markUnread (JNum sender)) ms)\<rparr>)
      in (request, updateConversationUnreadCount (JNum sender) 0 s1))"

text \<open>
  The rest of \<^verbatim>\<open>markAsRead\<close>, run when local storage answers, in the state the manager
  then has: \<open>saveOk\<close> tells whether the write succeeded, \<open>sendOk\<close> whether the socket
  accepts the frame; the result is how the returned promise settles.
\<close>

definition markAsReadSaved ::
    "bool \<Rightarrow> bool \<Rightarrow> jsval \<Rightarrow> ChatManager \<Rightarrow> (error + unit) \<times> ChatManager" where
  "markAsReadSaved saveOk sendOk request s =
     (if \<not> saveOk then (Inl StorageError, s)
      else (case wsMarkAsRead sendOk request (webSocketManager s) of
              (Inl e, w) \<Rightarrow> (Inl e, s\<lparr>webSocketManager := w\<rparr>)
            | (Inr u, w) \<Rightarrow> (Inr (), s\<lparr>webSocketManager := w\<rparr>)))"

text \<open>
  \<^verbatim>\<open>sendMessage(receiverId, message)\<close>, likewise.  Up to the first \<^verbatim>\<open>await\<close>: the
  request is built, the local message is constructed from \<^verbatim>\<open>(this.currentUserId,
  receiverId, message)\<close>, given the current time and the sender name, and appended to the
  list of \<open>receiver\<close>.  The call then waits for local storage, holding the request and
  the local message.
\<close>

type_synonym pending_send = "jsval \<times> ChatMessageObj"

definition sendMessageBegin ::
    "int \<Rightarrow> int \<Rightarrow> string \<Rightarrow> ChatManager \<Rightarrow> pending_send \<times> ChatManager" where
  "sendMessageBegin now receiver body s =
     (let request = sendMessageRequestJson (currentUserId s) receiver body ''text'';
          localMessage =
            (newChatMessage now (JNum (currentUserId s)) (JNum receiver) (JStr body))
              \<lparr>o_createdAt := JNum now, o_senderName := JStr localSenderName\<rparr>
      in ((request, localMessage), addMessageToCache (JNum receiver) localMessage s))"

text \<open>
  The rest of \<^verbatim>\<open>sendMessage\<close>, run when local storage answers, in the state the manager
  then has: the connection status is read only now, inside \<^verbatim>\<open>emit\<close>.
\<close>

definition sendMessageSaved ::
    "bool \<Rightarrow> bool \<Rightarrow> pending_send \<Rightarrow> ChatManager \<Rightarrow> (error + ChatMessageObj) \<times> ChatManager" where
  "sendMessageSaved saveOk sendOk call s =
     (if \<not> saveOk then (Inl StorageError, s)
      else (case sendPrivateMessage sendOk (fst call) (webSocketManager s) of
              (Inl e, w) \<Rightarrow> (Inl e, s\<lparr>webSocketManager := w\<rparr>)
            | (Inr u, w) \<Rightarrow> (Inr (snd call), s\<lparr>webSocketManager := w\<rparr>)))"

text \<open>
  \<^verbatim>\<open>loadConversationsFromServer\<close>, at the moment the server answers: a successful
  response with data replaces the conversation list, anything else leaves it.
\<close>

definition loadConversationsFromServer ::
    "ChatConversation list option \<Rightarrow> ChatManager \<Rightarrow> ChatManager" where
  "loadConversationsFromServer response s =
     (case response of None \<Rightarrow> s | Some data \<Rightarrow> s\<lparr>conversationCache := data\<rparr>)"

text \<open>
  What happens to a manager between two moments, one thing at a time: the application
  calls \<^verbatim>\<open>sendMessage\<close>; local storage answers the call waiting at a position of the
  list of waiting calls (with the outcome of the write, and the outcome of the socket's
  \<^verbatim>\<open>send\<close> should the frame get that far); or the socket delivers an event.  The state
  is the list of waiting calls, oldest first, and the manager.
\<close>

datatype action =
    Call int int string
  | SaveDone nat bool bool
  | Socket ws_input

fun act :: "action \<Rightarrow> pending_send list \<times> ChatManager \<Rightarrow> pending_send list \<times> ChatManager" where
  "act (Call now receiver body) (waiting, s) =
     (waiting @ [fst (sendMessageBegin now receiver body s)],
      snd (sendMessageBegin now receiver body s))"
| "act (SaveDone i saveOk sendOk) (waiting, s) =
     (if i < length waiting
      then (take i waiting @ drop (Suc i) waiting,
            snd (sendMessageSaved saveOk sendOk (waiting ! i) s))
      else (waiting, s))"
| "act (Socket e) (waiting, s) =
     (waiting, s\<lparr>webSocketManager := step e (webSocketManager s)\<rparr>)"

fun exec :: "action list \<Rightarrow> pending_send list \<times> ChatManager \<Rightarrow> pending_send list \<times> ChatManager" where
  "exec [] c = c"
| "exec (a # as) c = exec as (act a c)"

text \<open>The frames handed to the socket so far.\<close>

definition sent :: "pending_send list \<times> ChatManager \<Rightarrow> (string \<times> jsval) list" where
  "sent c = transport (webSocketManager (snd c))"

fun isCall :: "action \<Rightarrow> bool" where
  "isCall (Call now receiver body) = True"
| "isCall a = False"

text \<open>What the conversation list shows for a peer: \<^verbatim>\<open>conversationCache.find(...)\<close>.\<close>

definition conversationOf :: "ChatManager \<Rightarrow> jsval \<Rightarrow> ChatConversation option" where
  "conversationOf s peer = find (\<lambda>c. otherUserId c = peer) (conversationCache s)"

text \<open>The unread count shown for a peer (0 when there is no conversation).\<close>

definition unreadOf :: "ChatManager \<Rightarrow> jsval \<Rightarrow> int" where
  "unreadOf s peer = (case conversationOf s peer of None \<Rightarrow> 0 | Some c \<Rightarrow> unreadCount c)"

text \<open>The number of unread messages from a peer in the peer's message list.\<close>

definition unreadFrom :: "ChatManager \<Rightarrow> jsval \<Rightarrow> nat" where
  "unreadFrom s peer =
     length (filter (\<lambda>m. o_senderId m = peer \<and> \<not> truthy (o_isRead m)) (cached s peer))"

text \<open>
  Sample data: an empty manager on which \<^verbatim>\<open>connect(userId)\<close> has set the current user;
  an unread text message as \<^verbatim>\<open>fromJson\<close> decodes it from a frame of the server that
  carries no sender name; and a conversation with a peer as the server lists it.
\<close>

definition signedIn :: "int \<Rightarrow> ChatManager" where
  "signedIn userId = newChatManager\<lparr>currentUserId := userId\<rparr>"

definition confirmed :: "int \<Rightarrow> int \<Rightarrow> int \<Rightarrow> string \<Rightarrow> int \<Rightarrow> ChatMessageObj" where
  "confirmed i sender receiver body sentAt =
     \<lparr> o_id = JNum i, o_senderId = JNum sender, o_receiverId = JNum receiver,
       o_message = JStr body, o_messageType = JStr ''text'', o_isRead = JBool False,
       o_createdAt = JNum sentAt, o_senderName = JStr '''', o_senderAvatar = JStr '''' \<rparr>"

definition listed :: "int \<Rightarrow> int \<Rightarrow> string \<Rightarrow> ChatConversation" where
  "listed i peer name =
     \<lparr> cid = JNum i, otherUserId = JNum peer, otherUserName = JStr name,
       otherUserAvatar = JStr '''', lastMessage = JStr '''', lastMessageTime = JNum 0,
       unreadCount = 0, convCreatedAt = JNum 0 \<rparr>"

text \<open>
  The manager of a signed-in user after the application has called \<^verbatim>\<open>connect\<close> of the
  \<^verbatim>\<open>WebSocketManager\<close>: the socket is created and the connection is being set up.
\<close>

definition connecting :: "int \<Rightarrow> ChatManager" where
  "connecting userId =
     (signedIn userId)\<lparr>webSocketManager := connect ''ws://chat'' Started newWebSocketManager\<rparr>"

section \<open>Reconnection\<close>

lemma notifyConnectionListeners_fields:
  "status (notifyConnectionListeners ev err w) = status w"
  "webSocket (notifyConnectionListeners ev err w) = webSocket w"
  "url (notifyConnectionListeners ev err w) = url w"
  "reconnectAttempts (notifyConnectionListeners ev err w) = reconnectAttempts w"
  "maxReconnectAttempts (notifyConnectionListeners ev err w) = maxReconnectAttempts w"
  "reconnectDelay (notifyConnectionListeners ev err w) = reconnectDelay w"
  "reconnectTimer (notifyConnectionListeners ev err w) = reconnectTimer w"
  "timers (notifyConnectionListeners ev err w) = timers w"
  "transport (notifyConnectionListeners ev err w) = transport w"
  "console (notifyConnectionListeners ev err w) = console w"
  "connectionListeners (notifyConnectionListeners ev err w) = connectionListeners w"
  by (simp_all add: notifyConnectionListeners_def)

lemma scheduleReconnect_fields:
  "status (scheduleReconnect w) = status w"
  "webSocket (scheduleReconnect w) = webSocket w"
  "url (scheduleReconnect w) = url w"
  "maxReconnectAttempts (scheduleReconnect w) = maxReconnectAttempts w"
  "reconnectDelay (scheduleReconnect w) = reconnectDelay w"
  "transport (scheduleReconnect w) = transport w"
  "connCalls (scheduleReconnect w) = connCalls w"
  "connectionListeners (scheduleReconnect w) = connectionListeners w"
  by (simp_all add: scheduleReconnect_def Let_def split: option.splits)

lemma scheduleReconnect_attempts:
  "reconnectAttempts (scheduleReconnect w) =
     (if maxReconnectAttempts w \<le> reconnectAttempts w then reconnectAttempts w
      else reconnectAttempts w + 1)"
  by (simp add: scheduleReconnect_def Let_def split: option.splits)

lemma scheduleReconnect_timers:
  "timers (scheduleReconnect w) =
     (if maxReconnectAttempts w \<le> reconnectAttempts w then timers w
      else timers w @ [reconnectDelay w * (reconnectAttempts w + 1)])"
  by (simp add: scheduleReconnect_def Let_def split: option.splits)

lemma scheduleReconnect_limit:
  "maxReconnectAttempts w \<le> reconnectAttempts w \<Longrightarrow>
     scheduleReconnect w = w\<lparr>console := console w @ [LogReconnectLimit]\<rparr>"
  by (simp add: scheduleReconnect_def)

lemma step_limits:
  "maxReconnectAttempts (step e w) = maxReconnectAttempts w"
  "reconnectDelay (step e w) = reconnectDelay w"
  by (cases e; simp add: onOpen_def onClose_def onError_def timerFired_def connect_def
        connectCatch_def Let_def scheduleReconnect_fields notifyConnectionListeners_fields
        split: connect_outcome.splits)+

lemma run_limits:
  "maxReconnectAttempts (run es w) = maxReconnectAttempts w"
  "reconnectDelay (run es w) = reconnectDelay w"
  by (induction es arbitrary: w) (simp_all add: step_limits)

lemma step_attempts:
  "e \<noteq> EvOpen \<Longrightarrow> reconnectAttempts (step e w) =
     (if isFailure e w \<and> reconnectAttempts w < maxReconnectAttempts w
      then reconnectAttempts w + 1 else reconnectAttempts w)"
  by (cases e; simp add: onClose_def onError_def timerFired_def connect_def
        connectCatch_def Let_def scheduleReconnect_attempts scheduleReconnect_fields
        notifyConnectionListeners_fields split: connect_outcome.splits)

lemma step_timers:
  "e \<noteq> EvOpen \<Longrightarrow> timers (step e w) =
     (if isFailure e w \<and> reconnectAttempts w < maxReconnectAttempts w
      then timers w @ [reconnectDelay w * (reconnectAttempts w + 1)] else timers w)"
  by (cases e; simp add: onClose_def onError_def timerFired_def connect_def
        connectCatch_def Let_def scheduleReconnect_timers scheduleReconnect_fields
        notifyConnectionListeners_fields split: connect_outcome.splits)

lemma run_attempts:
  "noOpen es \<Longrightarrow> reconnectAttempts w \<le> maxReconnectAttempts w \<Longrightarrow>
     reconnectAttempts (run es w) = min (reconnectAttempts w + failures es w) (maxReconnectAttempts w)"
proof (induction es arbitrary: w)
  case Nil
  then show ?case by simp
next
  case (Cons e es)
  from Cons.prems have e: "e \<noteq> EvOpen" and es: "noOpen es"
    by (auto simp: noOpen_def)
  have le: "reconnectAttempts (step e w) \<le> maxReconnectAttempts (step e w)"
    using Cons.prems(2) by (simp add: step_attempts [OF e] step_limits)
  show ?case
    using Cons.IH [OF es le] Cons.prems(2)
    by (simp add: step_attempts [OF e] step_limits)
qed

lemma onError_eval:
  "onError err w =
    (if maxReconnectAttempts w \<le> reconnectAttempts w then
       w\<lparr>status := ERROR, console := console w @ [LogSocketError, LogReconnectLimit],
          connCalls := connCalls w @ map (\<lambda>l. (l, OnError (strOr err unknownError))) (connectionListeners w)\<rparr>
     else
       w\<lparr>status := ERROR,
          console := console w @ [LogSocketError,
             LogReconnectIn (reconnectDelay w * (reconnectAttempts w + 1)) (reconnectAttempts w + 1)],
          connCalls := connCalls w @ map (\<lambda>l. (l, OnError (strOr err unknownError))) (connectionListeners w),
          cleared := (case reconnectTimer w of None \<Rightarrow> cleared w
                      | Some h \<Rightarrow> if h \<noteq> 0 then cleared w @ [h] else cleared w),
          reconnectAttempts := reconnectAttempts w + 1,
          timers := timers w @ [reconnectDelay w * (reconnectAttempts w + 1)],
          reconnectTimer := Some (length (timers w) + 1)\<rparr>)"
  by (simp add: onError_def scheduleReconnect_def notifyConnectionListeners_def Let_def
      split: option.splits)

lemma onClose_eval:
  "onClose w =
    (if maxReconnectAttempts w \<le> reconnectAttempts w then
       w\<lparr>status := DISCONNECTED, console := console w @ [LogClosed, LogReconnectLimit],
          connCalls := connCalls w @ map (\<lambda>l. (l, OnDisconnected)) (connectionListeners w)\<rparr>
     else
       w\<lparr>status := DISCONNECTED,
          console := console w @ [LogClosed,
             LogReconnectIn (reconnectDelay w * (reconnectAttempts w + 1)) (reconnectAttempts w + 1)],
          connCalls := connCalls w @ map (\<lambda>l. (l, OnDisconnected)) (connectionListeners w),
          cleared := (case reconnectTimer w of None \<Rightarrow> cleared w
                      | Some h \<Rightarrow> if h \<noteq> 0 then cleared w @ [h] else cleared w),
          reconnectAttempts := reconnectAttempts w + 1,
          timers := timers w @ [reconnectDelay w * (reconnectAttempts w + 1)],
          reconnectTimer := Some (length (timers w) + 1)\<rparr>)"
  by (simp add: onClose_def scheduleReconnect_def notifyConnectionListeners_def Let_def
      split: option.splits)

text \<open>The bookkeeping of the timer handles.\<close>

lemma notifyConnectionListeners_cleared:
  "cleared (notifyConnectionListeners ev err w) = cleared w"
  by (simp add: notifyConnectionListeners_def)

lemma scheduleReconnect_cleared:
  "cleared (scheduleReconnect w) =
     (if maxReconnectAttempts w \<le> reconnectAttempts w then cleared w
      else (case reconnectTimer w of None \<Rightarrow> cleared w
            | Some h \<Rightarrow> if h \<noteq> 0 then cleared w @ [h] else cleared w))"
  by (simp add: scheduleReconnect_def Let_def split: option.splits)

lemma scheduleReconnect_reconnectTimer:
  "reconnectTimer (scheduleReconnect w) =
     (if maxReconnectAttempts w \<le> reconnectAttempts w then reconnectTimer w
      else Some (Suc (length (timers w))))"
  by (simp add: scheduleReconnect_def Let_def split: option.splits)

lemma step_cleared:
  "cleared (step e w) =
     (if isFailure e w \<and> reconnectAttempts w < maxReconnectAttempts w
      then (case reconnectTimer w of None \<Rightarrow> cleared w
            | Some h \<Rightarrow> if h \<noteq> 0 then cleared w @ [h] else cleared w)
      else cleared w)"
  by (cases e; simp add: onOpen_def onClose_def onError_def timerFired_def connect_def
        connectCatch_def Let_def scheduleReconnect_cleared scheduleReconnect_fields
        notifyConnectionListeners_fields notifyConnectionListeners_cleared
        split: connect_outcome.splits option.splits)

lemma step_reconnectTimer:
  "reconnectTimer (step e w) =
     (if isFailure e w \<and> reconnectAttempts w < maxReconnectAttempts w
      then Some (Suc (length (timers w))) else reconnectTimer w)"
  by (cases e; simp add: onOpen_def onClose_def onError_def timerFired_def connect_def
        connectCatch_def Let_def scheduleReconnect_reconnectTimer scheduleReconnect_fields
        notifyConnectionListeners_fields split: connect_outcome.splits)

lemma step_timers_all:
  "timers (step e w) =
     (if isFailure e w \<and> reconnectAttempts w < maxReconnectAttempts w
      then timers w @ [reconnectDelay w * (reconnectAttempts w + 1)] else timers w)"
  by (cases "e = EvOpen") (simp_all add: step_timers onOpen_def notifyConnectionListeners_fields)

lemma set_uncancelled:
  "set (uncancelled w) = {h. 1 \<le> h \<and> h \<le> length (timers w) \<and> h \<notin> set (cleared w)}"
  by (auto simp: uncancelled_def)

lemma tracked_iff:
  "tracked w \<longleftrightarrow>
     (\<forall>h \<in> set (cleared w). h \<le> length (timers w))
     \<and> (\<forall>h. reconnectTimer w = Some h \<longrightarrow> 1 \<le> h \<and> h \<le> length (timers w))
     \<and> (\<forall>h. 1 \<le> h \<and> h \<le> length (timers w) \<and> h \<notin> set (cleared w) \<longrightarrow> reconnectTimer w = Some h)"
  by (auto simp: tracked_def list_all_iff set_uncancelled split: option.splits)

lemma uncancelled_cong:
  "timers w' = timers w \<Longrightarrow> cleared w' = cleared w \<Longrightarrow> uncancelled w' = uncancelled w"
  by (simp add: uncancelled_def)

lemma tracked_step_same:
  assumes "\<not> (isFailure e w \<and> reconnectAttempts w < maxReconnectAttempts w)"
  shows "tracked (step e w) = tracked w" "uncancelled (step e w) = uncancelled w"
proof -
  have t: "timers (step e w) = timers w" using assms by (auto simp: step_timers_all)
  have c: "cleared (step e w) = cleared w" using assms by (auto simp: step_cleared)
  have r: "reconnectTimer (step e w) = reconnectTimer w"
    using assms by (auto simp: step_reconnectTimer)
  show "uncancelled (step e w) = uncancelled w"
    by (simp add: uncancelled_def t c)
  then show "tracked (step e w) = tracked w"
    by (simp add: tracked_def t c r cong: option.case_cong)
qed

lemma tracked_parts:
  assumes "tracked w"
  shows "\<And>h. h \<in> set (cleared w) \<Longrightarrow> h \<le> length (timers w)"
    and "\<And>h. reconnectTimer w = Some h \<Longrightarrow> h \<le> length (timers w)"
    and "\<And>h. 1 \<le> h \<Longrightarrow> h \<le> length (timers w) \<Longrightarrow> h \<notin> set (cleared w) \<Longrightarrow>
                reconnectTimer w = Some h"
  using assms unfolding tracked_iff by blast+

lemma step_fail_fields:
  assumes "isFailure e w" "reconnectAttempts w < maxReconnectAttempts w"
  shows "length (timers (step e w)) = Suc (length (timers w))"
    and "reconnectTimer (step e w) = Some (Suc (length (timers w)))"
    and "cleared (step e w) = (case reconnectTimer w of None \<Rightarrow> cleared w
            | Some h \<Rightarrow> if h \<noteq> 0 then cleared w @ [h] else cleared w)"
  using assms by (simp_all add: step_timers_all step_reconnectTimer step_cleared)

lemma cleared_bound:
  assumes T1: "\<And>h. h \<in> set (cleared w) \<Longrightarrow> h \<le> length (timers w)"
    and T2: "\<And>h. reconnectTimer w = Some h \<Longrightarrow> h \<le> length (timers w)"
    and c: "cleared w' = (case reconnectTimer w of None \<Rightarrow> cleared w
            | Some h \<Rightarrow> if h \<noteq> 0 then cleared w @ [h] else cleared w)"
    and h: "h \<in> set (cleared w')"
  shows "h \<le> length (timers w)"
proof (cases "reconnectTimer w")
  case None
  with h show ?thesis by (simp add: c T1)
next
  case (Some k)
  have k: "k \<le> length (timers w)" using Some by (rule T2)
  show ?thesis
  proof (cases "k = 0")
    case True
    with h Some show ?thesis by (simp add: c T1)
  next
    case False
    with h Some have "h \<in> set (cleared w) \<or> h = k" by (simp add: c) blast
    with k show ?thesis using T1 by blast
  qed
qed

lemma cleared_old:
  assumes T3: "\<And>h. 1 \<le> h \<Longrightarrow> h \<le> length (timers w) \<Longrightarrow> h \<notin> set (cleared w) \<Longrightarrow>
                reconnectTimer w = Some h"
    and c: "cleared w' = (case reconnectTimer w of None \<Rightarrow> cleared w
            | Some h \<Rightarrow> if h \<noteq> 0 then cleared w @ [h] else cleared w)"
    and h: "1 \<le> h" "h \<le> length (timers w)"
  shows "h \<in> set (cleared w')"
proof (cases "h \<in> set (cleared w)")
  case True
  then show ?thesis by (simp add: c split: option.splits)
next
  case False
  with h have "reconnectTimer w = Some h" by (rule T3)
  with h show ?thesis by (simp add: c)
qed

lemma uncancelled_new:
  assumes old: "\<And>h. 1 \<le> h \<Longrightarrow> h \<le> length (timers w) \<Longrightarrow> h \<in> set (cleared w')"
    and new: "Suc (length (timers w)) \<notin> set (cleared w')"
    and t: "length (timers w') = Suc (length (timers w))"
  shows "set (uncancelled w') = {Suc (length (timers w))}"
proof (rule set_eqI)
  fix h
  show "h \<in> set (uncancelled w') \<longleftrightarrow> h \<in> {Suc (length (timers w))}"
  proof (cases "h = Suc (length (timers w))")
    case True
    then show ?thesis using new by (simp add: set_uncancelled t)
  next
    case False
    show ?thesis
    proof (cases "1 \<le> h \<and> h \<le> length (timers w)")
      case True
      then have "h \<in> set (cleared w')" using old by blast
      then show ?thesis using False by (simp add: set_uncancelled)
    next
      case F: False
      then show ?thesis using False by (simp add: set_uncancelled t) arith
    qed
  qed
qed

lemma tracked_new:
  assumes old: "\<And>h. 1 \<le> h \<Longrightarrow> h \<le> length (timers w) \<Longrightarrow> h \<in> set (cleared w')"
    and bound: "\<And>h. h \<in> set (cleared w') \<Longrightarrow> h \<le> length (timers w)"
    and t: "length (timers w') = Suc (length (timers w))"
    and r: "reconnectTimer w' = Some (Suc (length (timers w)))"
  shows "tracked w'"
proof -
  have p1: "\<forall>h \<in> set (cleared w'). h \<le> length (timers w')"
  proof
    fix h assume "h \<in> set (cleared w')"
    from bound [OF this] show "h \<le> length (timers w')" by (simp add: t)
  qed
  have p2: "\<forall>h. reconnectTimer w' = Some h \<longrightarrow> 1 \<le> h \<and> h \<le> length (timers w')"
    by (simp add: r t)
  have p3: "\<forall>h. 1 \<le> h \<and> h \<le> length (timers w') \<and> h \<notin> set (cleared w')
      \<longrightarrow> reconnectTimer w' = Some h"
  proof (intro allI impI)
    fix h
    assume a: "1 \<le> h \<and> h \<le> length (timers w') \<and> h \<notin> set (cleared w')"
    have "\<not> h \<le> length (timers w)"
    proof
      assume "h \<le> length (timers w)"
      with a have "h \<in> set (cleared w')" by (intro old) simp_all
      with a show False by simp
    qed
    moreover from a have "h \<le> Suc (length (timers w))" by (simp add: t)
    ultimately have "h = Suc (length (timers w))" by arith
    then show "reconnectTimer w' = Some h" by (simp add: r)
  qed
  show "tracked w'"
    by (rule tracked_iff [THEN iffD2]) (intro conjI p1 p2 p3)
qed

lemma tracked_step_fail:
  assumes "tracked w" "isFailure e w" "reconnectAttempts w < maxReconnectAttempts w"
  shows "tracked (step e w)" "set (uncancelled (step e w)) = {Suc (length (timers w))}"
proof -
  note T = tracked_parts [OF assms(1)]
  note F = step_fail_fields [OF assms(2,3)]
  have old: "h \<in> set (cleared (step e w))" if "1 \<le> h" "h \<le> length (timers w)" for h
    using T(3) F(3) that by (rule cleared_old)
  have bound: "h \<le> length (timers w)" if "h \<in> set (cleared (step e w))" for h
    using T(1) T(2) F(3) that by (rule cleared_bound)
  have new: "Suc (length (timers w)) \<notin> set (cleared (step e w))"
  proof
    assume "Suc (length (timers w)) \<in> set (cleared (step e w))"
    from bound [OF this] show False by simp
  qed
  show "tracked (step e w)"
    using old bound F(1) F(2) by (rule tracked_new)
  show "set (uncancelled (step e w)) = {Suc (length (timers w))}"
    using old new F(1) by (rule uncancelled_new)
qed

lemma tracked_step: "tracked w \<Longrightarrow> tracked (step e w)"
  using tracked_step_same(1) [of e w] tracked_step_fail(1) [of w e] by blast

lemma tracked_run: "tracked w \<Longrightarrow> tracked (run es w)"
  by (induction es arbitrary: w) (simp_all add: tracked_step)


section \<open>Backoff delay\<close>

text \<open>
  C6.  Let the timer bookkeeping be in order (it is in a new manager, and every socket
  event keeps it so) and the failure counter be 0 (as in a new manager and after an open),
  and let a run of socket events without an open contain \<open>n - 1\<close> connection failures.  The next failure is the \<open>n\<close>-th
  consecutive one.  While \<open>n\<close> is within \<open>maxReconnectAttempts\<close> it cancels the timer
  set before and sets one with delay \<open>reconnectDelay * n\<close>, which is then the only timer
  not cancelled: the next attempt waits exactly \<open>reconnectDelay * n\<close>.  Beyond
  \<open>maxReconnectAttempts\<close> the failure sets no timer and cancels none, so the timers that
  can still start an attempt are the ones there were before it.  An open sets the counter
  back to 0.
\<close>

theorem reconnect_delay:
  assumes "tracked w" and "reconnectAttempts w = 0" and "noOpen es"
    and "isFailure e (run es w)"
  shows "(Suc (failures es w) \<le> maxReconnectAttempts w \<longrightarrow>
            timers (step e (run es w)) =
              timers (run es w) @ [reconnectDelay w * Suc (failures es w)]
          \<and> reconnectTimer (step e (run es w)) = Some (length (timers (step e (run es w))))
          \<and> set (uncancelled (step e (run es w))) = {length (timers (step e (run es w)))}
          \<and> delayOf (step e (run es w)) (length (timers (step e (run es w))))
              = reconnectDelay w * Suc (failures es w))
       \<and> (maxReconnectAttempts w < Suc (failures es w) \<longrightarrow>
            timers (step e (run es w)) = timers (run es w)
          \<and> cleared (step e (run es w)) = cleared (run es w)
          \<and> reconnectTimer (step e (run es w)) = reconnectTimer (run es w)
          \<and> uncancelled (step e (run es w)) = uncancelled (run es w))
       \<and> reconnectAttempts (onOpen (step e (run es w))) = 0
       \<and> status (onOpen (step e (run es w))) = CONNECTED"
proof -
  let ?w = "run es w"
  have a: "reconnectAttempts ?w = min (failures es w) (maxReconnectAttempts w)"
    using run_attempts [OF assms(3), of w] assms(2) by simp
  have tr: "tracked ?w"
    using assms(1) by (rule tracked_run)
  have m: "maxReconnectAttempts ?w = maxReconnectAttempts w" "reconnectDelay ?w = reconnectDelay w"
    by (simp_all add: run_limits)
  have within: "timers (step e ?w) = timers ?w @ [reconnectDelay w * Suc (failures es w)]
      \<and> reconnectTimer (step e ?w) = Some (length (timers (step e ?w)))
      \<and> set (uncancelled (step e ?w)) = {length (timers (step e ?w))}
      \<and> delayOf (step e ?w) (length (timers (step e ?w))) = reconnectDelay w * Suc (failures es w)"
    if le: "Suc (failures es w) \<le> maxReconnectAttempts w"
  proof -
    from le have a': "reconnectAttempts ?w = failures es w" by (simp add: a)
    with le have lt: "reconnectAttempts ?w < maxReconnectAttempts ?w" by (simp add: m)
    have t: "timers (step e ?w) = timers ?w @ [reconnectDelay w * Suc (failures es w)]"
      using assms(4) lt by (simp add: step_timers_all a' m)
    have l: "length (timers (step e ?w)) = Suc (length (timers ?w))"
      by (simp add: t)
    have r: "reconnectTimer (step e ?w) = Some (Suc (length (timers ?w)))"
      using assms(4) lt by (rule step_fail_fields(2))
    have u: "set (uncancelled (step e ?w)) = {Suc (length (timers ?w))}"
      using tr assms(4) lt by (rule tracked_step_fail(2))
    have d: "delayOf (step e ?w) (Suc (length (timers ?w))) = reconnectDelay w * Suc (failures es w)"
      by (simp add: delayOf_def t)
    show ?thesis
      using t r u d by (simp only: l) simp
  qed
  have beyond: "timers (step e ?w) = timers ?w \<and> cleared (step e ?w) = cleared ?w
      \<and> reconnectTimer (step e ?w) = reconnectTimer ?w
      \<and> uncancelled (step e ?w) = uncancelled ?w"
    if gt: "maxReconnectAttempts w < Suc (failures es w)"
  proof -
    from gt have "reconnectAttempts ?w = maxReconnectAttempts ?w" by (simp add: a m)
    then have n: "\<not> (isFailure e ?w \<and> reconnectAttempts ?w < maxReconnectAttempts ?w)"
      by simp
    have "timers (step e ?w) = timers ?w" using n by (auto simp: step_timers_all)
    moreover have "cleared (step e ?w) = cleared ?w" using n by (auto simp: step_cleared)
    moreover have "reconnectTimer (step e ?w) = reconnectTimer ?w"
      using n by (auto simp: step_reconnectTimer)
    moreover have "uncancelled (step e ?w) = uncancelled ?w"
      using n by (rule tracked_step_same(2))
    ultimately show ?thesis by simp
  qed
  have o: "reconnectAttempts (onOpen w') = 0 \<and> status (onOpen w') = CONNECTED" for w'
    by (simp add: onOpen_def notifyConnectionListeners_fields)
  show ?thesis
    using within beyond o by blast
qed

theorem reconnect_delay_witness:
  "timers (step (EvError (Some ''reset'')) (run [EvError None, EvTimer Started, EvClose] newWebSocketManager))
     = [3000, 6000, 9000]
   \<and> reconnectTimer (step (EvError (Some ''reset''))
        (run [EvError None, EvTimer Started, EvClose] newWebSocketManager)) = Some 3
   \<and> set (uncancelled (step (EvError (Some ''reset''))
        (run [EvError None, EvTimer Started, EvClose] newWebSocketManager))) = {3}
   \<and> delayOf (step (EvError (Some ''reset''))
        (run [EvError None, EvTimer Started, EvClose] newWebSocketManager)) 3 = 3000 * 3
   \<and> reconnectAttempts (onOpen (step (EvError (Some ''reset''))
        (run [EvError None, EvTimer Started, EvClose] newWebSocketManager))) = 0
   \<and> timers (step EvClose (run [EvClose, EvClose, EvClose, EvClose, EvClose] newWebSocketManager))
     = [3000, 6000, 9000, 12000, 15000]
   \<and> uncancelled (step EvClose (run [EvClose, EvClose, EvClose, EvClose, EvClose] newWebSocketManager))
     = uncancelled (run [EvClose, EvClose, EvClose, EvClose, EvClose] newWebSocketManager)"
proof -
  let ?es = "[EvError None, EvTimer Started, EvClose]"
  let ?e = "EvError (Some ''reset'')"
  let ?es5 = "[EvClose, EvClose, EvClose, EvClose, EvClose]"
  have h0: "tracked newWebSocketManager"
    by (simp add: tracked_def uncancelled_def newWebSocketManager_def)
  have h1: "reconnectAttempts newWebSocketManager = 0"
    by (simp add: newWebSocketManager_def)
  have h2: "noOpen ?es" "noOpen ?es5"
    by (simp_all add: noOpen_def)
  have h3: "isFailure ?e (run ?es newWebSocketManager)"
    "isFailure EvClose (run ?es5 newWebSocketManager)"
    by simp_all
  have f: "failures ?es newWebSocketManager = 2"
    by (simp add: newWebSocketManager_def onError_def onClose_def timerFired_def connect_def
        scheduleReconnect_fields notifyConnectionListeners_fields)
  have f5: "failures ?es5 newWebSocketManager = 5"
    by simp
  have m: "maxReconnectAttempts newWebSocketManager = 5" "reconnectDelay newWebSocketManager = 3000"
    by (simp_all add: newWebSocketManager_def)
  have t: "timers (run ?es newWebSocketManager) = [3000, 6000]"
    by (simp add: newWebSocketManager_def onError_def onClose_def timerFired_def connect_def
        scheduleReconnect_def notifyConnectionListeners_def Let_def)
  have t5: "timers (run ?es5 newWebSocketManager) = [3000, 6000, 9000, 12000, 15000]"
    by (simp add: newWebSocketManager_def onClose_eval)
  have a1: "timers (step ?e (run ?es newWebSocketManager)) = [3000, 6000, 9000]"
    using reconnect_delay [OF h0 h1 h2(1) h3(1)] f m t
    by (simp del: run.simps step.simps)
  have l1: "length (timers (step ?e (run ?es newWebSocketManager))) = 3"
    by (simp only: a1) simp
  show ?thesis
    using reconnect_delay [OF h0 h1 h2(1) h3(1), unfolded l1]
      reconnect_delay [OF h0 h1 h2(2) h3(2)] f f5 m t t5
    by (simp del: run.simps step.simps)
qed

text \<open>
  C6 (as stated, refuted).  Six closes in a row on a new manager: the sixth is beyond
  \<open>maxReconnectAttempts\<close> and sets no timer, the timer of the fifth (handle 5, 15000 ms)
  is the one not cancelled, and when it fires it starts a connection attempt: the attempt
  after the sixth failure waits less than \<open>reconnectDelay * 6\<close>.
\<close>

theorem reconnect_delay_counterexample:
  "failures [EvClose, EvClose, EvClose, EvClose, EvClose, EvClose] newWebSocketManager = 6
   \<and> cleared (run [EvClose, EvClose, EvClose, EvClose, EvClose, EvClose] newWebSocketManager)
       = [1, 2, 3, 4]
   \<and> reconnectTimer (run [EvClose, EvClose, EvClose, EvClose, EvClose, EvClose] newWebSocketManager)
       = Some 5
   \<and> uncancelled (run [EvClose, EvClose, EvClose, EvClose, EvClose, EvClose] newWebSocketManager)
       = [5]
   \<and> delayOf (run [EvClose, EvClose, EvClose, EvClose, EvClose, EvClose] newWebSocketManager) 5
       = 15000
   \<and> delayOf (run [EvClose, EvClose, EvClose, EvClose, EvClose, EvClose] newWebSocketManager) 5
       < reconnectDelay newWebSocketManager * 6
   \<and> status (step (EvTimer Started)
        (run [EvClose, EvClose, EvClose, EvClose, EvClose, EvClose] newWebSocketManager))
       = CONNECTING
   \<and> webSocket (step (EvTimer Started)
        (run [EvClose, EvClose, EvClose, EvClose, EvClose, EvClose] newWebSocketManager))
       = Some 1"
  by (simp add: newWebSocketManager_def onClose_eval uncancelled_def delayOf_def timerFired_def
      connect_def)


section \<open>The result of emit\<close>

text \<open>
  C8 (as stated, refuted).  The claim asks that \<^verbatim>\<open>emit\<close> hand a NotConnected error to its
  caller in every state other than connected.  On the fresh, disconnected manager, and on a
  connecting one and one in the error state, the promise resolves: the caller sees the same
  result as after a successful send, and nothing reached the transport.
\<close>

theorem emit_not_connected_counterexample:
  "status newWebSocketManager = DISCONNECTED
   \<and> fst (emit True REGISTER (JNum 1) newWebSocketManager) = Inr ()
   \<and> transport (snd (emit True REGISTER (JNum 1) newWebSocketManager)) = []
   \<and> fst (emit True REGISTER (JNum 1) (newWebSocketManager\<lparr>status := CONNECTING, webSocket := Some 1\<rparr>))
       = Inr ()
   \<and> fst (emit True REGISTER (JNum 1) (newWebSocketManager\<lparr>status := ERROR, webSocket := Some 1\<rparr>))
       = Inr ()"
  by (simp add: emit_def newWebSocketManager_def)

text \<open>
  C8 (amended).  In every state other than connected, and whenever there is no socket,
  \<^verbatim>\<open>emit\<close> returns at once and its promise resolves: nothing is handed to the transport
  and nothing changes but one line on the console.  The promise rejects only when the
  manager is connected and the socket refuses the frame; when it accepts, the frame is
  appended to what the transport received.
\<close>

theorem emit_not_connected:
  "(status w \<noteq> CONNECTED \<or> webSocket w = None \<longrightarrow>
      emit sendOk event data w = (Inr (), w\<lparr>console := console w @ [LogNotConnected]\<rparr>))
   \<and> (status w = CONNECTED \<and> webSocket w \<noteq> None \<and> \<not> sendOk \<longrightarrow>
      emit sendOk event data w = (Inl SendError, w\<lparr>console := console w @ [LogSendFailed]\<rparr>))
   \<and> (status w = CONNECTED \<and> webSocket w \<noteq> None \<and> sendOk \<longrightarrow>
      fst (emit sendOk event data w) = Inr ()
      \<and> transport (snd (emit sendOk event data w)) = transport w @ [(event, data)])"
  by (simp add: emit_def)

theorem emit_not_connected_witness:
  "emit True REGISTER (JNum 1) (newWebSocketManager\<lparr>status := CONNECTING, webSocket := Some 1\<rparr>)
     = (Inr (), newWebSocketManager\<lparr>status := CONNECTING, webSocket := Some 1,
                  console := [LogNotConnected]\<rparr>)
   \<and> emit False REGISTER (JNum 1) (newWebSocketManager\<lparr>status := CONNECTED, webSocket := Some 1\<rparr>)
     = (Inl SendError, newWebSocketManager\<lparr>status := CONNECTED, webSocket := Some 1,
                  console := [LogSendFailed]\<rparr>)
   \<and> transport (snd (emit True REGISTER (JNum 1)
         (newWebSocketManager\<lparr>status := CONNECTED, webSocket := Some 1\<rparr>))) = [(REGISTER, JNum 1)]"
  using emit_not_connected [of "newWebSocketManager\<lparr>status := CONNECTING, webSocket := Some 1\<rparr>"
      True REGISTER "JNum 1"]
    emit_not_connected [of "newWebSocketManager\<lparr>status := CONNECTED, webSocket := Some 1\<rparr>"
      False REGISTER "JNum 1"]
    emit_not_connected [of "newWebSocketManager\<lparr>status := CONNECTED, webSocket := Some 1\<rparr>"
      True REGISTER "JNum 1"]
  by (simp add: newWebSocketManager_def)

section \<open>Exhausted retries\<close>

text \<open>
  C7 (as stated, refuted).  With the initial limits (5 attempts, 3000 ms) and one connection
  listener, six consecutive error events leave the status at \<open>ERROR\<close>, not
  \<open>DISCONNECTED\<close>; five reconnections were scheduled and the sixth failure schedules
  none, and the listener got the same \<^verbatim>\<open>onError\<close> call at the sixth failure as at the five
  before: nothing tells it that the retries are exhausted.  Six consecutive close events
  end in \<open>DISCONNECTED\<close> with no error surfaced at all.  And a single, first error
  already reaches the listener as a visible failure.
\<close>

theorem exhausted_retries_counterexample:
  "status (run [EvError (Some ''refused''), EvError (Some ''refused''), EvError (Some ''refused''),
                EvError (Some ''refused''), EvError (Some ''refused''), EvError (Some ''refused'')]
             (addConnectionListener 0 newWebSocketManager))
     = ERROR
   \<and> timers (run [EvError (Some ''refused''), EvError (Some ''refused''), EvError (Some ''refused''),
                EvError (Some ''refused''), EvError (Some ''refused''), EvError (Some ''refused'')]
             (addConnectionListener 0 newWebSocketManager))
     = [3000, 6000, 9000, 12000, 15000]
   \<and> connCalls (run [EvError (Some ''refused''), EvError (Some ''refused''), EvError (Some ''refused''),
                EvError (Some ''refused''), EvError (Some ''refused''), EvError (Some ''refused'')]
             (addConnectionListener 0 newWebSocketManager))
     = [(0, OnError ''refused''), (0, OnError ''refused''), (0, OnError ''refused''),
        (0, OnError ''refused''), (0, OnError ''refused''), (0, OnError ''refused'')]
   \<and> status (run [EvClose, EvClose, EvClose, EvClose, EvClose, EvClose]
             (addConnectionListener 0 newWebSocketManager)) = DISCONNECTED
   \<and> connCalls (run [EvClose, EvClose, EvClose, EvClose, EvClose, EvClose]
             (addConnectionListener 0 newWebSocketManager))
     = [(0, OnDisconnected), (0, OnDisconnected), (0, OnDisconnected),
        (0, OnDisconnected), (0, OnDisconnected), (0, OnDisconnected)]
   \<and> connCalls (run [EvError (Some ''refused'')] (addConnectionListener 0 newWebSocketManager))
     = [(0, OnError ''refused'')]"
  by (simp add: onError_eval onClose_eval addConnectionListener_def
      newWebSocketManager_def strOr_def)

text \<open>
  C7 (amended).  Once the failure counter has reached \<open>maxReconnectAttempts\<close>,
  \<^verbatim>\<open>scheduleReconnect\<close> writes one console line and changes nothing else: no
  reconnection is scheduled.  The status is the one the failing handler set (\<open>ERROR\<close>
  after an error event, \<open>DISCONNECTED\<close> after a close) and the connection listeners
  get the call they get at every failure, exhausted or not: \<^verbatim>\<open>onError\<close> with the
  error's message after an error event, \<^verbatim>\<open>onDisconnected\<close> after a close.
\<close>

theorem exhausted_retries:
  "(maxReconnectAttempts w \<le> reconnectAttempts w \<longrightarrow>
      scheduleReconnect w = w\<lparr>console := console w @ [LogReconnectLimit]\<rparr>
    \<and> onError err w =
        w\<lparr>status := ERROR, console := console w @ [LogSocketError, LogReconnectLimit],
          connCalls := connCalls w @
            map (\<lambda>l. (l, OnError (strOr err unknownError))) (connectionListeners w)\<rparr>
    \<and> onClose w =
        w\<lparr>status := DISCONNECTED, console := console w @ [LogClosed, LogReconnectLimit],
          connCalls := connCalls w @ map (\<lambda>l. (l, OnDisconnected)) (connectionListeners w)\<rparr>)
   \<and> connCalls (onError err w) =
        connCalls w @ map (\<lambda>l. (l, OnError (strOr err unknownError))) (connectionListeners w)
   \<and> connCalls (onClose w) =
        connCalls w @ map (\<lambda>l. (l, OnDisconnected)) (connectionListeners w)"
  by (simp add: onError_eval onClose_eval scheduleReconnect_limit)

theorem exhausted_retries_witness:
  "onError (Some ''refused'')
      (newWebSocketManager\<lparr>connectionListeners := [0], status := CONNECTING,
         reconnectAttempts := 5\<rparr>)
    = newWebSocketManager\<lparr>connectionListeners := [0], status := ERROR, reconnectAttempts := 5,
         console := [LogSocketError, LogReconnectLimit],
         connCalls := [(0, OnError ''refused'')]\<rparr>
   \<and> onClose
      (newWebSocketManager\<lparr>connectionListeners := [0], status := CONNECTING,
         reconnectAttempts := 5\<rparr>)
    = newWebSocketManager\<lparr>connectionListeners := [0], status := DISCONNECTED,
         reconnectAttempts := 5, console := [LogClosed, LogReconnectLimit],
         connCalls := [(0, OnDisconnected)]\<rparr>"
  using exhausted_retries [of "newWebSocketManager\<lparr>connectionListeners := [0],
         status := CONNECTING, reconnectAttempts := 5\<rparr>" "Some ''refused''"]
  by (simp add: newWebSocketManager_def strOr_def)

section \<open>Inbound frame handling\<close>

lemma msgCalls_refl: "\<exists>calls. w = w\<lparr>msgCalls := msgCalls w @ calls\<rparr>"
  by (rule exI [of _ "[]"]) simp

lemma forEachListener_frame:
  "\<exists>calls. snd (forEachListener throws arg ls w) = w\<lparr>msgCalls := msgCalls w @ calls\<rparr>"
proof (induction ls arbitrary: w)
  case Nil
  show ?case by (rule exI [of _ "[]"]) simp
next
  case (Cons l ls)
  show ?case
  proof (cases arg)
    case (Inl e)
    then show ?thesis using msgCalls_refl [of w] by simp
  next
    case (Inr c)
    let ?w = "w\<lparr>msgCalls := msgCalls w @ [(l, c)]\<rparr>"
    show ?thesis
    proof (cases "throws l c")
      case True
      with Inr have "snd (forEachListener throws arg (l # ls) w) = w\<lparr>msgCalls := msgCalls w @ [(l, c)]\<rparr>"
        by simp
      then show ?thesis by blast
    next
      case False
      obtain calls where "snd (forEachListener throws arg ls ?w) = ?w\<lparr>msgCalls := msgCalls ?w @ calls\<rparr>"
        using Cons.IH [of ?w] by blast
      with Inr False
      have "snd (forEachListener throws arg (l # ls) w) = w\<lparr>msgCalls := msgCalls w @ ((l, c) # calls)\<rparr>"
        by simp
      then show ?thesis by blast
    qed
  qed
qed

lemma forEachListener_quiet:
  "(\<And>l c. \<not> throws l c) \<Longrightarrow>
     forEachListener throws (Inr c) ls w =
       (Inr (), w\<lparr>msgCalls := msgCalls w @ map (\<lambda>l. (l, c)) ls\<rparr>)"
  by (induction ls arbitrary: w) simp_all

lemma handler_frames:
  "\<exists>calls. snd (handlePrivateMessage throws now data w) = w\<lparr>msgCalls := msgCalls w @ calls\<rparr>"
  "\<exists>calls. snd (handleMessageSent throws data w) = w\<lparr>msgCalls := msgCalls w @ calls\<rparr>"
  "\<exists>calls. snd (handleMessageRead throws data w) = w\<lparr>msgCalls := msgCalls w @ calls\<rparr>"
  "\<exists>calls. snd (handleOnlineStatus throws data w) = w\<lparr>msgCalls := msgCalls w @ calls\<rparr>"
  "\<exists>calls. snd (handleOfflineMessages throws now data w) = w\<lparr>msgCalls := msgCalls w @ calls\<rparr>"
proof -
  have triv: "\<exists>calls. w = w\<lparr>msgCalls := msgCalls w @ calls\<rparr>"
    by (rule exI [of _ "[]"]) simp
  show "\<exists>calls. snd (handlePrivateMessage throws now data w) = w\<lparr>msgCalls := msgCalls w @ calls\<rparr>"
    using triv by (simp add: handlePrivateMessage_def forEachListener_frame split: sum.splits)
  show "\<exists>calls. snd (handleMessageSent throws data w) = w\<lparr>msgCalls := msgCalls w @ calls\<rparr>"
    by (simp add: handleMessageSent_def forEachListener_frame)
  show "\<exists>calls. snd (handleMessageRead throws data w) = w\<lparr>msgCalls := msgCalls w @ calls\<rparr>"
    by (simp add: handleMessageRead_def forEachListener_frame)
  show "\<exists>calls. snd (handleOnlineStatus throws data w) = w\<lparr>msgCalls := msgCalls w @ calls\<rparr>"
    by (simp add: handleOnlineStatus_def forEachListener_frame)
  show "\<exists>calls. snd (handleOfflineMessages throws now data w) = w\<lparr>msgCalls := msgCalls w @ calls\<rparr>"
    using triv by (simp add: handleOfflineMessages_def forEachListener_frame
        split: sum.splits jsval.splits)
qed

lemma handleMessageTry_frame:
  "\<exists>calls logs. snd (handleMessageTry parse throws now raw w) =
      w\<lparr>msgCalls := msgCalls w @ calls, console := console w @ logs\<rparr>"
proof (cases "parse raw")
  case None
  have "w = w\<lparr>msgCalls := msgCalls w @ [], console := console w @ []\<rparr>" by simp
  with None show ?thesis
    unfolding handleMessageTry_def by (metis option.simps(4) snd_conv)
next
  case (Some msg)
  let ?w1 = "w\<lparr>console := console w @ [LogReceived msg]\<rparr>"
  have frame: "\<exists>calls logs. w1 = w\<lparr>msgCalls := msgCalls w @ calls, console := console w @ logs\<rparr>"
    if "\<exists>calls. w1 = ?w1\<lparr>msgCalls := msgCalls ?w1 @ calls\<rparr>" for w1
  proof -
    from that obtain calls where "w1 = ?w1\<lparr>msgCalls := msgCalls ?w1 @ calls\<rparr>" by blast
    then have "w1 = w\<lparr>msgCalls := msgCalls w @ calls, console := console w @ [LogReceived msg]\<rparr>"
      by simp
    then show ?thesis by blast
  qed
  have same: "\<exists>calls. ?w1 = ?w1\<lparr>msgCalls := msgCalls ?w1 @ calls\<rparr>"
    by (rule exI [of _ "[]"]) simp
  show ?thesis
  proof (cases "getProp msg ''event''")
    case (Inl e)
    with Some have "snd (handleMessageTry parse throws now raw w) = ?w1"
      by (simp add: handleMessageTry_def)
    then show ?thesis using frame [OF same] by simp
  next
    case (Inr ev)
    consider (a) "ev = JStr RECEIVE_PRIVATE_MESSAGE" | (b) "ev = JStr MESSAGE_SENT"
      | (c) "ev = JStr MESSAGE_READ" | (d) "ev = JStr ONLINE_STATUS"
      | (e) "ev = JStr OFFLINE_MESSAGES"
      | (f) "ev \<noteq> JStr RECEIVE_PRIVATE_MESSAGE" "ev \<noteq> JStr MESSAGE_SENT"
            "ev \<noteq> JStr MESSAGE_READ" "ev \<noteq> JStr ONLINE_STATUS" "ev \<noteq> JStr OFFLINE_MESSAGES"
      by blast
    then show ?thesis
    proof cases
      case a
      with Some Inr have "snd (handleMessageTry parse throws now raw w) =
          snd (handlePrivateMessage throws now (readProp msg ''data'') ?w1)"
        by (simp add: handleMessageTry_def)
      then show ?thesis using frame [OF handler_frames(1)] by simp
    next
      case b
      with Some Inr have "snd (handleMessageTry parse throws now raw w) =
          snd (handleMessageSent throws (readProp msg ''data'') ?w1)"
        by (simp add: handleMessageTry_def RECEIVE_PRIVATE_MESSAGE_def MESSAGE_SENT_def)
      then show ?thesis using frame [OF handler_frames(2)] by simp
    next
      case c
      with Some Inr have "snd (handleMessageTry parse throws now raw w) =
          snd (handleMessageRead throws (readProp msg ''data'') ?w1)"
        by (simp add: handleMessageTry_def RECEIVE_PRIVATE_MESSAGE_def MESSAGE_SENT_def
            MESSAGE_READ_def)
      then show ?thesis using frame [OF handler_frames(3)] by simp
    next
      case d
      with Some Inr have "snd (handleMessageTry parse throws now raw w) =
          snd (handleOnlineStatus throws (readProp msg ''data'') ?w1)"
        by (simp add: handleMessageTry_def RECEIVE_PRIVATE_MESSAGE_def MESSAGE_SENT_def
            MESSAGE_READ_def ONLINE_STATUS_def)
      then show ?thesis using frame [OF handler_frames(4)] by simp
    next
      case e
      with Some Inr have "snd (handleMessageTry parse throws now raw w) =
          snd (handleOfflineMessages throws now (readProp msg ''data'') ?w1)"
        by (simp add: handleMessageTry_def RECEIVE_PRIVATE_MESSAGE_def MESSAGE_SENT_def
            MESSAGE_READ_def ONLINE_STATUS_def OFFLINE_MESSAGES_def)
      then show ?thesis using frame [OF handler_frames(5)] by simp
    next
      case f
      with Some Inr have "snd (handleMessageTry parse throws now raw w) =
          w\<lparr>msgCalls := msgCalls w @ [],
            console := console w @ [LogReceived msg, LogUnknownEvent ev]\<rparr>"
        by (simp add: handleMessageTry_def)
      then show ?thesis by blast
    qed
  qed
qed

lemma handleMessage_frame:
  "\<exists>calls logs. handleMessage parse throws now raw w =
      w\<lparr>msgCalls := msgCalls w @ calls, console := console w @ logs\<rparr>"
proof -
  obtain r w1 where eq: "handleMessageTry parse throws now raw w = (r, w1)"
    by (cases "handleMessageTry parse throws now raw w")
  obtain calls logs where s: "w1 = w\<lparr>msgCalls := msgCalls w @ calls, console := console w @ logs\<rparr>"
    using handleMessageTry_frame [of parse throws now raw w] eq by auto
  show ?thesis
  proof (cases r)
    case (Inl e)
    then have "handleMessage parse throws now raw w =
        w\<lparr>msgCalls := msgCalls w @ calls, console := console w @ (logs @ [LogHandleFailed e])\<rparr>"
      using s eq by (simp add: handleMessage_def)
    then show ?thesis by blast
  next
    case (Inr u)
    then have "handleMessage parse throws now raw w =
        w\<lparr>msgCalls := msgCalls w @ calls, console := console w @ logs\<rparr>"
      using s eq by (simp add: handleMessage_def)
    then show ?thesis by blast
  qed
qed

lemma handleMessage_fields:
  "status (handleMessage parse throws now raw w) = status w"
  "webSocket (handleMessage parse throws now raw w) = webSocket w"
  "transport (handleMessage parse throws now raw w) = transport w"
proof -
  obtain calls logs where "handleMessage parse throws now raw w =
      w\<lparr>msgCalls := msgCalls w @ calls, console := console w @ logs\<rparr>"
    using handleMessage_frame by blast
  then show "status (handleMessage parse throws now raw w) = status w"
    "webSocket (handleMessage parse throws now raw w) = webSocket w"
    "transport (handleMessage parse throws now raw w) = transport w"
    by simp_all
qed

lemma handleMessage_syntax:
  "parse raw = None \<Longrightarrow>
     handleMessage parse throws now raw w = w\<lparr>console := console w @ [LogHandleFailed SyntaxError]\<rparr>"
  by (simp add: handleMessage_def handleMessageTry_def)

lemma handleMessage_no_event:
  "parse raw = Some msg \<Longrightarrow> getProp msg ''event'' = Inl e \<Longrightarrow>
     handleMessage parse throws now raw w =
       w\<lparr>console := console w @ [LogReceived msg, LogHandleFailed e]\<rparr>"
  by (simp add: handleMessage_def handleMessageTry_def)

lemma handleMessage_unknown:
  "parse raw = Some msg \<Longrightarrow> getProp msg ''event'' = Inr ev \<Longrightarrow>
   ev \<notin> {JStr RECEIVE_PRIVATE_MESSAGE, JStr MESSAGE_SENT, JStr MESSAGE_READ,
           JStr ONLINE_STATUS, JStr OFFLINE_MESSAGES} \<Longrightarrow>
     handleMessage parse throws now raw w =
       w\<lparr>console := console w @ [LogReceived msg, LogUnknownEvent ev]\<rparr>"
  by (simp add: handleMessage_def handleMessageTry_def)

lemma handleMessage_private_raised:
  "parse raw = Some msg \<Longrightarrow> getProp msg ''event'' = Inr (JStr RECEIVE_PRIVATE_MESSAGE) \<Longrightarrow>
   fromJson now (readProp msg ''data'') = Inl e \<Longrightarrow>
     handleMessage parse throws now raw w =
       w\<lparr>console := console w @ [LogReceived msg, LogHandleFailed e]\<rparr>"
  by (simp add: handleMessage_def handleMessageTry_def handlePrivateMessage_def)

lemma handleMessage_private_delivered:
  "parse raw = Some msg \<Longrightarrow> getProp msg ''event'' = Inr (JStr RECEIVE_PRIVATE_MESSAGE) \<Longrightarrow>
   fromJson now (readProp msg ''data'') = Inr m \<Longrightarrow> (\<And>l c. \<not> throws l c) \<Longrightarrow>
     handleMessage parse throws now raw w =
       w\<lparr>console := console w @ [LogReceived msg],
         msgCalls := msgCalls w @ map (\<lambda>l. (l, OnMessageReceived m)) (messageListeners w)\<rparr>"
  by (simp add: handleMessage_def handleMessageTry_def handlePrivateMessage_def
      forEachListener_quiet)

lemma handleMessage_offline_raised:
  "parse raw = Some msg \<Longrightarrow> getProp msg ''event'' = Inr (JStr OFFLINE_MESSAGES) \<Longrightarrow>
   getProp (readProp msg ''data'') ''messages'' = Inr v \<Longrightarrow> (\<And>xs. v \<noteq> JArr xs) \<Longrightarrow>
     handleMessage parse throws now raw w =
       w\<lparr>console := console w @ [LogReceived msg, LogHandleFailed TypeError]\<rparr>"
  by (cases v) (auto simp add: handleMessage_def handleMessageTry_def handleOfflineMessages_def
      RECEIVE_PRIVATE_MESSAGE_def MESSAGE_SENT_def MESSAGE_READ_def ONLINE_STATUS_def
      OFFLINE_MESSAGES_def)


lemma getProp_raises:
  "getProp v k = Inl e \<longleftrightarrow> (v = JNull \<or> v = JUndefined) \<and> e = TypeError"
  by (cases v) auto

lemma fromJson_raises:
  "fromJson now v = Inl e \<longleftrightarrow> (v = JNull \<or> v = JUndefined) \<and> e = TypeError"
  by (cases v) (auto simp: fromJson_def)

lemma mapFromJson_raises:
  "mapFromJson now xs = Inl e \<longleftrightarrow> (JNull \<in> set xs \<or> JUndefined \<in> set xs) \<and> e = TypeError"
proof (induction xs)
  case Nil
  show ?case by simp
next
  case (Cons x xs)
  show ?case
  proof (cases "fromJson now x")
    case (Inl e')
    then show ?thesis using fromJson_raises [of now x e'] by auto
  next
    case (Inr m)
    then have nx: "x \<noteq> JNull \<and> x \<noteq> JUndefined"
      using fromJson_raises [of now x TypeError] by auto
    show ?thesis
    proof (cases "mapFromJson now xs")
      case (Inl e')
      with Inr Cons.IH nx show ?thesis by auto
    next
      case r: (Inr ms)
      with Inr Cons.IH nx show ?thesis by auto
    qed
  qed
qed

lemma mapFromJson_decoded:
  "mapFromJson now xs = Inr ms \<Longrightarrow> map Inr ms = map (fromJson now) xs"
proof (induction xs arbitrary: ms)
  case Nil
  then show ?case by simp
next
  case (Cons x xs)
  then show ?case
    by (auto split: sum.splits)
qed

lemma handleMessage_sent_raised:
  "parse raw = Some msg \<Longrightarrow> getProp msg ''event'' = Inr (JStr MESSAGE_SENT) \<Longrightarrow>
   messageListeners w \<noteq> [] \<Longrightarrow> getProp (readProp msg ''data'') ''success'' = Inl e \<Longrightarrow>
     handleMessage parse throws now raw w =
       w\<lparr>console := console w @ [LogReceived msg, LogHandleFailed e]\<rparr>"
  by (cases "messageListeners w")
     (simp_all add: handleMessage_def handleMessageTry_def handleMessageSent_def
      RECEIVE_PRIVATE_MESSAGE_def MESSAGE_SENT_def)

lemma handleMessage_sent_delivered:
  "parse raw = Some msg \<Longrightarrow> getProp msg ''event'' = Inr (JStr MESSAGE_SENT) \<Longrightarrow>
   getProp (readProp msg ''data'') ''success'' = Inr ok \<Longrightarrow> (\<And>l c. \<not> throws l c) \<Longrightarrow>
     handleMessage parse throws now raw w =
       w\<lparr>console := console w @ [LogReceived msg],
         msgCalls := msgCalls w @
           map (\<lambda>l. (l, OnMessageSent ok (readProp (readProp msg ''data'') ''messageId'')))
             (messageListeners w)\<rparr>"
  by (simp add: handleMessage_def handleMessageTry_def handleMessageSent_def
      forEachListener_quiet RECEIVE_PRIVATE_MESSAGE_def MESSAGE_SENT_def)

lemma handleMessage_read_raised:
  "parse raw = Some msg \<Longrightarrow> getProp msg ''event'' = Inr (JStr MESSAGE_READ) \<Longrightarrow>
   messageListeners w \<noteq> [] \<Longrightarrow> getProp (readProp msg ''data'') ''readerId'' = Inl e \<Longrightarrow>
     handleMessage parse throws now raw w =
       w\<lparr>console := console w @ [LogReceived msg, LogHandleFailed e]\<rparr>"
  by (cases "messageListeners w")
     (simp_all add: handleMessage_def handleMessageTry_def handleMessageRead_def
      RECEIVE_PRIVATE_MESSAGE_def MESSAGE_SENT_def MESSAGE_READ_def)

lemma handleMessage_read_delivered:
  "parse raw = Some msg \<Longrightarrow> getProp msg ''event'' = Inr (JStr MESSAGE_READ) \<Longrightarrow>
   getProp (readProp msg ''data'') ''readerId'' = Inr r \<Longrightarrow> (\<And>l c. \<not> throws l c) \<Longrightarrow>
     handleMessage parse throws now raw w =
       w\<lparr>console := console w @ [LogReceived msg],
         msgCalls := msgCalls w @ map (\<lambda>l. (l, OnMessageRead r)) (messageListeners w)\<rparr>"
  by (simp add: handleMessage_def handleMessageTry_def handleMessageRead_def
      forEachListener_quiet RECEIVE_PRIVATE_MESSAGE_def MESSAGE_SENT_def MESSAGE_READ_def)

lemma handleMessage_nobody:
  "parse raw = Some msg \<Longrightarrow>
   getProp msg ''event'' = Inr (JStr MESSAGE_SENT) \<or> getProp msg ''event'' = Inr (JStr MESSAGE_READ) \<Longrightarrow>
   messageListeners w = [] \<Longrightarrow>
     handleMessage parse throws now raw w = w\<lparr>console := console w @ [LogReceived msg]\<rparr>"
  by (auto simp add: handleMessage_def handleMessageTry_def handleMessageRead_def
      handleMessageSent_def RECEIVE_PRIVATE_MESSAGE_def MESSAGE_SENT_def MESSAGE_READ_def)

lemma handleMessage_online:
  "parse raw = Some msg \<Longrightarrow> getProp msg ''event'' = Inr (JStr ONLINE_STATUS) \<Longrightarrow>
   (\<And>l c. \<not> throws l c) \<Longrightarrow>
     handleMessage parse throws now raw w =
       w\<lparr>console := console w @ [LogReceived msg],
         msgCalls := msgCalls w @
           map (\<lambda>l. (l, OnOnlineStatusReceived (readProp msg ''data''))) (messageListeners w)\<rparr>"
  by (simp add: handleMessage_def handleMessageTry_def handleOnlineStatus_def
      forEachListener_quiet RECEIVE_PRIVATE_MESSAGE_def MESSAGE_SENT_def MESSAGE_READ_def
      ONLINE_STATUS_def)

lemma handleMessage_offline_no_data:
  "parse raw = Some msg \<Longrightarrow> getProp msg ''event'' = Inr (JStr OFFLINE_MESSAGES) \<Longrightarrow>
   getProp (readProp msg ''data'') ''messages'' = Inl e \<Longrightarrow>
     handleMessage parse throws now raw w =
       w\<lparr>console := console w @ [LogReceived msg, LogHandleFailed e]\<rparr>"
  by (simp add: handleMessage_def handleMessageTry_def handleOfflineMessages_def
      RECEIVE_PRIVATE_MESSAGE_def MESSAGE_SENT_def MESSAGE_READ_def ONLINE_STATUS_def
      OFFLINE_MESSAGES_def)

lemma handleMessage_offline_element:
  "parse raw = Some msg \<Longrightarrow> getProp msg ''event'' = Inr (JStr OFFLINE_MESSAGES) \<Longrightarrow>
   getProp (readProp msg ''data'') ''messages'' = Inr (JArr xs) \<Longrightarrow>
   mapFromJson now xs = Inl e \<Longrightarrow>
     handleMessage parse throws now raw w =
       w\<lparr>console := console w @ [LogReceived msg, LogHandleFailed e]\<rparr>"
  by (simp add: handleMessage_def handleMessageTry_def handleOfflineMessages_def
      RECEIVE_PRIVATE_MESSAGE_def MESSAGE_SENT_def MESSAGE_READ_def ONLINE_STATUS_def
      OFFLINE_MESSAGES_def)

lemma handleMessage_offline_delivered:
  "parse raw = Some msg \<Longrightarrow> getProp msg ''event'' = Inr (JStr OFFLINE_MESSAGES) \<Longrightarrow>
   getProp (readProp msg ''data'') ''messages'' = Inr (JArr xs) \<Longrightarrow>
   mapFromJson now xs = Inr ms \<Longrightarrow> (\<And>l c. \<not> throws l c) \<Longrightarrow>
     handleMessage parse throws now raw w =
       w\<lparr>console := console w @ [LogReceived msg],
         msgCalls := msgCalls w @
           map (\<lambda>l. (l, OnOfflineMessagesReceived ms)) (messageListeners w)\<rparr>"
  by (simp add: handleMessage_def handleMessageTry_def handleOfflineMessages_def
      forEachListener_quiet RECEIVE_PRIVATE_MESSAGE_def MESSAGE_SENT_def MESSAGE_READ_def
      ONLINE_STATUS_def OFFLINE_MESSAGES_def)

lemma getProp_readProp:
  "v \<noteq> JNull \<Longrightarrow> v \<noteq> JUndefined \<Longrightarrow> getProp v k = Inr (readProp v k)"
  by (cases v) (simp_all add: readProp_def)

lemma mapFromJson_returns:
  assumes "JNull \<notin> set xs" "JUndefined \<notin> set xs"
  shows "\<exists>ms. mapFromJson now xs = Inr ms \<and> map Inr ms = map (fromJson now) xs"
proof (cases "mapFromJson now xs")
  case (Inl e)
  with assms show ?thesis by (simp add: mapFromJson_raises)
next
  case (Inr ms)
  then show ?thesis using mapFromJson_decoded [of now xs ms] by simp
qed


text \<open>
  C5 (as stated, refuted).  The frame \<^verbatim>\<open>{"event":"receive_private_message","data":{}}\<close>
  is a recognized event with malformed data: no field of a message is there.  It is not
  dropped.  \<^verbatim>\<open>fromJson\<close> fills every field with its default and the message listener
  is called with a message from user 0 to user 0 with an empty body; nothing but the receipt
  is logged.
\<close>

theorem handleMessage_counterexample:
  "handleMessage (\<lambda>r. if r = emptyDataFrame then Some emptyDataFrameJson else None)
      (\<lambda>l c. False) 5000 emptyDataFrame
      (newWebSocketManager\<lparr>status := CONNECTED, webSocket := Some 1, messageListeners := [0]\<rparr>)
    = newWebSocketManager\<lparr>status := CONNECTED, webSocket := Some 1, messageListeners := [0],
        console := [LogReceived emptyDataFrameJson],
        msgCalls := [(0, OnMessageReceived
          \<lparr> o_id = JNum 0, o_senderId = JNum 0, o_receiverId = JNum 0, o_message = JStr '''',
            o_messageType = JStr ''text'', o_isRead = JBool False, o_createdAt = JNum 5000,
            o_senderName = JStr '''', o_senderAvatar = JStr '''' \<rparr>)]\<rparr>"
  by (simp add: handleMessage_def handleMessageTry_def handlePrivateMessage_def
      emptyDataFrameJson_def RECEIVE_PRIVATE_MESSAGE_def fromJson_def readProp_def js_or_def
      newWebSocketManager_def)

text \<open>
  C5 (amended).  \<^verbatim>\<open>handleMessage\<close> returns normally on every raw input, whatever
  \<^verbatim>\<open>JSON.parse\<close>, the decoders and the listeners raise, and changes nothing of the manager
  but the console and the record of listener calls: the status and the socket stay as they
  are.  A frame is dropped, with a console line and no listener call, when it is invalid
  JSON, an envelope that is \<^verbatim>\<open>null\<close>, an unrecognized event, or a recognized event whose
  data cannot be read: data that is \<^verbatim>\<open>null\<close> or absent in a private message and in an
  offline batch, and in \<^verbatim>\<open>message_sent\<close> and \<^verbatim>\<open>message_read\<close> when a listener is
  registered; an offline batch whose \<^verbatim>\<open>messages\<close> is not an array or holds an element that
  is \<^verbatim>\<open>null\<close> or \<^verbatim>\<open>undefined\<close>.  Every other recognized event reaches the listeners
  (taken here to return normally): a private message and the messages of an offline batch
  decoded by \<^verbatim>\<open>fromJson\<close>, which puts defaults in place of absent fields and raises on
  \<^verbatim>\<open>null\<close> and \<^verbatim>\<open>undefined\<close> only; \<^verbatim>\<open>message_sent\<close> and \<^verbatim>\<open>message_read\<close> with the
  fields as they are read, \<^verbatim>\<open>undefined\<close> when absent; \<^verbatim>\<open>online_status\<close> with its data
  as it is.
\<close>

theorem handleMessage_total:
  "(\<exists>calls logs. handleMessage parse throws now raw w =
        w\<lparr>msgCalls := msgCalls w @ calls, console := console w @ logs\<rparr>)
   \<and> status (handleMessage parse throws now raw w) = status w
   \<and> webSocket (handleMessage parse throws now raw w) = webSocket w
   \<and> (parse raw = None \<longrightarrow>
        handleMessage parse throws now raw w =
          w\<lparr>console := console w @ [LogHandleFailed SyntaxError]\<rparr>)
   \<and> (\<forall>msg e. parse raw = Some msg \<and> getProp msg ''event'' = Inl e \<longrightarrow>
        handleMessage parse throws now raw w =
          w\<lparr>console := console w @ [LogReceived msg, LogHandleFailed e]\<rparr>)
   \<and> (\<forall>msg ev. parse raw = Some msg \<and> getProp msg ''event'' = Inr ev
          \<and> ev \<notin> {JStr RECEIVE_PRIVATE_MESSAGE, JStr MESSAGE_SENT, JStr MESSAGE_READ,
                   JStr ONLINE_STATUS, JStr OFFLINE_MESSAGES} \<longrightarrow>
        handleMessage parse throws now raw w =
          w\<lparr>console := console w @ [LogReceived msg, LogUnknownEvent ev]\<rparr>)
   \<and> (\<forall>msg e. parse raw = Some msg
          \<and> getProp msg ''event'' = Inr (JStr RECEIVE_PRIVATE_MESSAGE)
          \<and> fromJson now (readProp msg ''data'') = Inl e \<longrightarrow>
        handleMessage parse throws now raw w =
          w\<lparr>console := console w @ [LogReceived msg, LogHandleFailed e]\<rparr>)
   \<and> (\<forall>msg v. parse raw = Some msg
          \<and> getProp msg ''event'' = Inr (JStr OFFLINE_MESSAGES)
          \<and> getProp (readProp msg ''data'') ''messages'' = Inr v \<and> (\<forall>xs. v \<noteq> JArr xs) \<longrightarrow>
        handleMessage parse throws now raw w =
          w\<lparr>console := console w @ [LogReceived msg, LogHandleFailed TypeError]\<rparr>)
   \<and> (\<forall>msg m. parse raw = Some msg
          \<and> getProp msg ''event'' = Inr (JStr RECEIVE_PRIVATE_MESSAGE)
          \<and> fromJson now (readProp msg ''data'') = Inr m \<and> (\<forall>l c. \<not> throws l c) \<longrightarrow>
        handleMessage parse throws now raw w =
          w\<lparr>console := console w @ [LogReceived msg],
            msgCalls := msgCalls w @
              map (\<lambda>l. (l, OnMessageReceived m)) (messageListeners w)\<rparr>)
   \<and> (\<forall>v e. fromJson now v = Inl e \<longleftrightarrow> (v = JNull \<or> v = JUndefined) \<and> e = TypeError)
   \<and> (\<forall>msg. parse raw = Some msg
          \<and> getProp msg ''event'' = Inr (JStr MESSAGE_SENT)
          \<and> messageListeners w \<noteq> []
          \<and> readProp msg ''data'' \<in> {JNull, JUndefined} \<longrightarrow>
        handleMessage parse throws now raw w =
          w\<lparr>console := console w @ [LogReceived msg, LogHandleFailed TypeError]\<rparr>)
   \<and> (\<forall>msg. parse raw = Some msg
          \<and> getProp msg ''event'' = Inr (JStr MESSAGE_SENT)
          \<and> readProp msg ''data'' \<notin> {JNull, JUndefined} \<and> (\<forall>l c. \<not> throws l c) \<longrightarrow>
        handleMessage parse throws now raw w =
          w\<lparr>console := console w @ [LogReceived msg],
            msgCalls := msgCalls w @
              map (\<lambda>l. (l, OnMessageSent (readProp (readProp msg ''data'') ''success'')
                                          (readProp (readProp msg ''data'') ''messageId'')))
                (messageListeners w)\<rparr>)
   \<and> (\<forall>msg. parse raw = Some msg
          \<and> getProp msg ''event'' = Inr (JStr MESSAGE_READ)
          \<and> messageListeners w \<noteq> []
          \<and> readProp msg ''data'' \<in> {JNull, JUndefined} \<longrightarrow>
        handleMessage parse throws now raw w =
          w\<lparr>console := console w @ [LogReceived msg, LogHandleFailed TypeError]\<rparr>)
   \<and> (\<forall>msg. parse raw = Some msg
          \<and> getProp msg ''event'' = Inr (JStr MESSAGE_READ)
          \<and> readProp msg ''data'' \<notin> {JNull, JUndefined} \<and> (\<forall>l c. \<not> throws l c) \<longrightarrow>
        handleMessage parse throws now raw w =
          w\<lparr>console := console w @ [LogReceived msg],
            msgCalls := msgCalls w @
              map (\<lambda>l. (l, OnMessageRead (readProp (readProp msg ''data'') ''readerId'')))
                (messageListeners w)\<rparr>)
   \<and> (\<forall>msg. parse raw = Some msg
          \<and> (getProp msg ''event'' = Inr (JStr MESSAGE_SENT)
             \<or> getProp msg ''event'' = Inr (JStr MESSAGE_READ))
          \<and> messageListeners w = [] \<longrightarrow>
        handleMessage parse throws now raw w = w\<lparr>console := console w @ [LogReceived msg]\<rparr>)
   \<and> (\<forall>msg. parse raw = Some msg
          \<and> getProp msg ''event'' = Inr (JStr ONLINE_STATUS) \<and> (\<forall>l c. \<not> throws l c) \<longrightarrow>
        handleMessage parse throws now raw w =
          w\<lparr>console := console w @ [LogReceived msg],
            msgCalls := msgCalls w @
              map (\<lambda>l. (l, OnOnlineStatusReceived (readProp msg ''data''))) (messageListeners w)\<rparr>)
   \<and> (\<forall>msg. parse raw = Some msg
          \<and> getProp msg ''event'' = Inr (JStr OFFLINE_MESSAGES)
          \<and> readProp msg ''data'' \<in> {JNull, JUndefined} \<longrightarrow>
        handleMessage parse throws now raw w =
          w\<lparr>console := console w @ [LogReceived msg, LogHandleFailed TypeError]\<rparr>)
   \<and> (\<forall>msg xs. parse raw = Some msg
          \<and> getProp msg ''event'' = Inr (JStr OFFLINE_MESSAGES)
          \<and> getProp (readProp msg ''data'') ''messages'' = Inr (JArr xs)
          \<and> (JNull \<in> set xs \<or> JUndefined \<in> set xs) \<longrightarrow>
        handleMessage parse throws now raw w =
          w\<lparr>console := console w @ [LogReceived msg, LogHandleFailed TypeError]\<rparr>)
   \<and> (\<forall>msg xs. parse raw = Some msg
          \<and> getProp msg ''event'' = Inr (JStr OFFLINE_MESSAGES)
          \<and> getProp (readProp msg ''data'') ''messages'' = Inr (JArr xs)
          \<and> JNull \<notin> set xs \<and> JUndefined \<notin> set xs \<and> (\<forall>l c. \<not> throws l c) \<longrightarrow>
        (\<exists>ms. map Inr ms = map (fromJson now) xs
           \<and> handleMessage parse throws now raw w =
               w\<lparr>console := console w @ [LogReceived msg],
                 msgCalls := msgCalls w @
                   map (\<lambda>l. (l, OnOfflineMessagesReceived ms)) (messageListeners w)\<rparr>))"
proof (intro conjI allI impI)
  show "\<exists>calls logs. handleMessage parse throws now raw w =
        w\<lparr>msgCalls := msgCalls w @ calls, console := console w @ logs\<rparr>"
    by (rule handleMessage_frame)
  show "status (handleMessage parse throws now raw w) = status w"
    by (rule handleMessage_fields)
  show "webSocket (handleMessage parse throws now raw w) = webSocket w"
    by (rule handleMessage_fields)
  show "handleMessage parse throws now raw w =
          w\<lparr>console := console w @ [LogHandleFailed SyntaxError]\<rparr>"
    if "parse raw = None"
    using that by (rule handleMessage_syntax)
  show "handleMessage parse throws now raw w =
          w\<lparr>console := console w @ [LogReceived msg, LogHandleFailed e]\<rparr>"
    if "parse raw = Some msg \<and> getProp msg ''event'' = Inl e" for msg e
    using that by (simp add: handleMessage_no_event)
  show "handleMessage parse throws now raw w =
          w\<lparr>console := console w @ [LogReceived msg, LogUnknownEvent ev]\<rparr>"
    if "parse raw = Some msg \<and> getProp msg ''event'' = Inr ev
          \<and> ev \<notin> {JStr RECEIVE_PRIVATE_MESSAGE, JStr MESSAGE_SENT, JStr MESSAGE_READ,
                   JStr ONLINE_STATUS, JStr OFFLINE_MESSAGES}" for msg ev
    using that handleMessage_unknown [of parse raw msg ev throws now w] by blast
  show "handleMessage parse throws now raw w =
          w\<lparr>console := console w @ [LogReceived msg, LogHandleFailed e]\<rparr>"
    if "parse raw = Some msg
          \<and> getProp msg ''event'' = Inr (JStr RECEIVE_PRIVATE_MESSAGE)
          \<and> fromJson now (readProp msg ''data'') = Inl e" for msg e
    using that by (simp add: handleMessage_private_raised)
  show "handleMessage parse throws now raw w =
          w\<lparr>console := console w @ [LogReceived msg, LogHandleFailed TypeError]\<rparr>"
    if "parse raw = Some msg
          \<and> getProp msg ''event'' = Inr (JStr OFFLINE_MESSAGES)
          \<and> getProp (readProp msg ''data'') ''messages'' = Inr v \<and> (\<forall>xs. v \<noteq> JArr xs)" for msg v
    using that handleMessage_offline_raised [of parse raw msg v throws now w] by blast
  show "handleMessage parse throws now raw w =
          w\<lparr>console := console w @ [LogReceived msg],
            msgCalls := msgCalls w @
              map (\<lambda>l. (l, OnMessageReceived m)) (messageListeners w)\<rparr>"
    if "parse raw = Some msg
          \<and> getProp msg ''event'' = Inr (JStr RECEIVE_PRIVATE_MESSAGE)
          \<and> fromJson now (readProp msg ''data'') = Inr m \<and> (\<forall>l c. \<not> throws l c)" for msg m
    using that handleMessage_private_delivered [of parse raw msg now m throws w] by blast
  show "fromJson now v = Inl e \<longleftrightarrow> (v = JNull \<or> v = JUndefined) \<and> e = TypeError" for v e
    by (rule fromJson_raises)
  show "handleMessage parse throws now raw w =
          w\<lparr>console := console w @ [LogReceived msg, LogHandleFailed TypeError]\<rparr>"
    if "parse raw = Some msg
          \<and> getProp msg ''event'' = Inr (JStr MESSAGE_SENT)
          \<and> messageListeners w \<noteq> []
          \<and> readProp msg ''data'' \<in> {JNull, JUndefined}" for msg
  proof -
    from that have "getProp (readProp msg ''data'') ''success'' = Inl TypeError"
      by (simp add: getProp_raises)
    with that show ?thesis by (simp add: handleMessage_sent_raised)
  qed
  show "handleMessage parse throws now raw w =
          w\<lparr>console := console w @ [LogReceived msg],
            msgCalls := msgCalls w @
              map (\<lambda>l. (l, OnMessageSent (readProp (readProp msg ''data'') ''success'')
                                          (readProp (readProp msg ''data'') ''messageId'')))
                (messageListeners w)\<rparr>"
    if "parse raw = Some msg
          \<and> getProp msg ''event'' = Inr (JStr MESSAGE_SENT)
          \<and> readProp msg ''data'' \<notin> {JNull, JUndefined} \<and> (\<forall>l c. \<not> throws l c)" for msg
  proof -
    from that have "getProp (readProp msg ''data'') ''success''
        = Inr (readProp (readProp msg ''data'') ''success'')"
      by (simp add: getProp_readProp)
    with that show ?thesis
      using handleMessage_sent_delivered [of parse raw msg
          "readProp (readProp msg ''data'') ''success''" throws now w]
      by blast
  qed
  show "handleMessage parse throws now raw w =
          w\<lparr>console := console w @ [LogReceived msg, LogHandleFailed TypeError]\<rparr>"
    if "parse raw = Some msg
          \<and> getProp msg ''event'' = Inr (JStr MESSAGE_READ)
          \<and> messageListeners w \<noteq> []
          \<and> readProp msg ''data'' \<in> {JNull, JUndefined}" for msg
  proof -
    from that have "getProp (readProp msg ''data'') ''readerId'' = Inl TypeError"
      by (simp add: getProp_raises)
    with that show ?thesis by (simp add: handleMessage_read_raised)
  qed
  show "handleMessage parse throws now raw w =
          w\<lparr>console := console w @ [LogReceived msg],
            msgCalls := msgCalls w @
              map (\<lambda>l. (l, OnMessageRead (readProp (readProp msg ''data'') ''readerId'')))
                (messageListeners w)\<rparr>"
    if "parse raw = Some msg
          \<and> getProp msg ''event'' = Inr (JStr MESSAGE_READ)
          \<and> readProp msg ''data'' \<notin> {JNull, JUndefined} \<and> (\<forall>l c. \<not> throws l c)" for msg
  proof -
    from that have "getProp (readProp msg ''data'') ''readerId''
        = Inr (readProp (readProp msg ''data'') ''readerId'')"
      by (simp add: getProp_readProp)
    with that show ?thesis
      using handleMessage_read_delivered [of parse raw msg
          "readProp (readProp msg ''data'') ''readerId''" throws now w]
      by blast
  qed
  show "handleMessage parse throws now raw w = w\<lparr>console := console w @ [LogReceived msg]\<rparr>"
    if "parse raw = Some msg
          \<and> (getProp msg ''event'' = Inr (JStr MESSAGE_SENT)
             \<or> getProp msg ''event'' = Inr (JStr MESSAGE_READ))
          \<and> messageListeners w = []" for msg
    using that handleMessage_nobody [of parse raw msg w throws now] by blast
  show "handleMessage parse throws now raw w =
          w\<lparr>console := console w @ [LogReceived msg],
            msgCalls := msgCalls w @
              map (\<lambda>l. (l, OnOnlineStatusReceived (readProp msg ''data''))) (messageListeners w)\<rparr>"
    if "parse raw = Some msg
          \<and> getProp msg ''event'' = Inr (JStr ONLINE_STATUS) \<and> (\<forall>l c. \<not> throws l c)" for msg
    using that handleMessage_online [of parse raw msg throws now w] by blast
  show "handleMessage parse throws now raw w =
          w\<lparr>console := console w @ [LogReceived msg, LogHandleFailed TypeError]\<rparr>"
    if "parse raw = Some msg
          \<and> getProp msg ''event'' = Inr (JStr OFFLINE_MESSAGES)
          \<and> readProp msg ''data'' \<in> {JNull, JUndefined}" for msg
  proof -
    from that have "getProp (readProp msg ''data'') ''messages'' = Inl TypeError"
      by (simp add: getProp_raises)
    with that show ?thesis by (simp add: handleMessage_offline_no_data)
  qed
  show "handleMessage parse throws now raw w =
          w\<lparr>console := console w @ [LogReceived msg, LogHandleFailed TypeError]\<rparr>"
    if "parse raw = Some msg
          \<and> getProp msg ''event'' = Inr (JStr OFFLINE_MESSAGES)
          \<and> getProp (readProp msg ''data'') ''messages'' = Inr (JArr xs)
          \<and> (JNull \<in> set xs \<or> JUndefined \<in> set xs)" for msg xs
  proof -
    from that have "mapFromJson now xs = Inl TypeError"
      by (simp add: mapFromJson_raises)
    with that show ?thesis
      using handleMessage_offline_element [of parse raw msg xs now TypeError throws w] by blast
  qed
  show "\<exists>ms. map Inr ms = map (fromJson now) xs
           \<and> handleMessage parse throws now raw w =
               w\<lparr>console := console w @ [LogReceived msg],
                 msgCalls := msgCalls w @
                   map (\<lambda>l. (l, OnOfflineMessagesReceived ms)) (messageListeners w)\<rparr>"
    if "parse raw = Some msg
          \<and> getProp msg ''event'' = Inr (JStr OFFLINE_MESSAGES)
          \<and> getProp (readProp msg ''data'') ''messages'' = Inr (JArr xs)
          \<and> JNull \<notin> set xs \<and> JUndefined \<notin> set xs \<and> (\<forall>l c. \<not> throws l c)" for msg xs
  proof -
    from that obtain ms where ms: "mapFromJson now xs = Inr ms"
        "map Inr ms = map (fromJson now) xs"
      using mapFromJson_returns [of xs now] by blast
    have "handleMessage parse throws now raw w =
               w\<lparr>console := console w @ [LogReceived msg],
                 msgCalls := msgCalls w @
                   map (\<lambda>l. (l, OnOfflineMessagesReceived ms)) (messageListeners w)\<rparr>"
      using that ms(1) handleMessage_offline_delivered [of parse raw msg xs now ms throws w]
      by blast
    with ms(2) show ?thesis by blast
  qed
qed

theorem handleMessage_total_witness:
  "handleMessage (\<lambda>r. None) (\<lambda>l c. True) 5000 ''not json''
      (newWebSocketManager\<lparr>status := CONNECTED, webSocket := Some 1, messageListeners := [0]\<rparr>)
    = newWebSocketManager\<lparr>status := CONNECTED, webSocket := Some 1, messageListeners := [0],
        console := [LogHandleFailed SyntaxError]\<rparr>
   \<and> handleMessage (\<lambda>r. Some JNull) (\<lambda>l c. True) 5000 ''null''
      (newWebSocketManager\<lparr>status := CONNECTED, webSocket := Some 1, messageListeners := [0]\<rparr>)
    = newWebSocketManager\<lparr>status := CONNECTED, webSocket := Some 1, messageListeners := [0],
        console := [LogReceived JNull, LogHandleFailed TypeError]\<rparr>
   \<and> handleMessage (\<lambda>r. Some (JObj [(''event'', JStr ''typing''), (''data'', JNull)]))
      (\<lambda>l c. True) 5000 ''frame''
      (newWebSocketManager\<lparr>status := CONNECTED, webSocket := Some 1, messageListeners := [0]\<rparr>)
    = newWebSocketManager\<lparr>status := CONNECTED, webSocket := Some 1, messageListeners := [0],
        console := [LogReceived (JObj [(''event'', JStr ''typing''), (''data'', JNull)]),
                    LogUnknownEvent (JStr ''typing'')]\<rparr>
   \<and> handleMessage (\<lambda>r. Some (JObj [(''event'', JStr ''receive_private_message''), (''data'', JNull)]))
      (\<lambda>l c. True) 5000 ''frame''
      (newWebSocketManager\<lparr>status := CONNECTED, webSocket := Some 1, messageListeners := [0]\<rparr>)
    = newWebSocketManager\<lparr>status := CONNECTED, webSocket := Some 1, messageListeners := [0],
        console := [LogReceived (JObj [(''event'', JStr ''receive_private_message''), (''data'', JNull)]),
                    LogHandleFailed TypeError]\<rparr>
   \<and> handleMessage (\<lambda>r. Some (JObj [(''event'', JStr ''offline_messages''),
                                    (''data'', JObj [(''messages'', JStr ''none'')])]))
      (\<lambda>l c. True) 5000 ''frame''
      (newWebSocketManager\<lparr>status := CONNECTED, webSocket := Some 1, messageListeners := [0]\<rparr>)
    = newWebSocketManager\<lparr>status := CONNECTED, webSocket := Some 1, messageListeners := [0],
        console := [LogReceived (JObj [(''event'', JStr ''offline_messages''),
                                       (''data'', JObj [(''messages'', JStr ''none'')])]),
                    LogHandleFailed TypeError]\<rparr>
   \<and> msgCalls (handleMessage (\<lambda>r. Some (JObj [(''event'', JStr ''receive_private_message''),
          (''data'', JObj [(''senderId'', JNum 7)])]))
      (\<lambda>l c. False) 5000 ''frame''
      (newWebSocketManager\<lparr>status := CONNECTED, webSocket := Some 1, messageListeners := [0]\<rparr>))
    = [(0, OnMessageReceived
          \<lparr> o_id = JNum 0, o_senderId = JNum 7, o_receiverId = JNum 0, o_message = JStr '''',
            o_messageType = JStr ''text'', o_isRead = JBool False, o_createdAt = JNum 5000,
            o_senderName = JStr '''', o_senderAvatar = JStr '''' \<rparr>)]
   \<and> handleMessage (\<lambda>r. Some (JObj [(''event'', JStr ''message_sent''), (''data'', JNull)]))
      (\<lambda>l c. True) 5000 ''frame''
      (newWebSocketManager\<lparr>status := CONNECTED, webSocket := Some 1, messageListeners := [0]\<rparr>)
    = newWebSocketManager\<lparr>status := CONNECTED, webSocket := Some 1, messageListeners := [0],
        console := [LogReceived (JObj [(''event'', JStr ''message_sent''), (''data'', JNull)]),
                    LogHandleFailed TypeError]\<rparr>
   \<and> msgCalls (handleMessage (\<lambda>r. Some (JObj [(''event'', JStr ''message_sent''), (''data'', JObj [])]))
      (\<lambda>l c. False) 5000 ''frame''
      (newWebSocketManager\<lparr>status := CONNECTED, webSocket := Some 1, messageListeners := [0]\<rparr>))
    = [(0, OnMessageSent JUndefined JUndefined)]
   \<and> msgCalls (handleMessage (\<lambda>r. Some (JObj [(''event'', JStr ''message_read''),
          (''data'', JObj [(''readerId'', JNum 7)])]))
      (\<lambda>l c. False) 5000 ''frame''
      (newWebSocketManager\<lparr>status := CONNECTED, webSocket := Some 1, messageListeners := [0]\<rparr>))
    = [(0, OnMessageRead (JNum 7))]
   \<and> msgCalls (handleMessage (\<lambda>r. Some (JObj [(''event'', JStr ''online_status''), (''data'', JNull)]))
      (\<lambda>l c. False) 5000 ''frame''
      (newWebSocketManager\<lparr>status := CONNECTED, webSocket := Some 1, messageListeners := [0]\<rparr>))
    = [(0, OnOnlineStatusReceived JNull)]
   \<and> handleMessage (\<lambda>r. Some (JObj [(''event'', JStr ''offline_messages''),
                                    (''data'', JObj [(''messages'', JArr [JObj [], JNull])])]))
      (\<lambda>l c. False) 5000 ''frame''
      (newWebSocketManager\<lparr>status := CONNECTED, webSocket := Some 1, messageListeners := [0]\<rparr>)
    = newWebSocketManager\<lparr>status := CONNECTED, webSocket := Some 1, messageListeners := [0],
        console := [LogReceived (JObj [(''event'', JStr ''offline_messages''),
                                       (''data'', JObj [(''messages'', JArr [JObj [], JNull])])]),
                    LogHandleFailed TypeError]\<rparr>"
proof -
  let ?w = "newWebSocketManager\<lparr>status := CONNECTED, webSocket := Some 1, messageListeners := [0]\<rparr>"
  have d: "fromJson 5000 (JObj [(''senderId'', JNum 7)]) = Inr
          \<lparr> o_id = JNum 0, o_senderId = JNum 7, o_receiverId = JNum 0, o_message = JStr '''',
            o_messageType = JStr ''text'', o_isRead = JBool False, o_createdAt = JNum 5000,
            o_senderName = JStr '''', o_senderAvatar = JStr '''' \<rparr>"
    "fromJson 5000 JNull = Inl TypeError"
    by (simp_all add: fromJson_def readProp_def js_or_def)
  show ?thesis
    using handleMessage_total [of "\<lambda>r. None" "\<lambda>l c. True" 5000 "''not json''" ?w]
      handleMessage_total [of "\<lambda>r. Some JNull" "\<lambda>l c. True" 5000 "''null''" ?w]
      handleMessage_total [of "\<lambda>r. Some (JObj [(''event'', JStr ''typing''), (''data'', JNull)])"
        "\<lambda>l c. True" 5000 "''frame''" ?w]
      handleMessage_total [of "\<lambda>r. Some (JObj [(''event'', JStr ''receive_private_message''), (''data'', JNull)])"
        "\<lambda>l c. True" 5000 "''frame''" ?w]
      handleMessage_total [of "\<lambda>r. Some (JObj [(''event'', JStr ''offline_messages''),
                                    (''data'', JObj [(''messages'', JStr ''none'')])])"
        "\<lambda>l c. True" 5000 "''frame''" ?w]
      handleMessage_total [of "\<lambda>r. Some (JObj [(''event'', JStr ''receive_private_message''),
          (''data'', JObj [(''senderId'', JNum 7)])])" "\<lambda>l c. False" 5000 "''frame''" ?w]
      handleMessage_total [of "\<lambda>r. Some (JObj [(''event'', JStr ''message_sent''), (''data'', JNull)])"
        "\<lambda>l c. True" 5000 "''frame''" ?w]
      handleMessage_total [of "\<lambda>r. Some (JObj [(''event'', JStr ''message_sent''), (''data'', JObj [])])"
        "\<lambda>l c. False" 5000 "''frame''" ?w]
      handleMessage_total [of "\<lambda>r. Some (JObj [(''event'', JStr ''message_read''),
          (''data'', JObj [(''readerId'', JNum 7)])])" "\<lambda>l c. False" 5000 "''frame''" ?w]
      handleMessage_total [of "\<lambda>r. Some (JObj [(''event'', JStr ''online_status''), (''data'', JNull)])"
        "\<lambda>l c. False" 5000 "''frame''" ?w]
      handleMessage_total [of "\<lambda>r. Some (JObj [(''event'', JStr ''offline_messages''),
                                    (''data'', JObj [(''messages'', JArr [JObj [], JNull])])])"
        "\<lambda>l c. False" 5000 "''frame''" ?w]
    by (simp add: d newWebSocketManager_def RECEIVE_PRIVATE_MESSAGE_def MESSAGE_SENT_def
      MESSAGE_READ_def ONLINE_STATUS_def OFFLINE_MESSAGES_def readProp_def)
qed

section \<open>The conversation store\<close>

lemma addMessageToCache_fields:
  "currentUserId (addMessageToCache k m s) = currentUserId s"
  "conversationCache (addMessageToCache k m s) = conversationCache s"
  "webSocketManager (addMessageToCache k m s) = webSocketManager s"
  "listeners (addMessageToCache k m s) = listeners s"
  by (simp_all add: addMessageToCache_def)

lemma cached_addMessageToCache:
  "cached (addMessageToCache k m s) j = (if j = k then cached s k @ [m] else cached s j)"
  by (simp add: cached_def addMessageToCache_def)

lemma updateConversationWithMessage_fields:
  "currentUserId (updateConversationWithMessage now m s) = currentUserId s"
  "messageCache (updateConversationWithMessage now m s) = messageCache s"
  "webSocketManager (updateConversationWithMessage now m s) = webSocketManager s"
  "listeners (updateConversationWithMessage now m s) = listeners s"
  by (simp_all add: updateConversationWithMessage_def split: option.splits)

lemma notify_fields:
  "currentUserId (notify c s) = currentUserId s"
  "messageCache (notify c s) = messageCache s"
  "conversationCache (notify c s) = conversationCache s"
  "webSocketManager (notify c s) = webSocketManager s"
  "listeners (notify c s) = listeners s"
  by (simp_all add: notify_def)

lemma messageCache_handleNewMessage:
  "messageCache (handleNewMessage now m s) =
     (messageCache s)(o_senderId m \<mapsto> cached s (o_senderId m) @ [m])"
  by (simp add: handleNewMessage_def notify_fields updateConversationWithMessage_fields
      addMessageToCache_def)

lemma cached_handleNewMessage:
  "cached (handleNewMessage now m s) j =
     (if j = o_senderId m then cached s (o_senderId m) @ [m] else cached s j)"
  by (simp add: cached_def messageCache_handleNewMessage)

lemma handleNewMessage_fields:
  "currentUserId (handleNewMessage now m s) = currentUserId s"
  "webSocketManager (handleNewMessage now m s) = webSocketManager s"
  "listeners (handleNewMessage now m s) = listeners s"
  by (simp_all add: handleNewMessage_def notify_fields updateConversationWithMessage_fields
      addMessageToCache_fields)

lemma find_removeFirst_other:
  "(\<And>x. Q x \<Longrightarrow> \<not> P x) \<Longrightarrow> find Q (removeFirst P xs) = find Q xs"
  by (induction xs) auto

lemma length_removeFirst:
  "find P xs \<noteq> None \<Longrightarrow> Suc (length (removeFirst P xs)) = length xs"
  by (induction xs) auto

lemma touched_fields:
  "otherUserId (touched s m c) = otherUserId c"
  "cid (touched s m c) = cid c"
  "unreadCount (touched s m c) =
     (if o_senderId m \<noteq> JNum (currentUserId s) then unreadCount c + 1 else unreadCount c)"
  by (simp_all add: touched_def)

lemma updateConversationWithMessage_created:
  "conversationOf s (otherOf s m) = None \<Longrightarrow>
     conversationCache (updateConversationWithMessage now m s) =
       touched s m (newChatConversation now (otherOf s m) (js_or (o_senderName m) (JStr unknownUser)))
         # conversationCache s"
  by (simp add: updateConversationWithMessage_def conversationOf_def)

lemma updateConversationWithMessage_found:
  "conversationOf s (otherOf s m) = Some c \<Longrightarrow>
     conversationCache (updateConversationWithMessage now m s) =
       touched s m c # removeFirst (\<lambda>c. otherUserId c = otherOf s m) (conversationCache s)"
  by (simp add: updateConversationWithMessage_def conversationOf_def)

lemma conversationCache_handleNewMessage:
  "conversationCache (handleNewMessage now m s) =
     conversationCache (updateConversationWithMessage now m s)"
proof -
  let ?t = "addMessageToCache (o_senderId m) m s"
  have o: "otherOf ?t m = otherOf s m" and t: "touched ?t m = touched s m"
    and c: "conversationOf ?t = conversationOf s"
    by (simp_all add: otherOf_def touched_def conversationOf_def addMessageToCache_fields fun_eq_iff)
  have "conversationCache (updateConversationWithMessage now m ?t) =
      conversationCache (updateConversationWithMessage now m s)"
  proof (cases "conversationOf s (otherOf s m)")
    case None
    then show ?thesis
      using updateConversationWithMessage_created [of ?t m now]
        updateConversationWithMessage_created [of s m now]
      by (simp add: o t c addMessageToCache_fields)
  next
    case (Some c')
    then show ?thesis
      using updateConversationWithMessage_found [of ?t m c' now]
        updateConversationWithMessage_found [of s m c' now]
      by (simp add: o t c addMessageToCache_fields)
  qed
  then show ?thesis
    by (simp add: handleNewMessage_def notify_fields)
qed

lemma conversationOf_key: "conversationOf s k = Some c \<Longrightarrow> otherUserId c = k"
  by (auto simp: conversationOf_def find_Some_iff)

text \<open>A message from a peer whose conversation is found by the peer's id.\<close>

lemma handleNewMessage_found:
  assumes m: "o_senderId m = JNum p" and p: "p \<noteq> currentUserId s"
    and c: "conversationOf s (JNum p) = Some c"
  shows "conversationOf (handleNewMessage now m s) (JNum p) = Some (touched s m c)"
    and "unreadOf (handleNewMessage now m s) (JNum p) = unreadOf s (JNum p) + 1"
    and "length (conversationCache (handleNewMessage now m s)) = length (conversationCache s)"
proof -
  from m p have o: "otherOf s m = JNum p"
    by (simp add: otherOf_def)
  have cc: "conversationCache (handleNewMessage now m s) =
      touched s m c # removeFirst (\<lambda>c. otherUserId c = JNum p) (conversationCache s)"
    using updateConversationWithMessage_found [of s m c now] c
    by (simp add: conversationCache_handleNewMessage o)
  have k: "otherUserId c = JNum p"
    using c by (rule conversationOf_key)
  show f: "conversationOf (handleNewMessage now m s) (JNum p) = Some (touched s m c)"
    by (simp add: conversationOf_def cc touched_fields k)
  show "unreadOf (handleNewMessage now m s) (JNum p) = unreadOf s (JNum p) + 1"
    using m p by (simp add: unreadOf_def f c touched_fields)
  show "length (conversationCache (handleNewMessage now m s)) = length (conversationCache s)"
    using c length_removeFirst [of "\<lambda>c. otherUserId c = JNum p" "conversationCache s"]
    by (simp add: cc conversationOf_def)
qed

text \<open>A message from a peer for whom no conversation is found by the peer's id.\<close>

lemma handleNewMessage_created:
  assumes m: "o_senderId m = JNum p" and p: "p \<noteq> currentUserId s"
    and c: "conversationOf s (JNum p) = None"
  shows "conversationCache (handleNewMessage now m s) =
      (newChatConversation now (JNum p) (js_or (o_senderName m) (JStr unknownUser)))
        \<lparr>lastMessage := o_message m, lastMessageTime := o_createdAt m, unreadCount := 1\<rparr>
      # conversationCache s"
proof -
  from m p have o: "otherOf s m = JNum p"
    by (simp add: otherOf_def)
  show ?thesis
    using updateConversationWithMessage_created [of s m now] c m p
    by (simp add: conversationCache_handleNewMessage o touched_def newChatConversation_def)
qed

lemma batch_fields:
  "currentUserId (chatHandleOfflineMessages now ms s) = currentUserId s"
  by (induction ms arbitrary: s) (simp_all add: handleNewMessage_fields)

lemma cached_batch:
  "cached (chatHandleOfflineMessages now ms s) k = cached s k @ filter (\<lambda>m. o_senderId m = k) ms"
  by (induction ms arbitrary: s) (auto simp: cached_handleNewMessage)

lemma batch_found:
  assumes "\<forall>m \<in> set ms. o_senderId m = JNum p" and "p \<noteq> currentUserId s"
    and "conversationOf s (JNum p) \<noteq> None"
  shows "conversationOf (chatHandleOfflineMessages now ms s) (JNum p) \<noteq> None
       \<and> unreadOf (chatHandleOfflineMessages now ms s) (JNum p) = unreadOf s (JNum p) + int (length ms)"
  using assms
proof (induction ms arbitrary: s)
  case Nil
  then show ?case by simp
next
  case (Cons m ms)
  from Cons.prems obtain c where c: "conversationOf s (JNum p) = Some c" by blast
  from Cons.prems have m: "o_senderId m = JNum p" by simp
  note h = handleNewMessage_found [OF m Cons.prems(2) c, of now]
  have "conversationOf (chatHandleOfflineMessages now ms (handleNewMessage now m s)) (JNum p) \<noteq> None
       \<and> unreadOf (chatHandleOfflineMessages now ms (handleNewMessage now m s)) (JNum p)
          = unreadOf (handleNewMessage now m s) (JNum p) + int (length ms)"
  proof (rule Cons.IH)
    show "\<forall>m \<in> set ms. o_senderId m = JNum p" using Cons.prems(1) by simp
    show "p \<noteq> currentUserId (handleNewMessage now m s)"
      using Cons.prems(2) by (simp add: handleNewMessage_fields)
    show "conversationOf (handleNewMessage now m s) (JNum p) \<noteq> None"
      by (simp add: h(1))
  qed
  then show ?case by (simp add: h(2))
qed

lemma signedIn_fields:
  "currentUserId (signedIn u) = u"
  "cached (signedIn u) k = []"
  "unreadOf (signedIn u) k = 0"
  "conversationOf (signedIn u) k = None"
  "conversationCache (signedIn u) = []"
  "messageCache (signedIn u) = Map.empty"
  "webSocketManager (signedIn u) = newWebSocketManager"
  by (simp_all add: signedIn_def newChatManager_def cached_def unreadOf_def conversationOf_def)

lemma loadConversationsFromServer_fields:
  "currentUserId (loadConversationsFromServer r s) = currentUserId s"
  "messageCache (loadConversationsFromServer r s) = messageCache s"
  "cached (loadConversationsFromServer r s) k = cached s k"
  "webSocketManager (loadConversationsFromServer r s) = webSocketManager s"
  "conversationCache (loadConversationsFromServer (Some cs) s) = cs"
  by (simp_all add: loadConversationsFromServer_def cached_def split: option.splits)

text \<open>Sending.\<close>

lemma emit_fields:
  "status (snd (emit sendOk event data w)) = status w"
  "webSocket (snd (emit sendOk event data w)) = webSocket w"
  "transport (snd (emit sendOk event data w)) =
     (if status w = CONNECTED \<and> webSocket w \<noteq> None \<and> sendOk
      then transport w @ [(event, data)] else transport w)"
  by (simp_all add: emit_def)

lemma sendMessageBegin_fields:
  "currentUserId (snd (sendMessageBegin now r body s)) = currentUserId s"
  "conversationCache (snd (sendMessageBegin now r body s)) = conversationCache s"
  "webSocketManager (snd (sendMessageBegin now r body s)) = webSocketManager s"
  "fst (fst (sendMessageBegin now r body s)) =
     sendMessageRequestJson (currentUserId s) r body ''text''"
  by (simp_all add: sendMessageBegin_def Let_def addMessageToCache_fields)

lemma cached_sendMessageBegin:
  "cached (snd (sendMessageBegin now r body s)) k =
     (if k = JNum r then cached s (JNum r) @ [snd (fst (sendMessageBegin now r body s))]
      else cached s k)"
  by (simp add: sendMessageBegin_def Let_def cached_addMessageToCache)

lemma sendMessageSaved_webSocketManager:
  "webSocketManager (snd (sendMessageSaved saveOk sendOk call s)) =
     (if saveOk then snd (emit sendOk SEND_PRIVATE_MESSAGE (fst call) (webSocketManager s))
      else webSocketManager s)"
  by (simp add: sendMessageSaved_def sendPrivateMessage_def split: prod.splits sum.splits)

lemma sendMessageSaved_fields:
  "currentUserId (snd (sendMessageSaved saveOk sendOk call s)) = currentUserId s"
  "conversationCache (snd (sendMessageSaved saveOk sendOk call s)) = conversationCache s"
  "messageCache (snd (sendMessageSaved saveOk sendOk call s)) = messageCache s"
  by (simp_all add: sendMessageSaved_def split: prod.splits sum.splits)

lemma sendMessageSaved_transport:
  "transport (webSocketManager (snd (sendMessageSaved saveOk sendOk call s))) =
     (if saveOk \<and> sendOk \<and> status (webSocketManager s) = CONNECTED
         \<and> webSocket (webSocketManager s) \<noteq> None
      then transport (webSocketManager s) @ [(SEND_PRIVATE_MESSAGE, fst call)]
      else transport (webSocketManager s))"
  by (simp add: sendMessageSaved_webSocketManager emit_fields)

lemma sendMessageSaved_status:
  "status (webSocketManager (snd (sendMessageSaved saveOk sendOk call s))) = status (webSocketManager s)"
  "webSocket (webSocketManager (snd (sendMessageSaved saveOk sendOk call s))) = webSocket (webSocketManager s)"
  by (simp_all add: sendMessageSaved_webSocketManager emit_fields)

lemma step_transport: "transport (step e w) = transport w"
  by (cases e; simp add: onOpen_def onClose_def onError_def timerFired_def connect_def
        connectCatch_def Let_def scheduleReconnect_fields notifyConnectionListeners_fields
        split: connect_outcome.splits)

lemma run_transport: "transport (run es w) = transport w"
  by (induction es arbitrary: w) (simp_all add: step_transport)

lemma step_not_connected:
  "e \<noteq> EvOpen \<Longrightarrow> status w \<noteq> CONNECTED \<Longrightarrow> status (step e w) \<noteq> CONNECTED"
  by (cases e; simp add: onClose_def onError_def timerFired_def connect_def
        connectCatch_def Let_def scheduleReconnect_fields notifyConnectionListeners_fields
        split: connect_outcome.splits)

lemma sent_act_Call: "sent (act (Call now r body) c) = sent c"
  by (cases c) (simp add: sent_def sendMessageBegin_fields)

lemma sent_act_Socket: "sent (act (Socket e) c) = sent c"
  by (cases c) (simp add: sent_def step_transport)

lemma sent_act_SaveDone:
  "sent (act (SaveDone i saveOk sendOk) (waiting, s)) =
     (if i < length waiting \<and> saveOk \<and> sendOk \<and> status (webSocketManager s) = CONNECTED
         \<and> webSocket (webSocketManager s) \<noteq> None
      then sent (waiting, s) @ [(SEND_PRIVATE_MESSAGE, fst (waiting ! i))]
      else sent (waiting, s))"
  by (simp add: sent_def sendMessageSaved_transport)

lemma act_not_connected:
  assumes "a \<noteq> Socket EvOpen" "status (webSocketManager (snd c)) \<noteq> CONNECTED"
  shows "status (webSocketManager (snd (act a c))) \<noteq> CONNECTED \<and> sent (act a c) = sent c"
proof (cases c)
  case (Pair waiting s)
  show ?thesis
  proof (cases a)
    case (Call now r body)
    with assms Pair show ?thesis
      by (simp add: sent_act_Call sendMessageBegin_fields del: act.simps)
         (simp add: sendMessageBegin_fields)
  next
    case (SaveDone i saveOk sendOk)
    with assms Pair show ?thesis
      by (simp add: sent_act_SaveDone del: act.simps) (simp add: sendMessageSaved_status)
  next
    case (Socket e)
    with assms Pair have "e \<noteq> EvOpen" by simp
    with assms Pair Socket show ?thesis
      by (simp add: sent_act_Socket del: act.simps) (simp add: step_not_connected)
  qed
qed

lemma exec_not_connected:
  "Socket EvOpen \<notin> set as \<Longrightarrow> status (webSocketManager (snd c)) \<noteq> CONNECTED \<Longrightarrow>
     sent (exec as c) = sent c"
proof (induction as arbitrary: c)
  case Nil
  show ?case by simp
next
  case (Cons a as)
  from Cons.prems have a: "a \<noteq> Socket EvOpen" and as: "Socket EvOpen \<notin> set as"
    by auto
  note n = act_not_connected [OF a Cons.prems(2)]
  have "sent (exec as (act a c)) = sent (act a c)"
    using as n by (intro Cons.IH) simp_all
  with n show ?case by simp
qed

lemma act_nothing_waiting:
  assumes "\<not> isCall a" "fst c = []"
  shows "fst (act a c) = [] \<and> sent (act a c) = sent c"
proof (cases c)
  case (Pair waiting s)
  with assms have w: "waiting = []" by simp
  show ?thesis
  proof (cases a)
    case (Call now r body)
    with assms show ?thesis by simp
  next
    case (SaveDone i saveOk sendOk)
    with Pair w show ?thesis by simp
  next
    case (Socket e)
    with Pair w show ?thesis by (simp add: sent_def step_transport)
  qed
qed

lemma exec_nothing_waiting:
  "\<forall>a \<in> set as. \<not> isCall a \<Longrightarrow> fst c = [] \<Longrightarrow>
     fst (exec as c) = [] \<and> sent (exec as c) = sent c"
proof (induction as arbitrary: c)
  case Nil
  then show ?case by simp
next
  case (Cons a as)
  from Cons.prems have a: "\<not> isCall a" and as: "\<forall>a \<in> set as. \<not> isCall a"
    by simp_all
  note n = act_nothing_waiting [OF a Cons.prems(2)]
  have "fst (exec as (act a c)) = [] \<and> sent (exec as (act a c)) = sent (act a c)"
    using as n by (intro Cons.IH) simp_all
  with n show ?case by simp
qed

lemma exec_append: "exec (as @ bs) c = exec bs (exec as c)"
  by (induction as arbitrary: c) simp_all

text \<open>Marking as read.\<close>

lemma find_updateFirst_same:
  "(\<And>x. P (f x) = P x) \<Longrightarrow> find P (updateFirst P f xs) = map_option f (find P xs)"
  by (induction xs) auto

lemma find_updateFirst_other:
  "(\<And>x. Q (f x) = Q x) \<Longrightarrow> (\<And>x. Q x \<Longrightarrow> \<not> P x) \<Longrightarrow>
     find Q (updateFirst P f xs) = find Q xs"
  by (induction xs) auto

lemma updateFirst_none: "find P xs = None \<Longrightarrow> updateFirst P f xs = xs"
  by (induction xs) (auto split: if_splits)

lemma length_updateFirst: "length (updateFirst P f xs) = length xs"
  by (induction xs) auto

lemma nth_updateFirst_other:
  "i < length xs \<Longrightarrow> \<not> P (xs ! i) \<Longrightarrow> updateFirst P f xs ! i = xs ! i"
proof (induction xs arbitrary: i)
  case Nil
  then show ?case by simp
next
  case (Cons x xs)
  show ?case
  proof (cases i)
    case 0
    with Cons.prems show ?thesis by simp
  next
    case (Suc j)
    with Cons.prems Cons.IH [of j] show ?thesis by simp
  qed
qed

lemma map_updateFirst: "(\<And>x. g (f x) = g x) \<Longrightarrow> map g (updateFirst P f xs) = map g xs"
  by (induction xs) auto

lemma markAsReadBegin_messageCache:
  "cached (snd (markAsReadBegin p s)) k =
     (if k = JNum p then map (markUnread (JNum p)) (cached s (JNum p)) else cached s k)"
  by (simp add: markAsReadBegin_def Let_def updateConversationUnreadCount_def cached_def
      split: option.splits)

lemma markAsReadBegin_conversationCache:
  "conversationCache (snd (markAsReadBegin p s)) =
     updateFirst (\<lambda>c. otherUserId c = JNum p) (\<lambda>c. c\<lparr>unreadCount := 0\<rparr>) (conversationCache s)"
  by (simp add: markAsReadBegin_def Let_def updateConversationUnreadCount_def
      split: option.splits)

lemma markAsReadSaved_fields:
  "messageCache (snd (markAsReadSaved saveOk sendOk request s)) = messageCache s"
  "conversationCache (snd (markAsReadSaved saveOk sendOk request s)) = conversationCache s"
  by (simp_all add: markAsReadSaved_def split: prod.splits sum.splits)

lemma markUnread_read:
  "o_senderId (markUnread k x) = k \<Longrightarrow> truthy (o_isRead (markUnread k x))"
  by (cases "o_senderId x = k \<and> \<not> truthy (o_isRead x)") (auto simp: markUnread_def)


section \<open>Ingesting a message twice\<close>

text \<open>
  C1 (as stated, refuted).  User 1 has the conversation with peer 7 that the server listed.
  Ingesting the unread message 10 from peer 7 once leaves one row and an unread count of 1;
  ingesting it twice leaves two rows and an unread count of 2.  The offline batch of the
  messages 10, 11 and 12 from peer 7 gives an unread count of 3 when it is received once
  and of 6 when it is received twice.
\<close>

theorem ingest_twice_counterexample:
  "cached (handleNewMessage 2000 (confirmed 10 7 1 ''hi'' 1000)
      (loadConversationsFromServer (Some [listed 1 7 ''Peer'']) (signedIn 1))) (JNum 7)
     = [confirmed 10 7 1 ''hi'' 1000]
   \<and> cached (handleNewMessage 3000 (confirmed 10 7 1 ''hi'' 1000)
       (handleNewMessage 2000 (confirmed 10 7 1 ''hi'' 1000)
         (loadConversationsFromServer (Some [listed 1 7 ''Peer'']) (signedIn 1)))) (JNum 7)
     = [confirmed 10 7 1 ''hi'' 1000, confirmed 10 7 1 ''hi'' 1000]
   \<and> unreadOf (handleNewMessage 2000 (confirmed 10 7 1 ''hi'' 1000)
      (loadConversationsFromServer (Some [listed 1 7 ''Peer'']) (signedIn 1))) (JNum 7) = 1
   \<and> unreadOf (handleNewMessage 3000 (confirmed 10 7 1 ''hi'' 1000)
       (handleNewMessage 2000 (confirmed 10 7 1 ''hi'' 1000)
         (loadConversationsFromServer (Some [listed 1 7 ''Peer'']) (signedIn 1)))) (JNum 7) = 2
   \<and> unreadOf (chatHandleOfflineMessages 2000
        [confirmed 10 7 1 ''a'' 1000, confirmed 11 7 1 ''b'' 1001, confirmed 12 7 1 ''c'' 1002]
        (loadConversationsFromServer (Some [listed 1 7 ''Peer'']) (signedIn 1))) (JNum 7) = 3
   \<and> unreadOf (chatHandleOfflineMessages 3000
        [confirmed 10 7 1 ''a'' 1000, confirmed 11 7 1 ''b'' 1001, confirmed 12 7 1 ''c'' 1002]
        (chatHandleOfflineMessages 2000
          [confirmed 10 7 1 ''a'' 1000, confirmed 11 7 1 ''b'' 1001, confirmed 12 7 1 ''c'' 1002]
          (loadConversationsFromServer (Some [listed 1 7 ''Peer'']) (signedIn 1)))) (JNum 7) = 6"
proof -
  let ?s = "loadConversationsFromServer (Some [listed 1 7 ''Peer'']) (signedIn 1)"
  let ?m = "confirmed 10 7 1 ''hi'' 1000"
  let ?ms = "[confirmed 10 7 1 ''a'' 1000, confirmed 11 7 1 ''b'' 1001, confirmed 12 7 1 ''c'' 1002]"
  have s: "currentUserId ?s = 1" "cached ?s (JNum 7) = []" "unreadOf ?s (JNum 7) = 0"
    by (simp_all add: loadConversationsFromServer_fields signedIn_fields unreadOf_def
        conversationOf_def listed_def)
  have c: "conversationOf ?s (JNum 7) = Some (listed 1 7 ''Peer'')"
    by (simp add: conversationOf_def loadConversationsFromServer_fields listed_def)
  have m: "o_senderId ?m = JNum 7"
    by (simp add: confirmed_def)
  have p: "7 \<noteq> currentUserId ?s"
    by (simp add: s)
  note h1 = handleNewMessage_found [OF m p c, of 2000]
  have p1: "7 \<noteq> currentUserId (handleNewMessage 2000 ?m ?s)"
    by (simp add: handleNewMessage_fields s)
  note h2 = handleNewMessage_found [OF m p1 h1(1), of 3000]
  have ms: "\<forall>m \<in> set ?ms. o_senderId m = JNum 7"
    by (simp add: confirmed_def)
  have c0: "conversationOf ?s (JNum 7) \<noteq> None"
    by (simp add: c)
  note b1 = batch_found [OF ms p c0, of 2000]
  have pb: "7 \<noteq> currentUserId (chatHandleOfflineMessages 2000 ?ms ?s)"
    by (simp add: batch_fields s del: chatHandleOfflineMessages.simps)
  note b2 = batch_found [OF ms pb conjunct1 [OF b1], of 3000]
  have r1: "cached (handleNewMessage 2000 ?m ?s) (JNum 7) = [?m]"
    by (simp add: cached_handleNewMessage m s)
  have r2: "cached (handleNewMessage 3000 ?m (handleNewMessage 2000 ?m ?s)) (JNum 7) = [?m, ?m]"
    by (simp add: cached_handleNewMessage m s)
  have u1: "unreadOf (handleNewMessage 2000 ?m ?s) (JNum 7) = 1"
    by (simp add: h1(2) s)
  have u2: "unreadOf (handleNewMessage 3000 ?m (handleNewMessage 2000 ?m ?s)) (JNum 7) = 2"
    by (simp add: h2(2) h1(2) s)
  have u3: "unreadOf (chatHandleOfflineMessages 2000 ?ms ?s) (JNum 7) = 3"
    using b1 by (simp add: s del: chatHandleOfflineMessages.simps)
  have u6: "unreadOf (chatHandleOfflineMessages 3000 ?ms (chatHandleOfflineMessages 2000 ?ms ?s))
      (JNum 7) = 6"
    using b2 by (simp add: u3 del: chatHandleOfflineMessages.simps)
  show ?thesis
    using r1 r2 u1 u2 u3 u6 by blast
qed

text \<open>
  C1 (amended).  Nothing compares an inbound message with the rows already stored: every
  ingest of a message from peer \<open>p\<close> appends a row to the message list of \<open>p\<close>, so
  ingesting it twice leaves two more rows, and an offline batch received twice leaves each
  of its messages twice in the list of its sender.  And every ingest of a message of
  another user for whom the conversation list holds a conversation (one whose
  \<^verbatim>\<open>otherUserId\<close> is the sender's id) adds one to the unread count of that conversation:
  ingesting the message twice adds two, and a batch of messages of that peer received
  twice adds twice the number of its messages.
\<close>

theorem ingest_twice:
  assumes "o_senderId m = JNum p" and "p \<noteq> currentUserId s"
  shows "cached (handleNewMessage now m s) (JNum p) = cached s (JNum p) @ [m]
       \<and> cached (handleNewMessage now' m (handleNewMessage now m s)) (JNum p)
           = cached s (JNum p) @ [m, m]
       \<and> cached (chatHandleOfflineMessages now' ms (chatHandleOfflineMessages now ms s)) (JNum q)
           = cached s (JNum q) @ filter (\<lambda>x. o_senderId x = JNum q) ms
               @ filter (\<lambda>x. o_senderId x = JNum q) ms
       \<and> (conversationOf s (JNum p) \<noteq> None \<longrightarrow>
            unreadOf (handleNewMessage now m s) (JNum p) = unreadOf s (JNum p) + 1
          \<and> unreadOf (handleNewMessage now' m (handleNewMessage now m s)) (JNum p)
              = unreadOf s (JNum p) + 2)
       \<and> (conversationOf s (JNum p) \<noteq> None \<and> (\<forall>x \<in> set ms. o_senderId x = JNum p) \<longrightarrow>
            unreadOf (chatHandleOfflineMessages now ms s) (JNum p)
              = unreadOf s (JNum p) + int (length ms)
          \<and> unreadOf (chatHandleOfflineMessages now' ms (chatHandleOfflineMessages now ms s)) (JNum p)
              = unreadOf s (JNum p) + 2 * int (length ms))"
proof (intro conjI impI)
  show "cached (handleNewMessage now m s) (JNum p) = cached s (JNum p) @ [m]"
    by (simp add: cached_handleNewMessage assms(1))
  show "cached (handleNewMessage now' m (handleNewMessage now m s)) (JNum p)
           = cached s (JNum p) @ [m, m]"
    by (simp add: cached_handleNewMessage assms(1))
  show "cached (chatHandleOfflineMessages now' ms (chatHandleOfflineMessages now ms s)) (JNum q)
           = cached s (JNum q) @ filter (\<lambda>x. o_senderId x = JNum q) ms
               @ filter (\<lambda>x. o_senderId x = JNum q) ms"
    by (simp add: cached_batch)
next
  assume "conversationOf s (JNum p) \<noteq> None"
  then obtain c where c: "conversationOf s (JNum p) = Some c" by blast
  note h1 = handleNewMessage_found [OF assms c, of now]
  have p1: "p \<noteq> currentUserId (handleNewMessage now m s)"
    using assms(2) by (simp add: handleNewMessage_fields)
  note h2 = handleNewMessage_found [OF assms(1) p1 h1(1), of now']
  show "unreadOf (handleNewMessage now m s) (JNum p) = unreadOf s (JNum p) + 1"
    by (rule h1(2))
  show "unreadOf (handleNewMessage now' m (handleNewMessage now m s)) (JNum p)
              = unreadOf s (JNum p) + 2"
    by (simp add: h2(2) h1(2))
next
  assume a: "conversationOf s (JNum p) \<noteq> None \<and> (\<forall>x \<in> set ms. o_senderId x = JNum p)"
  then have ms: "\<forall>x \<in> set ms. o_senderId x = JNum p" and c: "conversationOf s (JNum p) \<noteq> None"
    by simp_all
  note b1 = batch_found [OF ms assms(2) c, of now]
  have pb: "p \<noteq> currentUserId (chatHandleOfflineMessages now ms s)"
    using assms(2) by (simp add: batch_fields)
  note b2 = batch_found [OF ms pb conjunct1 [OF b1], of now']
  show "unreadOf (chatHandleOfflineMessages now ms s) (JNum p)
              = unreadOf s (JNum p) + int (length ms)"
    using b1 by simp
  show "unreadOf (chatHandleOfflineMessages now' ms (chatHandleOfflineMessages now ms s)) (JNum p)
              = unreadOf s (JNum p) + 2 * int (length ms)"
    using b1 b2 by simp
qed

theorem ingest_twice_witness:
  "cached (handleNewMessage 3000 (confirmed 10 7 1 ''hi'' 1000)
       (handleNewMessage 2000 (confirmed 10 7 1 ''hi'' 1000)
         (loadConversationsFromServer (Some [listed 1 7 ''Peer'']) (signedIn 1)))) (JNum 7)
     = [confirmed 10 7 1 ''hi'' 1000, confirmed 10 7 1 ''hi'' 1000]
   \<and> unreadOf (handleNewMessage 3000 (confirmed 10 7 1 ''hi'' 1000)
       (handleNewMessage 2000 (confirmed 10 7 1 ''hi'' 1000)
         (loadConversationsFromServer (Some [listed 1 7 ''Peer'']) (signedIn 1)))) (JNum 7) = 2
   \<and> unreadOf (chatHandleOfflineMessages 3000
        [confirmed 10 7 1 ''hi'' 1000, confirmed 11 7 1 ''b'' 1001]
        (chatHandleOfflineMessages 2000
          [confirmed 10 7 1 ''hi'' 1000, confirmed 11 7 1 ''b'' 1001]
          (loadConversationsFromServer (Some [listed 1 7 ''Peer'']) (signedIn 1)))) (JNum 7) = 4"
proof -
  let ?s = "loadConversationsFromServer (Some [listed 1 7 ''Peer'']) (signedIn 1)"
  let ?m = "confirmed 10 7 1 ''hi'' 1000"
  let ?ms = "[confirmed 10 7 1 ''hi'' 1000, confirmed 11 7 1 ''b'' 1001]"
  have s: "currentUserId ?s = 1" "cached ?s (JNum 7) = []" "unreadOf ?s (JNum 7) = 0"
    by (simp_all add: loadConversationsFromServer_fields signedIn_fields unreadOf_def
        conversationOf_def listed_def)
  have c: "conversationOf ?s (JNum 7) \<noteq> None"
    by (simp add: conversationOf_def loadConversationsFromServer_fields listed_def)
  have m: "o_senderId ?m = JNum 7"
    by (simp add: confirmed_def)
  have p: "7 \<noteq> currentUserId ?s"
    by (simp add: s)
  have ms: "\<forall>x \<in> set ?ms. o_senderId x = JNum 7"
    by (simp add: confirmed_def)
  show ?thesis
    using ingest_twice [OF m p, where now = 2000 and now' = 3000 and ms = ?ms and q = 7] c ms s
    by (simp del: chatHandleOfflineMessages.simps)
qed


section \<open>Sending while not connected\<close>

text \<open>
  C2 (as stated, refuted).  User 1 calls \<^verbatim>\<open>sendMessage\<close> twice while the connection is
  being set up, first with body a, then with body b.  When local storage answers both
  calls before the socket opens, nothing has reached the transport once the socket is open:
  both frames are lost.  When the socket opens first and local storage then answers the
  second call before the first, both frames reach the transport, b before a.
\<close>

theorem send_while_disconnected_counterexample:
  "status (webSocketManager (connecting 1)) = CONNECTING
   \<and> sent (exec [Call 1000 7 ''a'', Call 1001 7 ''b'', SaveDone 0 True True,
                 SaveDone 0 True True, Socket EvOpen] ([], connecting 1)) = []
   \<and> fst (exec [Call 1000 7 ''a'', Call 1001 7 ''b'', SaveDone 0 True True,
                 SaveDone 0 True True, Socket EvOpen] ([], connecting 1)) = []
   \<and> status (webSocketManager (snd (exec [Call 1000 7 ''a'', Call 1001 7 ''b'',
                 SaveDone 0 True True, SaveDone 0 True True, Socket EvOpen] ([], connecting 1))))
       = CONNECTED
   \<and> sent (exec [Call 1000 7 ''a'', Call 1001 7 ''b'', Socket EvOpen,
                 SaveDone 1 True True, SaveDone 0 True True] ([], connecting 1))
       = [(SEND_PRIVATE_MESSAGE, sendMessageRequestJson 1 7 ''b'' ''text''),
          (SEND_PRIVATE_MESSAGE, sendMessageRequestJson 1 7 ''a'' ''text'')]"
  by (simp add: connecting_def signedIn_def newChatManager_def sent_def sendMessageBegin_def
      sendMessageSaved_def sendPrivateMessage_def emit_def addMessageToCache_def cached_def
      connect_def newWebSocketManager_def onOpen_def notifyConnectionListeners_def Let_def)

text \<open>
  C2 (amended).  \<^verbatim>\<open>sendMessage\<close> keeps no queue.  A frame reaches the transport at one
  moment only: when local storage answers a waiting call, the write succeeded, the
  connection is connected at that moment, and the socket accepts the frame; the frame is
  then the request of that call.  Neither a call nor a socket event hands anything to the
  transport.  So when the connection is not connected, no socket opens while a sequence of
  calls is made and answered by local storage, and no call is left waiting, then nothing
  has reached the transport, and nothing does afterwards without a new call, whatever the
  socket does: the frames are lost.
\<close>

theorem send_while_disconnected:
  assumes "status (webSocketManager s) \<noteq> CONNECTED"
    and "Socket EvOpen \<notin> set as1"
    and "fst (exec as1 (waiting, s)) = []"
    and "\<forall>a \<in> set as2. \<not> isCall a"
  shows "sent (exec as1 (waiting, s)) = sent (waiting, s)
       \<and> sent (exec as2 (exec as1 (waiting, s))) = sent (waiting, s)
       \<and> fst (exec as2 (exec as1 (waiting, s))) = []
       \<and> (\<forall>now r body c. sent (act (Call now r body) c) = sent c)
       \<and> (\<forall>e c. sent (act (Socket e) c) = sent c)
       \<and> (\<forall>i saveOk sendOk ws t. sent (act (SaveDone i saveOk sendOk) (ws, t)) =
            (if i < length ws \<and> saveOk \<and> sendOk \<and> status (webSocketManager t) = CONNECTED
                \<and> webSocket (webSocketManager t) \<noteq> None
             then sent (ws, t) @ [(SEND_PRIVATE_MESSAGE, fst (ws ! i))]
             else sent (ws, t)))"
proof -
  have 1: "sent (exec as1 (waiting, s)) = sent (waiting, s)"
    using assms(2) assms(1) by (intro exec_not_connected) simp_all
  note 2 = exec_nothing_waiting [OF assms(4) assms(3)]
  show ?thesis
    using 1 2 by (simp add: sent_act_Call sent_act_Socket sent_act_SaveDone del: act.simps)
qed

theorem send_while_disconnected_witness:
  "sent (exec [SaveDone 0 True True, Socket EvOpen, SaveDone 0 True True]
      (exec [Call 1000 7 ''a'', Call 1001 7 ''b'', SaveDone 1 True True, SaveDone 0 False True]
        ([], connecting 1))) = []
   \<and> fst (exec [SaveDone 0 True True, Socket EvOpen, SaveDone 0 True True]
      (exec [Call 1000 7 ''a'', Call 1001 7 ''b'', SaveDone 1 True True, SaveDone 0 False True]
        ([], connecting 1))) = []"
proof -
  let ?as1 = "[Call 1000 7 ''a'', Call 1001 7 ''b'', SaveDone 1 True True, SaveDone 0 False True]"
  let ?as2 = "[SaveDone 0 True True, Socket EvOpen, SaveDone 0 True True]"
  have h1: "status (webSocketManager (connecting 1)) \<noteq> CONNECTED"
    by (simp add: connecting_def connect_def newWebSocketManager_def)
  have h2: "Socket EvOpen \<notin> set ?as1"
    by simp
  have h3: "fst (exec ?as1 ([], connecting 1)) = []"
    by (simp add: sendMessageBegin_def Let_def)
  have h4: "\<forall>a \<in> set ?as2. \<not> isCall a"
    by simp
  have s0: "sent ([], connecting 1) = []"
    by (simp add: sent_def connecting_def connect_def newWebSocketManager_def)
  show ?thesis
    using send_while_disconnected [OF h1 h2 h3 h4] s0
    by (simp del: exec.simps act.simps)
qed


section \<open>A pending message and its confirmed counterpart\<close>

text \<open>
  C4 (as stated, refuted).  User 1 sends ``hi'' to user 7; the call completes, the server
  acknowledges it with id 10, and the confirmed message 10 from user 1 to user 7 arrives.
  The store then holds two entries: the local one, still in the list of user 7, and the
  confirmed one in the list of user 1.
\<close>

theorem pending_confirmed_counterexample:
  "cached (handleNewMessage 3000 (confirmed 10 1 7 ''hi'' 1000)
      (chatOnMessageSent (JBool True) (JNum 10)
        (snd (sendMessageSaved True True (fst (sendMessageBegin 1000 7 ''hi'' (signedIn 1)))
               (snd (sendMessageBegin 1000 7 ''hi'' (signedIn 1))))))) (JNum 7)
     = [snd (fst (sendMessageBegin 1000 7 ''hi'' (signedIn 1)))]
   \<and> cached (handleNewMessage 3000 (confirmed 10 1 7 ''hi'' 1000)
      (chatOnMessageSent (JBool True) (JNum 10)
        (snd (sendMessageSaved True True (fst (sendMessageBegin 1000 7 ''hi'' (signedIn 1)))
               (snd (sendMessageBegin 1000 7 ''hi'' (signedIn 1))))))) (JNum 1)
     = [confirmed 10 1 7 ''hi'' 1000]
   \<and> dom (messageCache (handleNewMessage 3000 (confirmed 10 1 7 ''hi'' 1000)
      (chatOnMessageSent (JBool True) (JNum 10)
        (snd (sendMessageSaved True True (fst (sendMessageBegin 1000 7 ''hi'' (signedIn 1)))
               (snd (sendMessageBegin 1000 7 ''hi'' (signedIn 1)))))))) = {JNum 1, JNum 7}"
proof -
  let ?b = "sendMessageBegin 1000 7 ''hi'' (signedIn 1)"
  let ?s3 = "chatOnMessageSent (JBool True) (JNum 10) (snd (sendMessageSaved True True (fst ?b) (snd ?b)))"
  have mc: "messageCache ?s3 = messageCache (snd ?b)"
    by (simp add: chatOnMessageSent_def notify_fields sendMessageSaved_fields)
  have b: "messageCache (snd ?b) = [JNum 7 \<mapsto> [snd (fst ?b)]]"
    by (simp add: sendMessageBegin_def Let_def addMessageToCache_def signedIn_fields)
  have m: "o_senderId (confirmed 10 1 7 ''hi'' 1000) = JNum 1"
    by (simp add: confirmed_def)
  have c: "cached ?s3 k = (if k = JNum 7 then [snd (fst ?b)] else [])" for k
    by (simp add: cached_def mc b)
  have d: "messageCache (handleNewMessage 3000 (confirmed 10 1 7 ''hi'' 1000) ?s3)
      = [JNum 7 \<mapsto> [snd (fst ?b)], JNum 1 \<mapsto> [confirmed 10 1 7 ''hi'' 1000]]"
    by (simp add: messageCache_handleNewMessage m c mc b)
  show ?thesis
    by (simp add: cached_def d) 
qed

text \<open>
  C4 (amended).  No stored message is ever matched with an inbound one.  \<^verbatim>\<open>sendMessage\<close>
  appends its local message to the message list of the receiver; the rest of the call and
  the acknowledgement \<^verbatim>\<open>message_sent\<close> change no stored message; and a message that
  arrives afterwards, the confirmed counterpart included, is appended to the list of its
  sender.  So after the three steps every list holds what it held before, then the local
  message if it is the list of the receiver, then the arrived message if it is the list of
  its sender: two entries more, none replaced.
\<close>

theorem pending_confirmed:
  assumes "o_senderId m = JNum p"
  shows "cached (handleNewMessage now' m
            (chatOnMessageSent ok i
              (snd (sendMessageSaved saveOk sendOk (fst (sendMessageBegin now r body s))
                     (snd (sendMessageBegin now r body s)))))) k
          = cached s k
            @ (if k = JNum r then [snd (fst (sendMessageBegin now r body s))] else [])
            @ (if k = JNum p then [m] else [])
       \<and> messageCache (chatOnMessageSent ok i
              (snd (sendMessageSaved saveOk sendOk (fst (sendMessageBegin now r body s))
                     (snd (sendMessageBegin now r body s)))))
          = messageCache (snd (sendMessageBegin now r body s))"
proof -
  let ?b = "sendMessageBegin now r body s"
  let ?s3 = "chatOnMessageSent ok i (snd (sendMessageSaved saveOk sendOk (fst ?b) (snd ?b)))"
  have mc: "messageCache ?s3 = messageCache (snd ?b)"
    by (simp add: chatOnMessageSent_def notify_fields sendMessageSaved_fields)
  then have c: "cached ?s3 j = cached (snd ?b) j" for j
    by (simp add: cached_def)
  have "cached (handleNewMessage now' m ?s3) k
      = cached s k @ (if k = JNum r then [snd (fst ?b)] else []) @ (if k = JNum p then [m] else [])"
    by (simp add: cached_handleNewMessage assms c cached_sendMessageBegin)
  with mc show ?thesis by simp
qed

theorem pending_confirmed_witness:
  "cached (handleNewMessage 3000 (confirmed 10 1 7 ''hi'' 1000)
      (chatOnMessageSent (JBool True) (JNum 10)
        (snd (sendMessageSaved True True (fst (sendMessageBegin 1000 7 ''hi'' (signedIn 1)))
               (snd (sendMessageBegin 1000 7 ''hi'' (signedIn 1))))))) (JNum 7)
     = [snd (fst (sendMessageBegin 1000 7 ''hi'' (signedIn 1)))]
   \<and> cached (handleNewMessage 3000 (confirmed 10 1 7 ''hi'' 1000)
      (chatOnMessageSent (JBool True) (JNum 10)
        (snd (sendMessageSaved True True (fst (sendMessageBegin 1000 7 ''hi'' (signedIn 1)))
               (snd (sendMessageBegin 1000 7 ''hi'' (signedIn 1))))))) (JNum 1)
     = [confirmed 10 1 7 ''hi'' 1000]"
proof -
  have m: "o_senderId (confirmed 10 1 7 ''hi'' 1000) = JNum 1"
    by (simp add: confirmed_def)
  show ?thesis
    using pending_confirmed [OF m, where now' = 3000 and ok = "JBool True" and i = "JNum 10"
        and saveOk = True and sendOk = True and now = 1000 and r = 7 and body = "''hi''"
        and s = "signedIn 1" and k = "JNum 7"]
      pending_confirmed [OF m, where now' = 3000 and ok = "JBool True" and i = "JNum 10"
        and saveOk = True and sendOk = True and now = 1000 and r = 7 and body = "''hi''"
        and s = "signedIn 1" and k = "JNum 1"]
    by (simp add: signedIn_fields)
qed


section \<open>Marking a peer's messages as read\<close>

text \<open>
  C9.  User 1 starts from the empty store and receives an unread message from peer 7, for
  which \<^verbatim>\<open>updateConversationWithMessage\<close> makes a conversation with an unread count of 1.
  \<^verbatim>\<open>markAsRead(7)\<close> then marks the message as read, but
  \<^verbatim>\<open>updateConversationUnreadCount\<close> looks for a conversation whose \<^verbatim>\<open>otherUserId\<close> is
  7, and the conversation made for peer 7 has 7 as its \<^verbatim>\<open>id\<close> and the name as its
  \<^verbatim>\<open>otherUserId\<close>: it is not found and keeps its unread count of 1, also when the call
  has completed.
\<close>

theorem markAsRead_created_conversation:
  "map o_isRead (cached (snd (markAsReadBegin 7
      (handleNewMessage 2000 (confirmed 10 7 1 ''hi'' 1000) (signedIn 1)))) (JNum 7))
     = [JBool True]
   \<and> map cid (conversationCache (snd (markAsReadBegin 7
      (handleNewMessage 2000 (confirmed 10 7 1 ''hi'' 1000) (signedIn 1))))) = [JNum 7]
   \<and> map otherUserId (conversationCache (snd (markAsReadBegin 7
      (handleNewMessage 2000 (confirmed 10 7 1 ''hi'' 1000) (signedIn 1))))) = [JStr unknownUser]
   \<and> map unreadCount (conversationCache (snd (markAsReadBegin 7
      (handleNewMessage 2000 (confirmed 10 7 1 ''hi'' 1000) (signedIn 1))))) = [1]
   \<and> conversationOf (snd (markAsReadBegin 7
      (handleNewMessage 2000 (confirmed 10 7 1 ''hi'' 1000) (signedIn 1)))) (JNum 7) = None
   \<and> map unreadCount (conversationCache (snd (markAsReadSaved True True
        (fst (markAsReadBegin 7 (handleNewMessage 2000 (confirmed 10 7 1 ''hi'' 1000) (signedIn 1))))
        (snd (markAsReadBegin 7
          (handleNewMessage 2000 (confirmed 10 7 1 ''hi'' 1000) (signedIn 1))))))) = [1]"
  by (simp add: handleNewMessage_def notify_def updateConversationWithMessage_def
      addMessageToCache_def otherOf_def touched_def newChatConversation_def cached_def
      signedIn_def newChatManager_def confirmed_def conversationOf_def
      markAsReadBegin_def markAsReadSaved_def wsMarkAsRead_def emit_def newWebSocketManager_def
      markUnread_def updateConversationUnreadCount_def js_or_def Let_def)


section \<open>Unread count and read receipts\<close>

text \<open>
  C3.  The invariant of the claim fails in two ways.

  First, user 1 starts from the empty store and receives two unread messages from peer 7.
  \<^verbatim>\<open>updateConversationWithMessage\<close> looks for a conversation whose \<^verbatim>\<open>otherUserId\<close> is 7,
  finds none and constructs one from \<^verbatim>\<open>(7, name)\<close>; the constructor takes these as the
  \<^verbatim>\<open>id\<close> and the \<^verbatim>\<open>otherUserId\<close>.  The second message finds none either.  The store ends
  up with two conversations made for peer 7, each with an unread count of 1, while two
  unread messages from peer 7 are stored; none of the two is found by the id of the peer.

  Second, user 1 has the conversation with peer 7 that the server listed and receives an
  unread message from peer 7: the unread count is 1.  The read receipt of peer 7 then marks
  the message as read and leaves the unread count at 1, with no unread message from peer 7
  in the store.  \<^verbatim>\<open>markAsRead(7)\<close> in the same state marks the message and sets the
  unread count to 0.
\<close>

theorem unread_count_invariant_broken:
  "map cid (conversationCache (handleNewMessage 2001 (confirmed 11 7 1 ''again'' 1001)
      (handleNewMessage 2000 (confirmed 10 7 1 ''hi'' 1000) (signedIn 1)))) = [JNum 7, JNum 7]
   \<and> map otherUserId (conversationCache (handleNewMessage 2001 (confirmed 11 7 1 ''again'' 1001)
      (handleNewMessage 2000 (confirmed 10 7 1 ''hi'' 1000) (signedIn 1))))
       = [JStr unknownUser, JStr unknownUser]
   \<and> map unreadCount (conversationCache (handleNewMessage 2001 (confirmed 11 7 1 ''again'' 1001)
      (handleNewMessage 2000 (confirmed 10 7 1 ''hi'' 1000) (signedIn 1)))) = [1, 1]
   \<and> unreadFrom (handleNewMessage 2001 (confirmed 11 7 1 ''again'' 1001)
      (handleNewMessage 2000 (confirmed 10 7 1 ''hi'' 1000) (signedIn 1))) (JNum 7) = 2
   \<and> conversationOf (handleNewMessage 2001 (confirmed 11 7 1 ''again'' 1001)
      (handleNewMessage 2000 (confirmed 10 7 1 ''hi'' 1000) (signedIn 1))) (JNum 7) = None
   \<and> unreadOf (handleNewMessage 2000 (confirmed 10 7 1 ''hi'' 1000)
        (loadConversationsFromServer (Some [listed 1 7 ''Peer'']) (signedIn 1))) (JNum 7) = 1
   \<and> unreadFrom (handleNewMessage 2000 (confirmed 10 7 1 ''hi'' 1000)
        (loadConversationsFromServer (Some [listed 1 7 ''Peer'']) (signedIn 1))) (JNum 7) = 1
   \<and> unreadOf (chatHandleMessageRead (JNum 7)
        (handleNewMessage 2000 (confirmed 10 7 1 ''hi'' 1000)
          (loadConversationsFromServer (Some [listed 1 7 ''Peer'']) (signedIn 1)))) (JNum 7) = 1
   \<and> unreadFrom (chatHandleMessageRead (JNum 7)
        (handleNewMessage 2000 (confirmed 10 7 1 ''hi'' 1000)
          (loadConversationsFromServer (Some [listed 1 7 ''Peer'']) (signedIn 1)))) (JNum 7) = 0
   \<and> unreadOf (snd (markAsReadBegin 7
        (handleNewMessage 2000 (confirmed 10 7 1 ''hi'' 1000)
          (loadConversationsFromServer (Some [listed 1 7 ''Peer'']) (signedIn 1))))) (JNum 7) = 0
   \<and> unreadFrom (snd (markAsReadBegin 7
        (handleNewMessage 2000 (confirmed 10 7 1 ''hi'' 1000)
          (loadConversationsFromServer (Some [listed 1 7 ''Peer'']) (signedIn 1))))) (JNum 7) = 0"
  by (simp add: handleNewMessage_def notify_def updateConversationWithMessage_def
      addMessageToCache_def otherOf_def touched_def newChatConversation_def cached_def
      signedIn_def newChatManager_def confirmed_def listed_def loadConversationsFromServer_def
      conversationOf_def unreadOf_def unreadFrom_def chatHandleMessageRead_def markRead_def
      markAsReadBegin_def markUnread_def updateConversationUnreadCount_def js_or_def Let_def)


section \<open>The effect of markAsRead on a store\<close>

text \<open>
  X1.  What \<^verbatim>\<open>markAsRead(p)\<close> does to an arbitrary store.  In the message list of \<open>p\<close>
  every message of sender \<open>p\<close> ends up read and nothing else of the list changes; every
  other list is left as it is.  The first conversation whose \<^verbatim>\<open>otherUserId\<close> is \<open>p\<close>,
  when there is one, gets an unread count of 0; every conversation whose \<^verbatim>\<open>otherUserId\<close>
  is not \<open>p\<close> stays as it is, at its place; and when no conversation has \<open>p\<close> as its
  \<^verbatim>\<open>otherUserId\<close> the conversation list does not change at all.  The rest of the call,
  after local storage has answered, changes neither the messages nor the conversations.
\<close>

theorem markAsRead_frame:
  "cached (snd (markAsReadBegin p s)) (JNum p) = map (markUnread (JNum p)) (cached s (JNum p))
   \<and> (\<forall>x \<in> set (cached (snd (markAsReadBegin p s)) (JNum p)).
        o_senderId x = JNum p \<longrightarrow> truthy (o_isRead x))
   \<and> (\<forall>k. k \<noteq> JNum p \<longrightarrow> cached (snd (markAsReadBegin p s)) k = cached s k)
   \<and> (\<forall>c. conversationOf s (JNum p) = Some c \<longrightarrow>
        conversationOf (snd (markAsReadBegin p s)) (JNum p) = Some (c\<lparr>unreadCount := 0\<rparr>))
   \<and> (conversationOf s (JNum p) = None \<longrightarrow>
        conversationCache (snd (markAsReadBegin p s)) = conversationCache s)
   \<and> length (conversationCache (snd (markAsReadBegin p s))) = length (conversationCache s)
   \<and> (\<forall>i. i < length (conversationCache s) \<and> otherUserId (conversationCache s ! i) \<noteq> JNum p \<longrightarrow>
        conversationCache (snd (markAsReadBegin p s)) ! i = conversationCache s ! i)
   \<and> messageCache (snd (markAsReadSaved saveOk sendOk (fst (markAsReadBegin p s))
        (snd (markAsReadBegin p s)))) = messageCache (snd (markAsReadBegin p s))
   \<and> conversationCache (snd (markAsReadSaved saveOk sendOk (fst (markAsReadBegin p s))
        (snd (markAsReadBegin p s)))) = conversationCache (snd (markAsReadBegin p s))"
proof (intro conjI allI impI ballI)
  show "cached (snd (markAsReadBegin p s)) (JNum p) = map (markUnread (JNum p)) (cached s (JNum p))"
    by (simp add: markAsReadBegin_messageCache)
  show "truthy (o_isRead x)"
    if "x \<in> set (cached (snd (markAsReadBegin p s)) (JNum p))" "o_senderId x = JNum p" for x
  proof -
    from that(1) obtain y where "x = markUnread (JNum p) y"
      by (auto simp: markAsReadBegin_messageCache)
    with that(2) show ?thesis
      using markUnread_read [of "JNum p" y] by simp
  qed
  show "cached (snd (markAsReadBegin p s)) k = cached s k" if "k \<noteq> JNum p" for k
    using that by (simp add: markAsReadBegin_messageCache)
  show "conversationOf (snd (markAsReadBegin p s)) (JNum p) = Some (c\<lparr>unreadCount := 0\<rparr>)"
    if "conversationOf s (JNum p) = Some c" for c
    using that
      find_updateFirst_same [of "\<lambda>c. otherUserId c = JNum p" "\<lambda>c. c\<lparr>unreadCount := 0\<rparr>"
        "conversationCache s"]
    by (simp add: conversationOf_def markAsReadBegin_conversationCache)
  show "conversationCache (snd (markAsReadBegin p s)) = conversationCache s"
    if "conversationOf s (JNum p) = None"
    using that by (simp add: conversationOf_def markAsReadBegin_conversationCache updateFirst_none)
  show "length (conversationCache (snd (markAsReadBegin p s))) = length (conversationCache s)"
    by (simp add: markAsReadBegin_conversationCache length_updateFirst)
  show "conversationCache (snd (markAsReadBegin p s)) ! i = conversationCache s ! i"
    if "i < length (conversationCache s) \<and> otherUserId (conversationCache s ! i) \<noteq> JNum p" for i
    using that by (simp add: markAsReadBegin_conversationCache nth_updateFirst_other)
  show "messageCache (snd (markAsReadSaved saveOk sendOk (fst (markAsReadBegin p s))
        (snd (markAsReadBegin p s)))) = messageCache (snd (markAsReadBegin p s))"
    by (simp add: markAsReadSaved_fields)
  show "conversationCache (snd (markAsReadSaved saveOk sendOk (fst (markAsReadBegin p s))
        (snd (markAsReadBegin p s)))) = conversationCache (snd (markAsReadBegin p s))"
    by (simp add: markAsReadSaved_fields)
qed

theorem markAsRead_frame_witness:
  "conversationOf (snd (markAsReadBegin 7
      (handleNewMessage 2000 (confirmed 10 7 1 ''hi'' 1000)
        (loadConversationsFromServer (Some [listed 2 8 ''Other'', listed 1 7 ''Peer'']) (signedIn 1)))))
      (JNum 7)
     = Some ((listed 1 7 ''Peer'')\<lparr>lastMessage := JStr ''hi'', lastMessageTime := JNum 1000,
              unreadCount := 0\<rparr>)
   \<and> conversationCache (snd (markAsReadBegin 7
      (handleNewMessage 2000 (confirmed 10 7 1 ''hi'' 1000)
        (loadConversationsFromServer (Some [listed 2 8 ''Other'', listed 1 7 ''Peer'']) (signedIn 1)))))
      ! 1 = listed 2 8 ''Other''
   \<and> cached (snd (markAsReadBegin 7
      (handleNewMessage 2000 (confirmed 10 7 1 ''hi'' 1000)
        (loadConversationsFromServer (Some [listed 2 8 ''Other'', listed 1 7 ''Peer'']) (signedIn 1)))))
      (JNum 7)
     = [(confirmed 10 7 1 ''hi'' 1000)\<lparr>o_isRead := JBool True\<rparr>]"
proof -
  let ?s = "handleNewMessage 2000 (confirmed 10 7 1 ''hi'' 1000)
        (loadConversationsFromServer (Some [listed 2 8 ''Other'', listed 1 7 ''Peer'']) (signedIn 1))"
  have cc: "conversationCache ?s =
      [(listed 1 7 ''Peer'')\<lparr>lastMessage := JStr ''hi'', lastMessageTime := JNum 1000,
              unreadCount := 1\<rparr>, listed 2 8 ''Other'']"
    by (simp add: handleNewMessage_def notify_def updateConversationWithMessage_def
      addMessageToCache_def otherOf_def touched_def cached_def
      signedIn_def newChatManager_def confirmed_def listed_def loadConversationsFromServer_def)
  have c: "conversationOf ?s (JNum 7) =
      Some ((listed 1 7 ''Peer'')\<lparr>lastMessage := JStr ''hi'', lastMessageTime := JNum 1000,
              unreadCount := 1\<rparr>)"
    by (simp only: conversationOf_def cc) (simp add: listed_def)
  have m: "cached ?s (JNum 7) = [confirmed 10 7 1 ''hi'' 1000]"
    by (simp add: cached_handleNewMessage confirmed_def loadConversationsFromServer_fields
        signedIn_fields)
  have u: "markUnread (JNum 7) (confirmed 10 7 1 ''hi'' 1000)
      = (confirmed 10 7 1 ''hi'' 1000)\<lparr>o_isRead := JBool True\<rparr>"
    by (simp add: markUnread_def confirmed_def)
  have o: "1 < length (conversationCache ?s) \<and> otherUserId (conversationCache ?s ! 1) \<noteq> JNum 7"
    by (simp only: cc) (simp add: listed_def)
  note T = markAsRead_frame [of 7 ?s]
  note T7 = T [THEN conjunct2, THEN conjunct2, THEN conjunct2, THEN conjunct2, THEN conjunct2,
      THEN conjunct2, THEN conjunct1]
  from T7 [THEN spec, of 1] o
  have t7: "conversationCache (snd (markAsReadBegin 7 ?s)) ! 1 = conversationCache ?s ! 1"
    by (rule mp)
  have t7': "conversationCache (snd (markAsReadBegin 7 ?s)) ! 1 = listed 2 8 ''Other''"
    by (simp only: t7 cc) simp
  from T c have t4: "conversationOf (snd (markAsReadBegin 7 ?s)) (JNum 7)
     = Some ((listed 1 7 ''Peer'')\<lparr>lastMessage := JStr ''hi'', lastMessageTime := JNum 1000,
              unreadCount := 0\<rparr>)"
    by simp
  from T m u have t1: "cached (snd (markAsReadBegin 7 ?s)) (JNum 7)
     = [(confirmed 10 7 1 ''hi'' 1000)\<lparr>o_isRead := JBool True\<rparr>]"
    by simp
  show ?thesis
    using t4 t7' t1 by (intro conjI)
qed


section \<open>Serialization round trip\<close>

lemma readProp_toJson:
  "readProp (toJson m) ''id'' = JNum (mid m)"
  "readProp (toJson m) ''senderId'' = JNum (senderId m)"
  "readProp (toJson m) ''receiverId'' = JNum (receiverId m)"
  "readProp (toJson m) ''message'' = JStr (message m)"
  "readProp (toJson m) ''messageType'' = JStr (messageType m)"
  "readProp (toJson m) ''isRead'' = JBool (isRead m)"
  "readProp (toJson m) ''createdAt'' = JNum (createdAt m)"
  "readProp (toJson m) ''senderName'' = optStr (senderName m)"
  "readProp (toJson m) ''senderAvatar'' = optStr (senderAvatar m)"
  by (simp_all add: readProp_def toJson_def)

lemma getProp_toJson_id: "getProp (toJson m) ''id'' = Inr (JNum (mid m))"
  by (simp add: toJson_def)

lemma js_or_simps:
  "js_or (JNum n) (JNum 0) = JNum n"
  "js_or (JStr s) (JStr '''') = JStr s"
  "js_or (JBool b) (JBool False) = JBool b"
  "n \<noteq> 0 \<Longrightarrow> js_or (JNum n) d = JNum n"
  "s \<noteq> [] \<Longrightarrow> js_or (JStr s) d = JStr s"
  "js_or (JNum 0) d = d"
  "js_or (JStr []) d = d"
  "js_or JUndefined d = d"
  by (auto simp: js_or_def)

lemma fromJson_toJson:
  "fromJson now (toJson m) = Inr
     \<lparr> o_id = JNum (mid m), o_senderId = JNum (senderId m),
       o_receiverId = JNum (receiverId m), o_message = JStr (message m),
       o_messageType = js_or (JStr (messageType m)) (JStr ''text''),
       o_isRead = JBool (isRead m),
       o_createdAt = js_or (JNum (createdAt m)) (JNum now),
       o_senderName = js_or (optStr (senderName m)) (JStr ''''),
       o_senderAvatar = js_or (optStr (senderAvatar m)) (JStr '''') \<rparr>"
  by (simp add: fromJson_def getProp_toJson_id readProp_toJson js_or_simps)

lemma fromJson_total:
  "json \<noteq> JUndefined \<Longrightarrow> json \<noteq> JNull \<Longrightarrow> \<exists>obj. fromJson now json = Inr obj"
  by (cases json) (simp_all add: fromJson_def)

text \<open>
  C10 (as stated, refuted).  The claim asks the round trip of every message with a defined
  \<open>senderName\<close> and \<open>senderAvatar\<close> and a nonzero timestamp.  A message whose
  \<open>messageType\<close> is the empty string meets all of that and comes back with
  \<open>messageType = 'text'\<close>: the empty string is falsy, so \<^verbatim>\<open>json.messageType || 'text'\<close>
  takes the default.
\<close>

theorem fromJson_toJson_counterexample:
  "senderName \<lparr> mid = 1, senderId = 2, receiverId = 3, message = ''hi'', messageType = '''',
       isRead = False, createdAt = 1000, senderName = Some ''a'', senderAvatar = Some ''b'' \<rparr> \<noteq> None
   \<and> senderAvatar \<lparr> mid = 1, senderId = 2, receiverId = 3, message = ''hi'', messageType = '''',
       isRead = False, createdAt = 1000, senderName = Some ''a'', senderAvatar = Some ''b'' \<rparr> \<noteq> None
   \<and> createdAt \<lparr> mid = 1, senderId = 2, receiverId = 3, message = ''hi'', messageType = '''',
       isRead = False, createdAt = 1000, senderName = Some ''a'', senderAvatar = Some ''b'' \<rparr> \<noteq> 0
   \<and> fromJson 5000 (toJson \<lparr> mid = 1, senderId = 2, receiverId = 3, message = ''hi'',
       messageType = '''', isRead = False, createdAt = 1000, senderName = Some ''a'',
       senderAvatar = Some ''b'' \<rparr>)
     \<noteq> Inr (toObj \<lparr> mid = 1, senderId = 2, receiverId = 3, message = ''hi'', messageType = '''',
       isRead = False, createdAt = 1000, senderName = Some ''a'', senderAvatar = Some ''b'' \<rparr>)
   \<and> fromJson 5000 (toJson \<lparr> mid = 1, senderId = 2, receiverId = 3, message = ''hi'',
       messageType = '''', isRead = False, createdAt = 1000, senderName = Some ''a'',
       senderAvatar = Some ''b'' \<rparr>)
     = Inr (toObj \<lparr> mid = 1, senderId = 2, receiverId = 3, message = ''hi'',
       messageType = ''text'', isRead = False, createdAt = 1000, senderName = Some ''a'',
       senderAvatar = Some ''b'' \<rparr>)"
  by (simp add: fromJson_toJson js_or_def toObj_def optStr_def)

text \<open>
  C10 (amended).  For every message whose \<open>messageType\<close> is not the empty string, whose
  \<open>senderName\<close> and \<open>senderAvatar\<close> are defined and whose timestamp is nonzero, decoding
  the encoding gives the message back field by field.  A timestamp of exactly 0 decodes
  to the current time.  Decoding never fails on a value other than \<^verbatim>\<open>null\<close> and
  \<^verbatim>\<open>undefined\<close>, and an object with no field at all decodes to the defaults
  \<open>0, 0, 0, '', 'text', false, now, '', ''\<close>.
\<close>

theorem fromJson_toJson_roundtrip:
  "(messageType m \<noteq> [] \<and> senderName m \<noteq> None \<and> senderAvatar m \<noteq> None \<and> createdAt m \<noteq> 0
      \<longrightarrow> fromJson now (toJson m) = Inr (toObj m))
   \<and> (createdAt m = 0 \<longrightarrow>
        (\<exists>obj. fromJson now (toJson m) = Inr obj \<and> o_createdAt obj = JNum now))
   \<and> (json \<noteq> JUndefined \<and> json \<noteq> JNull \<longrightarrow> (\<exists>obj. fromJson now json = Inr obj))
   \<and> fromJson now (JObj []) = Inr
        \<lparr> o_id = JNum 0, o_senderId = JNum 0, o_receiverId = JNum 0, o_message = JStr '''',
          o_messageType = JStr ''text'', o_isRead = JBool False, o_createdAt = JNum now,
          o_senderName = JStr '''', o_senderAvatar = JStr '''' \<rparr>"
proof (intro conjI impI)
  assume h: "messageType m \<noteq> [] \<and> senderName m \<noteq> None \<and> senderAvatar m \<noteq> None \<and> createdAt m \<noteq> 0"
  then obtain a b where ab: "senderName m = Some a" "senderAvatar m = Some b"
    by auto
  show "fromJson now (toJson m) = Inr (toObj m)"
    using h by (simp add: fromJson_toJson toObj_def ab optStr_def js_or_def)
next
  assume "createdAt m = 0"
  then show "\<exists>obj. fromJson now (toJson m) = Inr obj \<and> o_createdAt obj = JNum now"
    by (simp add: fromJson_toJson js_or_def)
next
  assume "json \<noteq> JUndefined \<and> json \<noteq> JNull"
  then show "\<exists>obj. fromJson now json = Inr obj"
    by (simp add: fromJson_total)
next
  show "fromJson now (JObj []) = Inr
        \<lparr> o_id = JNum 0, o_senderId = JNum 0, o_receiverId = JNum 0, o_message = JStr '''',
          o_messageType = JStr ''text'', o_isRead = JBool False, o_createdAt = JNum now,
          o_senderName = JStr '''', o_senderAvatar = JStr '''' \<rparr>"
    by (simp add: fromJson_def readProp_def js_or_def)
qed

theorem fromJson_toJson_roundtrip_witness:
  "fromJson 5000 (toJson \<lparr> mid = 1, senderId = 2, receiverId = 3, message = ''hi'',
       messageType = ''text'', isRead = True, createdAt = 1000, senderName = Some ''a'',
       senderAvatar = Some ''b'' \<rparr>)
     = Inr (toObj \<lparr> mid = 1, senderId = 2, receiverId = 3, message = ''hi'',
       messageType = ''text'', isRead = True, createdAt = 1000, senderName = Some ''a'',
       senderAvatar = Some ''b'' \<rparr>)
   \<and> (\<exists>obj. fromJson 5000 (toJson \<lparr> mid = 1, senderId = 2, receiverId = 3, message = ''hi'',
       messageType = ''text'', isRead = True, createdAt = 0, senderName = Some ''a'',
       senderAvatar = Some ''b'' \<rparr>) = Inr obj \<and> o_createdAt obj = JNum 5000)
   \<and> (\<exists>obj. fromJson 5000 (JNum 7) = Inr obj)"
  using fromJson_toJson_roundtrip [of "\<lparr> mid = 1, senderId = 2, receiverId = 3, message = ''hi'',
       messageType = ''text'', isRead = True, createdAt = 1000, senderName = Some ''a'',
       senderAvatar = Some ''b'' \<rparr>" 5000 "JNum 7"]
    fromJson_toJson_roundtrip [of "\<lparr> mid = 1, senderId = 2, receiverId = 3, message = ''hi'',
       messageType = ''text'', isRead = True, createdAt = 0, senderName = Some ''a'',
       senderAvatar = Some ''b'' \<rparr>" 5000 "JNum 7"]
  by simp

end
